theory Spec2Isabelle
  imports Main "HOL-Library.Word"
begin

section \<open>The antithesis workload of avalanchego (tests/antithesis/main.go)\<close>

text \<open>
  The workload is a client of three collaborators that are not part of the file: a wallet
  (balances, fees, transaction issuance), the chain clients of the nodes (transaction
  status, UTXO fetch, health) and the Go runtime (entropy, timers, the context's Done
  channel). Every call of the source to one of them is a field of the record \<open>env\<close>:
  a function of the arguments the source passes and of a world \<open>'w\<close> (the state of the
  wallet, of the network and of the clock), returning what the source receives and, for
  a call that is not a plain read, the next world. Each function of the source becomes a
  function of the environment, the workload and the world that returns the list of the
  calls it made (with their results) and of the lines it logged, in order, and the world
  it leaves. A \<open>return\<close> from inside a \<open>for\<close> loop is the loop function's boolean
  result \<open>False\<close> (the code after the loop is not run).
\<close>

subsection \<open>Data\<close>

type_synonym uri = string
type_synonym ID = nat \<comment> \<open>ids.ID\<close>
type_synonym ShortID = nat \<comment> \<open>ids.ShortID\<close>
type_synonym u64 = "64 word"
type_synonym Duration = int \<comment> \<open>time.Duration, in nanoseconds\<close>

definition Millisecond :: Duration where
  "Millisecond = 1000000"

definition Second :: Duration where
  "Second = 1000 * Millisecond"

text \<open>An error value; \<open>database.ErrNotFound\<close> is the one the source compares with.\<close>

datatype error = ErrNotFound | Err string

text \<open>
  The status enumerations of snow/choices and vms/platformvm/status (declared outside the
  file); the source compares with \<open>choices.Accepted\<close> and \<open>status.Committed\<close> only.
\<close>

datatype choices_Status =
  choices_Unknown | choices_Processing | choices_Rejected | choices_Accepted

datatype status_Status =
  status_Unknown | status_Committed | status_Aborted | status_Processing | status_Dropped

text \<open>secp256k1fx.OutputOwners; the Go zero value has threshold 0 and no address.\<close>

record OutputOwners =
  Locktime :: u64
  Threshold :: "32 word"
  Addrs :: "ShortID list"

definition zero_OutputOwners :: OutputOwners where
  "zero_OutputOwners = \<lparr>Locktime = 0, Threshold = 0, Addrs = []\<rparr>"

text \<open>
  The outputs the flows build: secp256k1fx.TransferOutput, propertyfx.MintOutput, and
  avax.TransferableOutput (an asset id with a transfer output).
\<close>

datatype State =
  TransferOutput u64 OutputOwners \<comment> \<open>Amt, OutputOwners\<close>
  | MintOutput OutputOwners

record TransferableOutput =
  Asset :: ID
  Out :: State

text \<open>
  A transaction as the workload reads it: its id and \<open>tx.Unsigned.InputIDs()\<close>. The
  latter is a Go set; the list holds its elements in the order the \<open>range\<close> loop of the
  verifier visits them (any order: Go does not fix it).
\<close>

record Tx =
  TxID :: ID
  InputIDs :: "ID list"

text \<open>
  The workload struct. Its wallet is the environment below. \<open>addrs\<close> is a Go set, held
  as the list of its elements in iteration order.
\<close>

record workload =
  workload_id :: int
  addrs :: "ShortID list"
  uris :: "uri list"

subsection \<open>Calls and log lines\<close>

datatype arg =
  A_ID ID | A_str string | A_err error | A_u64 u64 | A_int int
  | A_choices choices_Status | A_status status_Status
  | A_since \<comment> \<open>\<open>time.Since(start)\<close>: the clock is not modelled\<close>

datatype selected = chan_C | ctx_Done

datatype event =
  Printf string "arg list"
  | Println string
  | Fatalf string "arg list"
  | Call_X_GetFTBalance "error + (ID \<Rightarrow> u64)"
  | Call_P_GetBalance "error + (ID \<Rightarrow> u64)"
  | Call_X_IssueBaseTx "TransferableOutput list" "error + Tx"
  | Call_X_IssueCreateAssetTx string string "8 word" "(32 word \<times> State list) list" "error + Tx"
  | Call_X_IssueOperationTxMintProperty ID OutputOwners "error + Tx"
  | Call_X_IssueExportTx ID "TransferableOutput list" "error + Tx"
  | Call_X_IssueImportTx ID OutputOwners "error + Tx"
  | Call_P_IssueExportTx ID "TransferableOutput list" "error + Tx"
  | Call_P_IssueImportTx ID OutputOwners "error + Tx"
  | Call_X_ConfirmTx uri ID Duration "error + choices_Status"
  | Call_P_AwaitTxDecided uri ID Duration "error + status_Status"
  | Call_X_AddAllUTXOs uri ID ID "ShortID list" "error option"
  | Call_P_AddAllUTXOs uri ID ID "ShortID list" "error option"
  | Call_GetUTXO ID ID ID "error option"
  | Call_Health uri "error + bool"
  | Call_rand_Int int "error + int"
  | Call_select_ticker Duration selected
  | Call_select_timer Duration selected

text \<open>
  The environment. Balances are Go maps read with \<open>m[k]\<close>, which is 0 for a missing key:
  a total function. \<open>GetUTXO\<close> reads the in-memory set \<open>'u\<close> that \<open>AddAllUTXOs\<close> filled;
  the source keeps only its error (\<open>None\<close> is \<open>nil\<close>). \<open>select_ticker\<close> and
  \<open>select_timer\<close> are the two \<open>select\<close> statements: which case ran. The amounts of
  utils/units and \<open>constants.PlatformChainID\<close> are declared outside the file and are
  fields too.
\<close>

record ('w, 'u) env =
  X_GetFTBalance :: "'w \<Rightarrow> error + (ID \<Rightarrow> u64)"
  P_GetBalance :: "'w \<Rightarrow> error + (ID \<Rightarrow> u64)"
  X_AVAXAssetID :: ID
  P_AVAXAssetID :: ID
  X_BaseTxFee :: u64
  X_CreateAssetTxFee :: u64
  P_BaseTxFee :: u64
  X_BlockchainID :: ID
  PlatformChainID :: ID
  units_Schmeckle :: u64
  units_Avax :: u64
  X_IssueBaseTx :: "TransferableOutput list \<Rightarrow> 'w \<Rightarrow> (error + Tx) \<times> 'w"
  X_IssueCreateAssetTx ::
    "string \<Rightarrow> string \<Rightarrow> 8 word \<Rightarrow> (32 word \<times> State list) list \<Rightarrow> 'w \<Rightarrow> (error + Tx) \<times> 'w"
  X_IssueOperationTxMintProperty :: "ID \<Rightarrow> OutputOwners \<Rightarrow> 'w \<Rightarrow> (error + Tx) \<times> 'w"
  X_IssueExportTx :: "ID \<Rightarrow> TransferableOutput list \<Rightarrow> 'w \<Rightarrow> (error + Tx) \<times> 'w"
  X_IssueImportTx :: "ID \<Rightarrow> OutputOwners \<Rightarrow> 'w \<Rightarrow> (error + Tx) \<times> 'w"
  P_IssueExportTx :: "ID \<Rightarrow> TransferableOutput list \<Rightarrow> 'w \<Rightarrow> (error + Tx) \<times> 'w"
  P_IssueImportTx :: "ID \<Rightarrow> OutputOwners \<Rightarrow> 'w \<Rightarrow> (error + Tx) \<times> 'w"
  X_ConfirmTx :: "uri \<Rightarrow> ID \<Rightarrow> Duration \<Rightarrow> 'w \<Rightarrow> (error + choices_Status) \<times> 'w"
  P_AwaitTxDecided :: "uri \<Rightarrow> ID \<Rightarrow> Duration \<Rightarrow> 'w \<Rightarrow> (error + status_Status) \<times> 'w"
  X_AddAllUTXOs :: "uri \<Rightarrow> ID \<Rightarrow> ID \<Rightarrow> ShortID list \<Rightarrow> 'w \<Rightarrow> (error option \<times> 'u) \<times> 'w"
  P_AddAllUTXOs :: "uri \<Rightarrow> ID \<Rightarrow> ID \<Rightarrow> ShortID list \<Rightarrow> 'w \<Rightarrow> (error option \<times> 'u) \<times> 'w"
  GetUTXO :: "'u \<Rightarrow> ID \<Rightarrow> ID \<Rightarrow> ID \<Rightarrow> error option"
  Health :: "uri \<Rightarrow> 'w \<Rightarrow> (error + bool) \<times> 'w"
  rand_Int :: "int \<Rightarrow> 'w \<Rightarrow> (error + int) \<times> 'w"
  select_ticker :: "Duration \<Rightarrow> 'w \<Rightarrow> selected \<times> 'w"
  select_timer :: "Duration \<Rightarrow> 'w \<Rightarrow> selected \<times> 'w"

subsection \<open>The confirmation protocol\<close>

fun confirmXChainTx_uris ::
  "('w, 'u) env \<Rightarrow> ID \<Rightarrow> uri list \<Rightarrow> 'w \<Rightarrow> bool \<times> event list \<times> 'w" where
  "confirmXChainTx_uris env txID [] s = (True, [], s)"
| "confirmXChainTx_uris env txID (uri # rest) s =
    (case X_ConfirmTx env uri txID (100 * Millisecond) s of
      (Inl err, s') \<Rightarrow>
        (False,
         [Call_X_ConfirmTx uri txID (100 * Millisecond) (Inl err),
          Printf ''failed to confirm X-chain transaction %s on %s: %s''
            [A_ID txID, A_str uri, A_err err]],
         s')
    | (Inr status, s') \<Rightarrow>
        if status \<noteq> choices_Accepted then
          (False,
           [Call_X_ConfirmTx uri txID (100 * Millisecond) (Inr status),
            Printf ''failed to confirm X-chain transaction %s on %s: status == %s''
              [A_ID txID, A_str uri, A_choices status]],
           s')
        else
          (case confirmXChainTx_uris env txID rest s' of
            (completed, evs, s'') \<Rightarrow>
              (completed,
               [Call_X_ConfirmTx uri txID (100 * Millisecond) (Inr status),
                Printf ''confirmed X-chain transaction %s on %s'' [A_ID txID, A_str uri]]
               @ evs,
               s'')))"

definition confirmXChainTx ::
  "('w, 'u) env \<Rightarrow> workload \<Rightarrow> Tx \<Rightarrow> 'w \<Rightarrow> event list \<times> 'w" where
  "confirmXChainTx env w tx s =
    (let txID = TxID tx in
     case confirmXChainTx_uris env txID (uris w) s of
       (completed, evs, s') \<Rightarrow>
         (if completed then
            evs @ [Printf ''confirmed X-chain transaction %s on all nodes'' [A_ID txID]]
          else evs,
          s'))"

fun confirmPChainTx_uris ::
  "('w, 'u) env \<Rightarrow> ID \<Rightarrow> uri list \<Rightarrow> 'w \<Rightarrow> bool \<times> event list \<times> 'w" where
  "confirmPChainTx_uris env txID [] s = (True, [], s)"
| "confirmPChainTx_uris env txID (uri # rest) s =
    (case P_AwaitTxDecided env uri txID (100 * Millisecond) s of
      (Inl err, s') \<Rightarrow>
        (False,
         [Call_P_AwaitTxDecided uri txID (100 * Millisecond) (Inl err),
          Printf ''failed to confirm P-chain transaction %s on %s: %s''
            [A_ID txID, A_str uri, A_err err]],
         s')
    | (Inr st, s') \<Rightarrow>
        if st \<noteq> status_Committed then
          (False,
           [Call_P_AwaitTxDecided uri txID (100 * Millisecond) (Inr st),
            Printf ''failed to confirm P-chain transaction %s on %s: status == %s''
              [A_ID txID, A_str uri, A_status st]],
           s')
        else
          (case confirmPChainTx_uris env txID rest s' of
            (completed, evs, s'') \<Rightarrow>
              (completed,
               [Call_P_AwaitTxDecided uri txID (100 * Millisecond) (Inr st),
                Printf ''confirmed P-chain transaction %s on %s'' [A_ID txID, A_str uri]]
               @ evs,
               s'')))"

definition confirmPChainTx ::
  "('w, 'u) env \<Rightarrow> workload \<Rightarrow> Tx \<Rightarrow> 'w \<Rightarrow> event list \<times> 'w" where
  "confirmPChainTx env w tx s =
    (let txID = TxID tx in
     case confirmPChainTx_uris env txID (uris w) s of
       (completed, evs, s') \<Rightarrow>
         (if completed then
            evs @ [Printf ''confirmed P-chain transaction %s on all nodes'' [A_ID txID]]
          else evs,
          s'))"

subsection \<open>The consistency verifier\<close>

fun verifyXChainTxConsumedUTXOs_inputs ::
  "('w, 'u) env \<Rightarrow> 'u \<Rightarrow> ID \<Rightarrow> uri \<Rightarrow> ID \<Rightarrow> ID list \<Rightarrow> bool \<times> event list" where
  "verifyXChainTxConsumedUTXOs_inputs env utxos chainID uri txID [] = (True, [])"
| "verifyXChainTxConsumedUTXOs_inputs env utxos chainID uri txID (input # rest) =
    (let err = GetUTXO env utxos chainID chainID input in
     if err \<noteq> Some ErrNotFound then
       (False,
        [Call_GetUTXO chainID chainID input err,
         Printf ''failed to verify that X-chain UTXO %s was deleted on %s after %s''
           [A_ID input, A_str uri, A_ID txID]])
     else
       (case verifyXChainTxConsumedUTXOs_inputs env utxos chainID uri txID rest of
         (completed, evs) \<Rightarrow> (completed, Call_GetUTXO chainID chainID input err # evs)))"

fun verifyXChainTxConsumedUTXOs_uris ::
  "('w, 'u) env \<Rightarrow> workload \<Rightarrow> ID \<Rightarrow> Tx \<Rightarrow> uri list \<Rightarrow> 'w \<Rightarrow> bool \<times> event list \<times> 'w" where
  "verifyXChainTxConsumedUTXOs_uris env w chainID tx [] s = (True, [], s)"
| "verifyXChainTxConsumedUTXOs_uris env w chainID tx (uri # rest) s =
    (case X_AddAllUTXOs env uri chainID chainID (addrs w) s of
      ((Some err, utxos), s') \<Rightarrow>
        (False,
         [Call_X_AddAllUTXOs uri chainID chainID (addrs w) (Some err),
          Printf ''failed to fetch X-chain UTXOs on %s: %s'' [A_str uri, A_err err]],
         s')
    | ((None, utxos), s') \<Rightarrow>
        (case verifyXChainTxConsumedUTXOs_inputs env utxos chainID uri (TxID tx) (InputIDs tx) of
          (False, evs) \<Rightarrow>
            (False, Call_X_AddAllUTXOs uri chainID chainID (addrs w) None # evs, s')
        | (True, evs) \<Rightarrow>
            (case verifyXChainTxConsumedUTXOs_uris env w chainID tx rest s' of
              (completed, evs', s'') \<Rightarrow>
                (completed,
                 Call_X_AddAllUTXOs uri chainID chainID (addrs w) None # evs
                 @ [Printf ''confirmed all X-chain UTXOs consumed by %s are not present on %s''
                      [A_ID (TxID tx), A_str uri]]
                 @ evs',
                 s''))))"

definition verifyXChainTxConsumedUTXOs ::
  "('w, 'u) env \<Rightarrow> workload \<Rightarrow> Tx \<Rightarrow> 'w \<Rightarrow> event list \<times> 'w" where
  "verifyXChainTxConsumedUTXOs env w tx s =
    (let txID = TxID tx; chainID = X_BlockchainID env in
     case verifyXChainTxConsumedUTXOs_uris env w chainID tx (uris w) s of
       (completed, evs, s') \<Rightarrow>
         (if completed then
            evs @ [Printf ''confirmed all X-chain UTXOs consumed by %s are not present on all nodes''
                     [A_ID txID]]
          else evs,
          s'))"

fun verifyPChainTxConsumedUTXOs_inputs ::
  "('w, 'u) env \<Rightarrow> 'u \<Rightarrow> uri \<Rightarrow> ID \<Rightarrow> ID list \<Rightarrow> bool \<times> event list" where
  "verifyPChainTxConsumedUTXOs_inputs env utxos uri txID [] = (True, [])"
| "verifyPChainTxConsumedUTXOs_inputs env utxos uri txID (input # rest) =
    (let err = GetUTXO env utxos (PlatformChainID env) (PlatformChainID env) input in
     if err \<noteq> Some ErrNotFound then
       (False,
        [Call_GetUTXO (PlatformChainID env) (PlatformChainID env) input err,
         Printf ''failed to verify that P-chain UTXO %s was deleted on %s after %s''
           [A_ID input, A_str uri, A_ID txID]])
     else
       (case verifyPChainTxConsumedUTXOs_inputs env utxos uri txID rest of
         (completed, evs) \<Rightarrow>
           (completed,
            Call_GetUTXO (PlatformChainID env) (PlatformChainID env) input err # evs)))"

fun verifyPChainTxConsumedUTXOs_uris ::
  "('w, 'u) env \<Rightarrow> workload \<Rightarrow> Tx \<Rightarrow> uri list \<Rightarrow> 'w \<Rightarrow> bool \<times> event list \<times> 'w" where
  "verifyPChainTxConsumedUTXOs_uris env w tx [] s = (True, [], s)"
| "verifyPChainTxConsumedUTXOs_uris env w tx (uri # rest) s =
    (case P_AddAllUTXOs env uri (PlatformChainID env) (PlatformChainID env) (addrs w) s of
      ((Some err, utxos), s') \<Rightarrow>
        (False,
         [Call_P_AddAllUTXOs uri (PlatformChainID env) (PlatformChainID env) (addrs w) (Some err),
          Printf ''failed to fetch P-chain UTXOs on %s: %s'' [A_str uri, A_err err]],
         s')
    | ((None, utxos), s') \<Rightarrow>
        (case verifyPChainTxConsumedUTXOs_inputs env utxos uri (TxID tx) (InputIDs tx) of
          (False, evs) \<Rightarrow>
            (False,
             Call_P_AddAllUTXOs uri (PlatformChainID env) (PlatformChainID env) (addrs w) None
             # evs,
             s')
        | (True, evs) \<Rightarrow>
            (case verifyPChainTxConsumedUTXOs_uris env w tx rest s' of
              (completed, evs', s'') \<Rightarrow>
                (completed,
                 Call_P_AddAllUTXOs uri (PlatformChainID env) (PlatformChainID env) (addrs w) None
                 # evs
                 @ [Printf ''confirmed all P-chain UTXOs consumed by %s are not present on %s''
                      [A_ID (TxID tx), A_str uri]]
                 @ evs',
                 s''))))"

definition verifyPChainTxConsumedUTXOs ::
  "('w, 'u) env \<Rightarrow> workload \<Rightarrow> Tx \<Rightarrow> 'w \<Rightarrow> event list \<times> 'w" where
  "verifyPChainTxConsumedUTXOs env w tx s =
    (let txID = TxID tx in
     case verifyPChainTxConsumedUTXOs_uris env w tx (uris w) s of
       (completed, evs, s') \<Rightarrow>
         (if completed then
            evs @ [Printf ''confirmed all P-chain UTXOs consumed by %s are not present on all nodes''
                     [A_ID txID]]
          else evs,
          s'))"

subsection \<open>Output owners\<close>

text \<open>
  Modelled from the spec: \<open>Peek\<close> of utils/set is not in the file. The spec has every flow
  send to a self-owned address, so \<open>Peek\<close> yields an element of the set (the first one the
  iteration visits) with \<open>true\<close>, and the zero value with \<open>false\<close> on the empty set.
\<close>

definition Peek :: "ShortID list \<Rightarrow> ShortID \<times> bool" where
  "Peek xs = (case xs of [] \<Rightarrow> (0, False) | x # _ \<Rightarrow> (x, True))"

definition makeOwner :: "workload \<Rightarrow> OutputOwners" where
  "makeOwner w =
    (let addr = fst (Peek (addrs w)) in
     \<lparr>Locktime = 0, Threshold = 1, Addrs = [addr]\<rparr>)"

subsection \<open>The transaction flows\<close>

definition issueXChainBaseTx ::
  "('w, 'u) env \<Rightarrow> workload \<Rightarrow> 'w \<Rightarrow> event list \<times> 'w" where
  "issueXChainBaseTx env w s =
    (case X_GetFTBalance env s of
      Inl err \<Rightarrow>
        ([Call_X_GetFTBalance (Inl err),
          Printf ''failed to fetch X-chain balances: %s'' [A_err err]],
         s)
    | Inr balances \<Rightarrow>
        (let avaxAssetID = X_AVAXAssetID env;
             avaxBalance = balances avaxAssetID;
             baseTxFee = X_BaseTxFee env;
             neededBalance = baseTxFee + units_Schmeckle env
         in
         if avaxBalance < neededBalance then
           ([Call_X_GetFTBalance (Inr balances),
             Printf ''skipping X-chain tx issuance due to insufficient balance: %d < %d''
               [A_u64 avaxBalance, A_u64 neededBalance]],
            s)
         else
           (let owner = makeOwner w;
                outputs =
                  [\<lparr>Asset = avaxAssetID, Out = TransferOutput (units_Schmeckle env) owner\<rparr>]
            in
            case X_IssueBaseTx env outputs s of
              (Inl err, s1) \<Rightarrow>
                ([Call_X_GetFTBalance (Inr balances),
                  Call_X_IssueBaseTx outputs (Inl err),
                  Printf ''failed to issue X-chain baseTx: %s'' [A_err err]],
                 s1)
            | (Inr baseTx, s1) \<Rightarrow>
                (case confirmXChainTx env w baseTx s1 of
                  (confirmed, s2) \<Rightarrow>
                    (case verifyXChainTxConsumedUTXOs env w baseTx s2 of
                      (verified, s3) \<Rightarrow>
                        ([Call_X_GetFTBalance (Inr balances),
                          Call_X_IssueBaseTx outputs (Inr baseTx),
                          Printf ''issued new X-chain baseTx %s in %s''
                            [A_ID (TxID baseTx), A_since]]
                         @ confirmed @ verified,
                         s3))))))"

definition issueXChainCreateAssetTx ::
  "('w, 'u) env \<Rightarrow> workload \<Rightarrow> 'w \<Rightarrow> event list \<times> 'w" where
  "issueXChainCreateAssetTx env w s =
    (case X_GetFTBalance env s of
      Inl err \<Rightarrow>
        ([Call_X_GetFTBalance (Inl err),
          Printf ''failed to fetch X-chain balances: %s'' [A_err err]],
         s)
    | Inr balances \<Rightarrow>
        (let avaxAssetID = X_AVAXAssetID env;
             avaxBalance = balances avaxAssetID;
             neededBalance = X_CreateAssetTxFee env
         in
         if avaxBalance < neededBalance then
           ([Call_X_GetFTBalance (Inr balances),
             Printf ''skipping X-chain tx issuance due to insufficient balance: %d < %d''
               [A_u64 avaxBalance, A_u64 neededBalance]],
            s)
         else
           (let owner = makeOwner w;
                states = [(0, [TransferOutput (units_Schmeckle env) owner])]
            in
            case X_IssueCreateAssetTx env ''HI'' ''HI'' 1 states s of
              (Inl err, s1) \<Rightarrow>
                ([Call_X_GetFTBalance (Inr balances),
                  Call_X_IssueCreateAssetTx ''HI'' ''HI'' 1 states (Inl err),
                  Printf ''failed to issue X-chain create asset transaction: %s'' [A_err err]],
                 s1)
            | (Inr createAssetTx, s1) \<Rightarrow>
                (case confirmXChainTx env w createAssetTx s1 of
                  (confirmed, s2) \<Rightarrow>
                    (case verifyXChainTxConsumedUTXOs env w createAssetTx s2 of
                      (verified, s3) \<Rightarrow>
                        ([Call_X_GetFTBalance (Inr balances),
                          Call_X_IssueCreateAssetTx ''HI'' ''HI'' 1 states (Inr createAssetTx),
                          Printf ''created new X-chain asset %s in %s''
                            [A_ID (TxID createAssetTx), A_since]]
                         @ confirmed @ verified,
                         s3))))))"

definition issueXChainOperationTx ::
  "('w, 'u) env \<Rightarrow> workload \<Rightarrow> 'w \<Rightarrow> event list \<times> 'w" where
  "issueXChainOperationTx env w s =
    (case X_GetFTBalance env s of
      Inl err \<Rightarrow>
        ([Call_X_GetFTBalance (Inl err),
          Printf ''failed to fetch X-chain balances: %s'' [A_err err]],
         s)
    | Inr balances \<Rightarrow>
        (let avaxAssetID = X_AVAXAssetID env;
             avaxBalance = balances avaxAssetID;
             createAssetTxFee = X_CreateAssetTxFee env;
             baseTxFee = X_BaseTxFee env;
             neededBalance = createAssetTxFee + baseTxFee
         in
         if avaxBalance < neededBalance then
           ([Call_X_GetFTBalance (Inr balances),
             Printf ''skipping X-chain tx issuance due to insufficient balance: %d < %d''
               [A_u64 avaxBalance, A_u64 neededBalance]],
            s)
         else
           (let owner = makeOwner w;
                states = [(2, [MintOutput owner])]
            in
            case X_IssueCreateAssetTx env ''HI'' ''HI'' 1 states s of
              (Inl err, s1) \<Rightarrow>
                ([Call_X_GetFTBalance (Inr balances),
                  Call_X_IssueCreateAssetTx ''HI'' ''HI'' 1 states (Inl err),
                  Printf ''failed to issue X-chain create asset transaction: %s'' [A_err err]],
                 s1)
            | (Inr createAssetTx, s1) \<Rightarrow>
                (case X_IssueOperationTxMintProperty env (TxID createAssetTx) owner s1 of
                  (Inl err, s2) \<Rightarrow>
                    ([Call_X_GetFTBalance (Inr balances),
                      Call_X_IssueCreateAssetTx ''HI'' ''HI'' 1 states (Inr createAssetTx),
                      Printf ''created new X-chain asset %s in %s''
                        [A_ID (TxID createAssetTx), A_since],
                      Call_X_IssueOperationTxMintProperty (TxID createAssetTx) owner (Inl err),
                      Printf ''failed to issue X-chain operation transaction: %s'' [A_err err]],
                     s2)
                | (Inr operationTx, s2) \<Rightarrow>
                    (case confirmXChainTx env w createAssetTx s2 of
                      (confirmed, s3) \<Rightarrow>
                    (case verifyXChainTxConsumedUTXOs env w createAssetTx s3 of
                      (verified, s4) \<Rightarrow>
                    (case confirmXChainTx env w operationTx s4 of
                      (confirmed', s5) \<Rightarrow>
                    (case verifyXChainTxConsumedUTXOs env w operationTx s5 of
                      (verified', s6) \<Rightarrow>
                        ([Call_X_GetFTBalance (Inr balances),
                          Call_X_IssueCreateAssetTx ''HI'' ''HI'' 1 states (Inr createAssetTx),
                          Printf ''created new X-chain asset %s in %s''
                            [A_ID (TxID createAssetTx), A_since],
                          Call_X_IssueOperationTxMintProperty (TxID createAssetTx) owner
                            (Inr operationTx),
                          Printf ''issued X-chain operation tx %s in %s''
                            [A_ID (TxID operationTx), A_since]]
                         @ confirmed @ verified @ confirmed' @ verified',
                         s6)))))))))"

definition issueXToPTransfer ::
  "('w, 'u) env \<Rightarrow> workload \<Rightarrow> 'w \<Rightarrow> event list \<times> 'w" where
  "issueXToPTransfer env w s =
    (case X_GetFTBalance env s of
      Inl err \<Rightarrow>
        ([Call_X_GetFTBalance (Inl err),
          Printf ''failed to fetch X-chain balances: %s'' [A_err err]],
         s)
    | Inr balances \<Rightarrow>
        (let avaxAssetID = X_AVAXAssetID env;
             avaxBalance = balances avaxAssetID;
             xBaseTxFee = X_BaseTxFee env;
             pBaseTxFee = P_BaseTxFee env;
             txFees = xBaseTxFee + pBaseTxFee;
             neededBalance = txFees + units_Avax env
         in
         if avaxBalance < neededBalance then
           ([Call_X_GetFTBalance (Inr balances),
             Printf ''skipping X-chain tx issuance due to insufficient balance: %d < %d''
               [A_u64 avaxBalance, A_u64 neededBalance]],
            s)
         else
           (let owner = makeOwner w;
                outputs =
                  [\<lparr>Asset = avaxAssetID,
                    Out = TransferOutput (units_Avax env) zero_OutputOwners\<rparr>]
            in
            case X_IssueExportTx env (PlatformChainID env) outputs s of
              (Inl err, s1) \<Rightarrow>
                ([Call_X_GetFTBalance (Inr balances),
                  Call_X_IssueExportTx (PlatformChainID env) outputs (Inl err),
                  Printf ''failed to issue X-chain export transaction: %s'' [A_err err]],
                 s1)
            | (Inr exportTx, s1) \<Rightarrow>
                (let xChainID = X_BlockchainID env in
                 case P_IssueImportTx env xChainID owner s1 of
                  (Inl err, s2) \<Rightarrow>
                    ([Call_X_GetFTBalance (Inr balances),
                      Call_X_IssueExportTx (PlatformChainID env) outputs (Inr exportTx),
                      Printf ''created X-chain export transaction %s in %s''
                        [A_ID (TxID exportTx), A_since],
                      Call_P_IssueImportTx xChainID owner (Inl err),
                      Printf ''failed to issue P-chain import transaction: %s'' [A_err err]],
                     s2)
                | (Inr importTx, s2) \<Rightarrow>
                    (case confirmXChainTx env w exportTx s2 of
                      (confirmed, s3) \<Rightarrow>
                    (case verifyXChainTxConsumedUTXOs env w exportTx s3 of
                      (verified, s4) \<Rightarrow>
                    (case confirmPChainTx env w importTx s4 of
                      (confirmed', s5) \<Rightarrow>
                    (case verifyPChainTxConsumedUTXOs env w importTx s5 of
                      (verified', s6) \<Rightarrow>
                        ([Call_X_GetFTBalance (Inr balances),
                          Call_X_IssueExportTx (PlatformChainID env) outputs (Inr exportTx),
                          Printf ''created X-chain export transaction %s in %s''
                            [A_ID (TxID exportTx), A_since],
                          Call_P_IssueImportTx xChainID owner (Inr importTx),
                          Printf ''created P-chain import transaction %s in %s''
                            [A_ID (TxID importTx), A_since]]
                         @ confirmed @ verified @ confirmed' @ verified',
                         s6)))))))))"

definition issuePToXTransfer ::
  "('w, 'u) env \<Rightarrow> workload \<Rightarrow> 'w \<Rightarrow> event list \<times> 'w" where
  "issuePToXTransfer env w s =
    (case P_GetBalance env s of
      Inl err \<Rightarrow>
        ([Call_P_GetBalance (Inl err),
          Printf ''failed to fetch P-chain balances: %s'' [A_err err]],
         s)
    | Inr balances \<Rightarrow>
        (let avaxAssetID = P_AVAXAssetID env;
             avaxBalance = balances avaxAssetID;
             pBaseTxFee = P_BaseTxFee env;
             xBaseTxFee = X_BaseTxFee env;
             txFees = pBaseTxFee + xBaseTxFee;
             neededBalance = txFees + units_Schmeckle env
         in
         if avaxBalance < neededBalance then
           ([Call_P_GetBalance (Inr balances),
             Printf ''skipping P-chain tx issuance due to insufficient balance: %d < %d''
               [A_u64 avaxBalance, A_u64 neededBalance]],
            s)
         else
           (let xChainID = X_BlockchainID env;
                owner = makeOwner w;
                outputs =
                  [\<lparr>Asset = avaxAssetID,
                    Out = TransferOutput (units_Schmeckle env) zero_OutputOwners\<rparr>]
            in
            case P_IssueExportTx env xChainID outputs s of
              (Inl err, s1) \<Rightarrow>
                ([Call_P_GetBalance (Inr balances),
                  Call_P_IssueExportTx xChainID outputs (Inl err),
                  Printf ''failed to issue P-chain export transaction: %s'' [A_err err]],
                 s1)
            | (Inr exportTx, s1) \<Rightarrow>
                (case X_IssueImportTx env (PlatformChainID env) owner s1 of
                  (Inl err, s2) \<Rightarrow>
                    ([Call_P_GetBalance (Inr balances),
                      Call_P_IssueExportTx xChainID outputs (Inr exportTx),
                      Printf ''created P-chain export transaction %s in %s''
                        [A_ID (TxID exportTx), A_since],
                      Call_X_IssueImportTx (PlatformChainID env) owner (Inl err),
                      Printf ''failed to issue X-chain import transaction: %s'' [A_err err]],
                     s2)
                | (Inr importTx, s2) \<Rightarrow>
                    (case confirmPChainTx env w exportTx s2 of
                      (confirmed, s3) \<Rightarrow>
                    (case verifyPChainTxConsumedUTXOs env w exportTx s3 of
                      (verified, s4) \<Rightarrow>
                    (case confirmXChainTx env w importTx s4 of
                      (confirmed', s5) \<Rightarrow>
                    (case verifyXChainTxConsumedUTXOs env w importTx s5 of
                      (verified', s6) \<Rightarrow>
                        ([Call_P_GetBalance (Inr balances),
                          Call_P_IssueExportTx xChainID outputs (Inr exportTx),
                          Printf ''created P-chain export transaction %s in %s''
                            [A_ID (TxID exportTx), A_since],
                          Call_X_IssueImportTx (PlatformChainID env) owner (Inr importTx),
                          Printf ''created X-chain import transaction %s in %s''
                            [A_ID (TxID importTx), A_since]]
                         @ confirmed @ verified @ confirmed' @ verified',
                         s6)))))))))"

subsection \<open>The scheduler\<close>

text \<open>
  \<open>log.Fatalf\<close> ends the process: the outcome \<open>Exited\<close>. The \<open>switch\<close> of the loop is
  \<open>run_switch\<close>; a value outside 0..4 runs no flow, as a Go \<open>switch\<close> with no default
  does. The loop has no bound in the source: \<open>run_loop\<close> takes the number of iterations
  it may still start and is \<open>None\<close> when they do not suffice, so that an actor that is
  still running has no result.
\<close>

datatype outcome = Returned | Exited

definition run_switch ::
  "('w, 'u) env \<Rightarrow> workload \<Rightarrow> int \<Rightarrow> 'w \<Rightarrow> event list \<times> 'w" where
  "run_switch env w flowID s =
    (if flowID = 0 then issueXChainBaseTx env w s
     else if flowID = 1 then issueXChainCreateAssetTx env w s
     else if flowID = 2 then issueXChainOperationTx env w s
     else if flowID = 3 then issueXToPTransfer env w s
     else if flowID = 4 then issuePToXTransfer env w s
     else ([], s))"

fun run_loop ::
  "nat \<Rightarrow> ('w, 'u) env \<Rightarrow> workload \<Rightarrow> 'w \<Rightarrow> (outcome \<times> event list \<times> 'w) option" where
  "run_loop 0 env w s = None"
| "run_loop (Suc fuel) env w s =
    (case rand_Int env 5 s of
      (Inl err, s1) \<Rightarrow>
        Some (Exited,
          [Call_rand_Int 5 (Inl err), Fatalf ''failed to read randomness: %s'' [A_err err]],
          s1)
    | (Inr flowID, s1) \<Rightarrow>
        (case run_switch env w flowID s1 of
          (flow, s2) \<Rightarrow>
            (case rand_Int env Second s2 of
              (Inl err, s3) \<Rightarrow>
                Some (Exited,
                  [Call_rand_Int 5 (Inr flowID),
                   Printf ''wallet %d executing flow %d'' [A_int (workload_id w), A_int flowID]]
                  @ flow
                  @ [Call_rand_Int Second (Inl err),
                     Fatalf ''failed to read randomness: %s'' [A_err err]],
                  s3)
            | (Inr val, s3) \<Rightarrow>
                (case select_timer env val s3 of
                  (ctx_Done, s4) \<Rightarrow>
                    Some (Returned,
                      [Call_rand_Int 5 (Inr flowID),
                       Printf ''wallet %d executing flow %d''
                         [A_int (workload_id w), A_int flowID]]
                      @ flow
                      @ [Call_rand_Int Second (Inr val), Call_select_timer val ctx_Done],
                      s4)
                | (chan_C, s4) \<Rightarrow>
                    (case run_loop fuel env w s4 of
                      None \<Rightarrow> None
                    | Some (out, evs, s5) \<Rightarrow>
                        Some (out,
                          [Call_rand_Int 5 (Inr flowID),
                           Printf ''wallet %d executing flow %d''
                             [A_int (workload_id w), A_int flowID]]
                          @ flow
                          @ [Call_rand_Int Second (Inr val), Call_select_timer val chan_C]
                          @ evs,
                          s5))))))"

definition run ::
  "nat \<Rightarrow> ('w, 'u) env \<Rightarrow> workload \<Rightarrow> 'w \<Rightarrow> (outcome \<times> event list \<times> 'w) option" where
  "run fuel env w s =
    (case X_GetFTBalance env s of
      Inl err \<Rightarrow>
        Some (Exited,
          [Call_X_GetFTBalance (Inl err),
           Fatalf ''failed to fetch X-chain balances: %s'' [A_err err]],
          s)
    | Inr xBalances \<Rightarrow>
        (case P_GetBalance env s of
          Inl err \<Rightarrow>
            Some (Exited,
              [Call_X_GetFTBalance (Inr xBalances),
               Call_P_GetBalance (Inl err),
               Fatalf ''failed to fetch P-chain balances: %s'' [A_err err]],
              s)
        | Inr pBalances \<Rightarrow>
            (let avaxAssetID = X_AVAXAssetID env;
                 xAVAX = xBalances avaxAssetID;
                 pAVAX = pBalances avaxAssetID
             in
             case run_loop fuel env w s of
               None \<Rightarrow> None
             | Some (out, evs, s') \<Rightarrow>
                 Some (out,
                   [Call_X_GetFTBalance (Inr xBalances),
                    Call_P_GetBalance (Inr pBalances),
                    Printf ''wallet starting with %d X-chain nAVAX and %d P-chain nAVAX''
                      [A_u64 xAVAX, A_u64 pAVAX]]
                   @ evs,
                   s'))))"

subsection \<open>The readiness gate\<close>

text \<open>
  The polling loop has no bound either: \<open>awaitHealthyNode_loop\<close> takes the number of
  polls it may still make and is \<open>None\<close> when the node has not reported healthy within
  them. The \<open>switch\<close> on the response yields whether the function returns, and the line
  it logs. The ticker of the source is made once, with a period of 100ms; the \<open>select\<close>
  on it and on the context's Done channel is \<open>select_ticker\<close>, given that period.
\<close>

fun awaitHealthyNode_loop ::
  "nat \<Rightarrow> ('w, 'u) env \<Rightarrow> uri \<Rightarrow> 'w \<Rightarrow> (event list \<times> 'w) option" where
  "awaitHealthyNode_loop 0 env uri s = None"
| "awaitHealthyNode_loop (Suc fuel) env uri s =
    (case Health env uri s of
      (res, s1) \<Rightarrow>
        (case
           (case res of
              Inl err \<Rightarrow> (False, Printf ''node couldn't be reached at %s'' [A_str uri])
            | Inr healthy \<Rightarrow>
                if healthy then (True, Printf ''node reported healthy at %s'' [A_str uri])
                else (False, Printf ''node reported unhealthy at %s'' [A_str uri]))
         of
           (True, line) \<Rightarrow> Some ([Call_Health uri res, line], s1)
         | (False, line) \<Rightarrow>
             (case select_ticker env (100 * Millisecond) s1 of
               (sel, s2) \<Rightarrow>
                 (case awaitHealthyNode_loop fuel env uri s2 of
                   None \<Rightarrow> None
                 | Some (evs, s3) \<Rightarrow>
                     Some (
                       [Call_Health uri res, line, Call_select_ticker (100 * Millisecond) sel]
                       @ (case sel of
                            chan_C \<Rightarrow> []
                          | ctx_Done \<Rightarrow>
                              [Printf ''node health check cancelled at %s'' [A_str uri]])
                       @ evs,
                       s3)))))"

definition awaitHealthyNode ::
  "nat \<Rightarrow> ('w, 'u) env \<Rightarrow> uri \<Rightarrow> 'w \<Rightarrow> (event list \<times> 'w) option" where
  "awaitHealthyNode fuel env uri s =
    (case awaitHealthyNode_loop fuel env uri s of
      None \<Rightarrow> None
    | Some (evs, s') \<Rightarrow>
        Some (Printf ''awaiting node health at %s'' [A_str uri] # evs, s'))"

fun awaitHealthyNodes_uris ::
  "nat \<Rightarrow> ('w, 'u) env \<Rightarrow> uri list \<Rightarrow> 'w \<Rightarrow> (event list \<times> 'w) option" where
  "awaitHealthyNodes_uris fuel env [] s = Some ([], s)"
| "awaitHealthyNodes_uris fuel env (uri # rest) s =
    (case awaitHealthyNode fuel env uri s of
      None \<Rightarrow> None
    | Some (evs, s1) \<Rightarrow>
        (case awaitHealthyNodes_uris fuel env rest s1 of
          None \<Rightarrow> None
        | Some (evs', s2) \<Rightarrow> Some (evs @ evs', s2)))"

definition awaitHealthyNodes ::
  "nat \<Rightarrow> ('w, 'u) env \<Rightarrow> uri list \<Rightarrow> 'w \<Rightarrow> (event list \<times> 'w) option" where
  "awaitHealthyNodes fuel env us s =
    (case awaitHealthyNodes_uris fuel env us s of
      None \<Rightarrow> None
    | Some (evs, s') \<Rightarrow> Some (evs @ [Println ''all nodes reported healthy''], s'))"

section \<open>Reading a trace\<close>

text \<open>
  The calls of the confirmation protocol found in a trace, in order, each with the
  endpoint asked and its answer; and the line the protocol logs for an answer that is
  not the accepted (committed) status.
\<close>

fun X_probes :: "event list \<Rightarrow> (uri \<times> (error + choices_Status)) list" where
  "X_probes [] = []"
| "X_probes (Call_X_ConfirmTx u i d r # evs) = (u, r) # X_probes evs"
| "X_probes (_ # evs) = X_probes evs"

definition X_confirm_failure :: "ID \<Rightarrow> uri \<Rightarrow> error + choices_Status \<Rightarrow> event" where
  "X_confirm_failure txID u r =
    (case r of
      Inl err \<Rightarrow>
        Printf ''failed to confirm X-chain transaction %s on %s: %s''
          [A_ID txID, A_str u, A_err err]
    | Inr status \<Rightarrow>
        Printf ''failed to confirm X-chain transaction %s on %s: status == %s''
          [A_ID txID, A_str u, A_choices status])"

fun P_probes :: "event list \<Rightarrow> (uri \<times> (error + status_Status)) list" where
  "P_probes [] = []"
| "P_probes (Call_P_AwaitTxDecided u i d r # evs) = (u, r) # P_probes evs"
| "P_probes (_ # evs) = P_probes evs"

definition P_confirm_failure :: "ID \<Rightarrow> uri \<Rightarrow> error + status_Status \<Rightarrow> event" where
  "P_confirm_failure txID u r =
    (case r of
      Inl err \<Rightarrow>
        Printf ''failed to confirm P-chain transaction %s on %s: %s''
          [A_ID txID, A_str u, A_err err]
    | Inr status \<Rightarrow>
        Printf ''failed to confirm P-chain transaction %s on %s: status == %s''
          [A_ID txID, A_str u, A_status status])"

text \<open>
  What the endpoints answer, read from the environment alone: \<open>X_answers\<close>
  (\<open>P_answers\<close>) asks the endpoints in list order, each on the world the call before
  left, up to and including the first whose answer is not \<open>Accepted\<close> (\<open>Committed\<close>),
  and lists the answers; \<open>X_all_accepted\<close> (\<open>P_all_committed\<close>) holds when every
  endpoint of the list, asked in that way, answers \<open>Accepted\<close> (\<open>Committed\<close>);
  \<open>X_first_failure\<close> (\<open>P_first_failure\<close>) is the first endpoint whose answer is an
  error or another status, with that answer, if there is one.
\<close>

fun X_answers ::
  "('w, 'u) env \<Rightarrow> ID \<Rightarrow> uri list \<Rightarrow> 'w \<Rightarrow> (uri \<times> (error + choices_Status)) list" where
  "X_answers env txID [] s = []"
| "X_answers env txID (uri # rest) s =
    (case X_ConfirmTx env uri txID (100 * Millisecond) s of
      (r, s') \<Rightarrow>
        (uri, r) # (if r = Inr choices_Accepted then X_answers env txID rest s' else []))"

fun X_all_accepted :: "('w, 'u) env \<Rightarrow> ID \<Rightarrow> uri list \<Rightarrow> 'w \<Rightarrow> bool" where
  "X_all_accepted env txID [] s = True"
| "X_all_accepted env txID (uri # rest) s =
    (case X_ConfirmTx env uri txID (100 * Millisecond) s of
      (r, s') \<Rightarrow> r = Inr choices_Accepted \<and> X_all_accepted env txID rest s')"

fun P_answers ::
  "('w, 'u) env \<Rightarrow> ID \<Rightarrow> uri list \<Rightarrow> 'w \<Rightarrow> (uri \<times> (error + status_Status)) list" where
  "P_answers env txID [] s = []"
| "P_answers env txID (uri # rest) s =
    (case P_AwaitTxDecided env uri txID (100 * Millisecond) s of
      (r, s') \<Rightarrow>
        (uri, r) # (if r = Inr status_Committed then P_answers env txID rest s' else []))"

fun P_all_committed :: "('w, 'u) env \<Rightarrow> ID \<Rightarrow> uri list \<Rightarrow> 'w \<Rightarrow> bool" where
  "P_all_committed env txID [] s = True"
| "P_all_committed env txID (uri # rest) s =
    (case P_AwaitTxDecided env uri txID (100 * Millisecond) s of
      (r, s') \<Rightarrow> r = Inr status_Committed \<and> P_all_committed env txID rest s')"

fun X_first_failure ::
  "('w, 'u) env \<Rightarrow> ID \<Rightarrow> uri list \<Rightarrow> 'w \<Rightarrow> (uri \<times> (error + choices_Status)) option" where
  "X_first_failure env txID [] s = None"
| "X_first_failure env txID (uri # rest) s =
    (case X_ConfirmTx env uri txID (100 * Millisecond) s of
      (r, s') \<Rightarrow>
        if r = Inr choices_Accepted then X_first_failure env txID rest s' else Some (uri, r))"

fun P_first_failure ::
  "('w, 'u) env \<Rightarrow> ID \<Rightarrow> uri list \<Rightarrow> 'w \<Rightarrow> (uri \<times> (error + status_Status)) option" where
  "P_first_failure env txID [] s = None"
| "P_first_failure env txID (uri # rest) s =
    (case P_AwaitTxDecided env uri txID (100 * Millisecond) s of
      (r, s') \<Rightarrow>
        if r = Inr status_Committed then P_first_failure env txID rest s' else Some (uri, r))"

text \<open>
  The calls of the consistency verifier found in a trace: the fetches, each with its
  endpoint and the error it returned, and the lookups, each with the input looked up and
  the error it returned. \<open>X_consumed_absent\<close> (\<open>P_consumed_absent\<close>) says what the
  verifier is to establish, in the order of the endpoints and on the world as the fetches
  leave it: at every endpoint the fetch for the workload's addresses succeeds and the
  lookup of every consumed input in the fetched set returns \<open>ErrNotFound\<close>.
  \<open>X_verify_failure\<close> (\<open>P_verify_failure\<close>) relates a failed fetch or a lookup with
  another result to the line the verifier logs for it.
\<close>

fun lookups :: "event list \<Rightarrow> (ID \<times> error option) list" where
  "lookups [] = []"
| "lookups (Call_GetUTXO src dst i r # evs) = (i, r) # lookups evs"
| "lookups (_ # evs) = lookups evs"

fun X_fetches :: "event list \<Rightarrow> (uri \<times> error option) list" where
  "X_fetches [] = []"
| "X_fetches (Call_X_AddAllUTXOs u src dst as r # evs) = (u, r) # X_fetches evs"
| "X_fetches (_ # evs) = X_fetches evs"

fun X_consumed_absent ::
  "('w, 'u) env \<Rightarrow> workload \<Rightarrow> Tx \<Rightarrow> uri list \<Rightarrow> 'w \<Rightarrow> bool" where
  "X_consumed_absent env w tx [] s = True"
| "X_consumed_absent env w tx (uri # rest) s =
    (case X_AddAllUTXOs env uri (X_BlockchainID env) (X_BlockchainID env) (addrs w) s of
      ((err, utxos), s') \<Rightarrow>
        err = None
        \<and> (\<forall>input \<in> set (InputIDs tx).
              GetUTXO env utxos (X_BlockchainID env) (X_BlockchainID env) input = Some ErrNotFound)
        \<and> X_consumed_absent env w tx rest s')"

definition X_verify_failure :: "uri list \<Rightarrow> ID \<Rightarrow> event \<Rightarrow> event \<Rightarrow> bool" where
  "X_verify_failure us txID call line =
    (case call of
      Call_X_AddAllUTXOs u src dst as r \<Rightarrow>
        (case r of
          None \<Rightarrow> False
        | Some err \<Rightarrow>
            line = Printf ''failed to fetch X-chain UTXOs on %s: %s'' [A_str u, A_err err])
    | Call_GetUTXO src dst input r \<Rightarrow>
        r \<noteq> Some ErrNotFound
        \<and> (\<exists>u \<in> set us.
              line = Printf ''failed to verify that X-chain UTXO %s was deleted on %s after %s''
                       [A_ID input, A_str u, A_ID txID])
    | _ \<Rightarrow> False)"

fun P_fetches :: "event list \<Rightarrow> (uri \<times> error option) list" where
  "P_fetches [] = []"
| "P_fetches (Call_P_AddAllUTXOs u src dst as r # evs) = (u, r) # P_fetches evs"
| "P_fetches (_ # evs) = P_fetches evs"

fun P_consumed_absent ::
  "('w, 'u) env \<Rightarrow> workload \<Rightarrow> Tx \<Rightarrow> uri list \<Rightarrow> 'w \<Rightarrow> bool" where
  "P_consumed_absent env w tx [] s = True"
| "P_consumed_absent env w tx (uri # rest) s =
    (case P_AddAllUTXOs env uri (PlatformChainID env) (PlatformChainID env) (addrs w) s of
      ((err, utxos), s') \<Rightarrow>
        err = None
        \<and> (\<forall>input \<in> set (InputIDs tx).
              GetUTXO env utxos (PlatformChainID env) (PlatformChainID env) input = Some ErrNotFound)
        \<and> P_consumed_absent env w tx rest s')"

definition P_verify_failure :: "uri list \<Rightarrow> ID \<Rightarrow> event \<Rightarrow> event \<Rightarrow> bool" where
  "P_verify_failure us txID call line =
    (case call of
      Call_P_AddAllUTXOs u src dst as r \<Rightarrow>
        (case r of
          None \<Rightarrow> False
        | Some err \<Rightarrow>
            line = Printf ''failed to fetch P-chain UTXOs on %s: %s'' [A_str u, A_err err])
    | Call_GetUTXO src dst input r \<Rightarrow>
        r \<noteq> Some ErrNotFound
        \<and> (\<exists>u \<in> set us.
              line = Printf ''failed to verify that P-chain UTXO %s was deleted on %s after %s''
                       [A_ID input, A_str u, A_ID txID])
    | _ \<Rightarrow> False)"

text \<open>
  The phase of a flow an event belongs to: the balance query is the precondition check,
  a wallet call that issues a transaction is the issue, a status call is the
  confirmation, a UTXO fetch or lookup is the verification. \<open>issue_before_confirm\<close>
  holds of a trace in which, from the first confirmation or verification call on, there
  is no balance query and no issue.
\<close>

datatype phase = Precondition | Issue | Confirm | Verify | Logging | Runtime

fun phase_of :: "event \<Rightarrow> phase" where
  "phase_of (Call_X_GetFTBalance r) = Precondition"
| "phase_of (Call_P_GetBalance r) = Precondition"
| "phase_of (Call_X_IssueBaseTx outs r) = Issue"
| "phase_of (Call_X_IssueCreateAssetTx n sy d st r) = Issue"
| "phase_of (Call_X_IssueOperationTxMintProperty a ow r) = Issue"
| "phase_of (Call_X_IssueExportTx c outs r) = Issue"
| "phase_of (Call_X_IssueImportTx c ow r) = Issue"
| "phase_of (Call_P_IssueExportTx c outs r) = Issue"
| "phase_of (Call_P_IssueImportTx c ow r) = Issue"
| "phase_of (Call_X_ConfirmTx u i d r) = Confirm"
| "phase_of (Call_P_AwaitTxDecided u i d r) = Confirm"
| "phase_of (Call_X_AddAllUTXOs u src dst as r) = Verify"
| "phase_of (Call_P_AddAllUTXOs u src dst as r) = Verify"
| "phase_of (Call_GetUTXO src dst i r) = Verify"
| "phase_of (Printf f as) = Logging"
| "phase_of (Println f) = Logging"
| "phase_of (Fatalf f as) = Logging"
| "phase_of (Call_Health u r) = Runtime"
| "phase_of (Call_rand_Int m r) = Runtime"
| "phase_of (Call_select_ticker d r) = Runtime"
| "phase_of (Call_select_timer d r) = Runtime"


text \<open>
  The health calls of the readiness gate found in a trace, each with its endpoint and
  answer, and the periods of the ticker it waited on. \<open>after_polls env uri n s\<close> is the
  world after \<open>n\<close> rounds of a health call and a wait on the ticker. \<open>health_line\<close> is
  the line the gate logs for an answer, \<open>cancelled_line\<close> the one it logs when the
  \<open>select\<close> took the Done case.
\<close>

fun health_calls :: "event list \<Rightarrow> (uri \<times> (error + bool)) list" where
  "health_calls [] = []"
| "health_calls (Call_Health u r # evs) = (u, r) # health_calls evs"
| "health_calls (_ # evs) = health_calls evs"

fun ticker_waits :: "event list \<Rightarrow> Duration list" where
  "ticker_waits [] = []"
| "ticker_waits (Call_select_ticker d sel # evs) = d # ticker_waits evs"
| "ticker_waits (_ # evs) = ticker_waits evs"

fun after_polls :: "('w, 'u) env \<Rightarrow> uri \<Rightarrow> nat \<Rightarrow> 'w \<Rightarrow> 'w" where
  "after_polls env uri 0 s = s"
| "after_polls env uri (Suc n) s =
    after_polls env uri n (snd (select_ticker env (100 * Millisecond) (snd (Health env uri s))))"

definition health_line :: "uri \<Rightarrow> error + bool \<Rightarrow> event" where
  "health_line uri res =
    (case res of
      Inl err \<Rightarrow> Printf ''node couldn't be reached at %s'' [A_str uri]
    | Inr healthy \<Rightarrow>
        if healthy then Printf ''node reported healthy at %s'' [A_str uri]
        else Printf ''node reported unhealthy at %s'' [A_str uri])"

definition cancelled_line :: "uri \<Rightarrow> selected \<Rightarrow> event list" where
  "cancelled_line uri sel =
    (case sel of
      chan_C \<Rightarrow> []
    | ctx_Done \<Rightarrow> [Printf ''node health check cancelled at %s'' [A_str uri]])"

section \<open>An example environment\<close>

text \<open>
  A small network to run the model on: the world holds the wallet's AVAX balances and a
  clock that every call but a read advances; every node accepts and commits every
  transaction and holds none of the consumed UTXOs 8 and 9. The fees are those of a local
  network and the amounts those of utils/units, in nAVAX (\<open>units.Avax\<close> is \<open>10^9\<close>,
  \<open>units.Schmeckle\<close> is 49463). Variants change one answer.
\<close>

record world =
  x_avax :: u64
  p_avax :: u64
  clock :: nat

definition tick :: "world \<Rightarrow> world" where
  "tick s = s\<lparr>clock := Suc (clock s)\<rparr>"

definition new_tx :: "world \<Rightarrow> (error + Tx) \<times> world" where
  "new_tx s = (Inr \<lparr>TxID = 100 + clock s, InputIDs = [200 + clock s, 300 + clock s]\<rparr>, tick s)"

definition avax_only :: "u64 \<Rightarrow> ID \<Rightarrow> u64" where
  "avax_only amount assetID = (if assetID = 1 then amount else 0)"

definition env0 :: "(world, ID list) env" where
  "env0 = \<lparr>
    X_GetFTBalance = (\<lambda>s. Inr (avax_only (x_avax s))),
    P_GetBalance = (\<lambda>s. Inr (avax_only (p_avax s))),
    X_AVAXAssetID = 1,
    P_AVAXAssetID = 1,
    X_BaseTxFee = 1000000,
    X_CreateAssetTxFee = 10000000,
    P_BaseTxFee = 1000000,
    X_BlockchainID = 2,
    PlatformChainID = 0,
    units_Schmeckle = 49463,
    units_Avax = 1000000000,
    X_IssueBaseTx = (\<lambda>outs. new_tx),
    X_IssueCreateAssetTx = (\<lambda>name symbol denomination states. new_tx),
    X_IssueOperationTxMintProperty = (\<lambda>assetID owner. new_tx),
    X_IssueExportTx = (\<lambda>chainID outs. new_tx),
    X_IssueImportTx = (\<lambda>chainID owner. new_tx),
    P_IssueExportTx = (\<lambda>chainID outs. new_tx),
    P_IssueImportTx = (\<lambda>chainID owner. new_tx),
    X_ConfirmTx = (\<lambda>u txID freq s. (Inr choices_Accepted, tick s)),
    P_AwaitTxDecided = (\<lambda>u txID freq s. (Inr status_Committed, tick s)),
    X_AddAllUTXOs = (\<lambda>u src dst as s. ((None, [1, 2, 3]), tick s)),
    P_AddAllUTXOs = (\<lambda>u src dst as s. ((None, [4, 5]), tick s)),
    GetUTXO = (\<lambda>utxos src dst i. if i \<in> set utxos then None else Some ErrNotFound),
    Health = (\<lambda>u s. (if clock s < 4 then Inr False else Inr True, tick s)),
    rand_Int = (\<lambda>m s. (Inr (int (clock s) mod m), tick s)),
    select_ticker = (\<lambda>d s. (chan_C, tick s)),
    select_timer = (\<lambda>d s. (ctx_Done, tick s))\<rparr>"

definition w0 :: workload where
  "w0 = \<lparr>workload_id = 0, addrs = [7], uris = [''http://n1:9650'', ''http://n2:9650'']\<rparr>"

definition s0 :: world where
  "s0 = \<lparr>x_avax = 5000000000, p_avax = 5000000000, clock = 0\<rparr>"

definition tx0 :: Tx where
  "tx0 = \<lparr>TxID = 42, InputIDs = [8, 9]\<rparr>"

text \<open>The second node answers \<open>Rejected\<close> (X-chain) and with an error (P-chain).\<close>

definition env_second_node_fails :: "(world, ID list) env" where
  "env_second_node_fails = env0\<lparr>
    X_ConfirmTx := (\<lambda>u txID freq s.
      (if u = ''http://n1:9650'' then Inr choices_Accepted else Inr choices_Rejected, tick s)),
    P_AwaitTxDecided := (\<lambda>u txID freq s.
      (if u = ''http://n1:9650'' then Inr status_Committed else Inl (Err ''timeout''), tick s))\<rparr>"

definition w3 :: workload where
  "w3 = \<lparr>workload_id = 0, addrs = [7],
     uris = [''http://n1:9650'', ''http://n2:9650'', ''http://n3:9650'']\<rparr>"

text \<open>
  The second node still holds the consumed UTXO 9 on the X-chain, and its P-chain fetch
  fails.
\<close>

definition env_second_node_stale :: "(world, ID list) env" where
  "env_second_node_stale = env0\<lparr>
    X_AddAllUTXOs := (\<lambda>u src dst as s.
      ((None, if u = ''http://n1:9650'' then [1, 2, 3] else [1, 9]), tick s)),
    P_AddAllUTXOs := (\<lambda>u src dst as s.
      ((if u = ''http://n1:9650'' then None else Some (Err ''unreachable''), []), tick s))\<rparr>"

text \<open>
  A wallet with no funds, and one that holds exactly the two base fees and one Schmeckle
  on each chain. In \<open>env_create_fails\<close> the wallet refuses to issue an asset creation.
\<close>

definition s_poor :: world where
  "s_poor = \<lparr>x_avax = 0, p_avax = 0, clock = 0\<rparr>"

definition s_mid :: world where
  "s_mid = \<lparr>x_avax = 2049463, p_avax = 2049463, clock = 0\<rparr>"

definition env_create_fails :: "(world, ID list) env" where
  "env_create_fails = env0\<lparr>
    X_IssueCreateAssetTx := (\<lambda>name symbol denomination states s.
      (Inl (Err ''insufficient funds''), tick s))\<rparr>"

text \<open>
  A wallet whose balance query always fails, and one whose balance query succeeds at
  the start and fails afterwards, with a timer that fires twice before the context is
  cancelled.
\<close>

definition env_wallet_down :: "(world, ID list) env" where
  "env_wallet_down = env0\<lparr>X_GetFTBalance := (\<lambda>s. Inl (Err ''wallet unavailable''))\<rparr>"

definition env_flaky_wallet :: "(world, ID list) env" where
  "env_flaky_wallet = env0\<lparr>
    X_GetFTBalance := (\<lambda>s.
      if clock s = 0 then Inr (avax_only (x_avax s)) else Inl (Err ''wallet unavailable'')),
    P_GetBalance := (\<lambda>s.
      if clock s = 0 then Inr (avax_only (p_avax s)) else Inl (Err ''wallet unavailable'')),
    select_timer := (\<lambda>d s. (if clock s < 4 then chan_C else ctx_Done, tick s))\<rparr>"


text \<open>
  A context cancelled once the clock reaches 3: from then on the \<open>select\<close> takes the
  Done case and the health client fails, as a client that honours its context does.
\<close>

definition env_cancelled :: "(world, ID list) env" where
  "env_cancelled = env0\<lparr>
    Health := (\<lambda>u s. (if clock s < 3 then Inr False else Inl (Err ''context canceled''), tick s)),
    select_ticker := (\<lambda>d s. (if clock s < 3 then chan_C else ctx_Done, tick s))\<rparr>"

definition cancelled_at_3 :: "world \<Rightarrow> bool" where
  "cancelled_at_3 s \<longleftrightarrow> 3 \<le> clock s"

section \<open>Properties\<close>

subsection \<open>The confirmation protocol\<close>

lemma X_probes_append: "X_probes (xs @ ys) = X_probes xs @ X_probes ys"
  by (induction xs rule: X_probes.induct) simp_all

lemma X_uris_prefix:
  "confirmXChainTx_uris env txID us s = (c, evs, s') \<Longrightarrow>
   map fst (X_probes evs) = take (length (X_probes evs)) us"
  by (induction us arbitrary: s c evs s')
     (auto split: prod.splits sum.splits if_splits)

lemma X_uris_no_all_nodes:
  "confirmXChainTx_uris env txID us s = (c, evs, s') \<Longrightarrow>
   Printf ''confirmed X-chain transaction %s on all nodes'' [A_ID txID] \<notin> set evs"
  by (induction us arbitrary: s c evs s')
     (auto split: prod.splits sum.splits if_splits)

lemma X_uris_completed:
  "confirmXChainTx_uris env txID us s = (c, evs, s') \<Longrightarrow>
   c \<longleftrightarrow> (map fst (X_probes evs) = us \<and> (\<forall>p \<in> set (X_probes evs). snd p = Inr choices_Accepted))"
proof (induction us arbitrary: s c evs s')
  case Nil
  then show ?case by auto
next
  case (Cons u us)
  obtain r s1 where r: "X_ConfirmTx env u txID (100 * Millisecond) s = (r, s1)"
    by (cases "X_ConfirmTx env u txID (100 * Millisecond) s")
  show ?case
  proof (cases "r = Inr choices_Accepted")
    case False
    with Cons.prems r show ?thesis
      by (auto split: sum.splits if_splits)
  next
    case True
    obtain c2 evs2 s2 where rec: "confirmXChainTx_uris env txID us s1 = (c2, evs2, s2)"
      by (cases "confirmXChainTx_uris env txID us s1")
    with Cons.prems r True
    have "c = c2" and "X_probes evs = (u, r) # X_probes evs2"
      by auto
    with Cons.IH [OF rec] True show ?thesis by auto
  qed
qed

lemma X_uris_failure:
  "confirmXChainTx_uris env txID us s = (False, evs, s') \<Longrightarrow>
   \<exists>pre u r. evs = pre @ [Call_X_ConfirmTx u txID (100 * Millisecond) r, X_confirm_failure txID u r]
     \<and> r \<noteq> Inr choices_Accepted
     \<and> (\<forall>p \<in> set (X_probes pre). snd p = Inr choices_Accepted)"
proof (induction us arbitrary: s evs s')
  case Nil
  then show ?case by simp
next
  case (Cons u us)
  obtain r s1 where r: "X_ConfirmTx env u txID (100 * Millisecond) s = (r, s1)"
    by (cases "X_ConfirmTx env u txID (100 * Millisecond) s")
  show ?case
  proof (cases "r = Inr choices_Accepted")
    case False
    with Cons.prems r
    have "evs = [] @ [Call_X_ConfirmTx u txID (100 * Millisecond) r, X_confirm_failure txID u r]"
      by (auto simp: X_confirm_failure_def split: sum.splits if_splits)
    with False show ?thesis by (metis X_probes.simps(1) empty_iff list.set(1))
  next
    case True
    obtain c2 evs2 s2 where rec: "confirmXChainTx_uris env txID us s1 = (c2, evs2, s2)"
      by (cases "confirmXChainTx_uris env txID us s1")
    with Cons.prems r True
    have c2: "c2 = False" and s2: "s2 = s'"
      and evs: "evs = [Call_X_ConfirmTx u txID (100 * Millisecond) r,
                Printf ''confirmed X-chain transaction %s on %s'' [A_ID txID, A_str u]] @ evs2"
      by auto
    from Cons.IH [OF rec [unfolded c2]]
    obtain pre u' r' where
      "evs2 = pre @ [Call_X_ConfirmTx u' txID (100 * Millisecond) r', X_confirm_failure txID u' r']"
      "r' \<noteq> Inr choices_Accepted" "\<forall>p \<in> set (X_probes pre). snd p = Inr choices_Accepted"
      by blast
    then have "evs = ([Call_X_ConfirmTx u txID (100 * Millisecond) r,
                Printf ''confirmed X-chain transaction %s on %s'' [A_ID txID, A_str u]] @ pre)
          @ [Call_X_ConfirmTx u' txID (100 * Millisecond) r', X_confirm_failure txID u' r']
       \<and> r' \<noteq> Inr choices_Accepted
       \<and> (\<forall>p \<in> set (X_probes ([Call_X_ConfirmTx u txID (100 * Millisecond) r,
                Printf ''confirmed X-chain transaction %s on %s'' [A_ID txID, A_str u]] @ pre)).
             snd p = Inr choices_Accepted)"
      using evs True by simp
    then show ?thesis by blast
  qed
qed

lemma P_probes_append: "P_probes (xs @ ys) = P_probes xs @ P_probes ys"
  by (induction xs rule: P_probes.induct) simp_all

lemma P_uris_prefix:
  "confirmPChainTx_uris env txID us s = (c, evs, s') \<Longrightarrow>
   map fst (P_probes evs) = take (length (P_probes evs)) us"
  by (induction us arbitrary: s c evs s')
     (auto split: prod.splits sum.splits if_splits)

lemma P_uris_no_all_nodes:
  "confirmPChainTx_uris env txID us s = (c, evs, s') \<Longrightarrow>
   Printf ''confirmed P-chain transaction %s on all nodes'' [A_ID txID] \<notin> set evs"
  by (induction us arbitrary: s c evs s')
     (auto split: prod.splits sum.splits if_splits)

lemma P_uris_completed:
  "confirmPChainTx_uris env txID us s = (c, evs, s') \<Longrightarrow>
   c \<longleftrightarrow> (map fst (P_probes evs) = us \<and> (\<forall>p \<in> set (P_probes evs). snd p = Inr status_Committed))"
proof (induction us arbitrary: s c evs s')
  case Nil
  then show ?case by auto
next
  case (Cons u us)
  obtain r s1 where r: "P_AwaitTxDecided env u txID (100 * Millisecond) s = (r, s1)"
    by (cases "P_AwaitTxDecided env u txID (100 * Millisecond) s")
  show ?case
  proof (cases "r = Inr status_Committed")
    case False
    with Cons.prems r show ?thesis
      by (auto split: sum.splits if_splits)
  next
    case True
    obtain c2 evs2 s2 where rec: "confirmPChainTx_uris env txID us s1 = (c2, evs2, s2)"
      by (cases "confirmPChainTx_uris env txID us s1")
    with Cons.prems r True
    have "c = c2" and "P_probes evs = (u, r) # P_probes evs2"
      by auto
    with Cons.IH [OF rec] True show ?thesis by auto
  qed
qed

lemma P_uris_failure:
  "confirmPChainTx_uris env txID us s = (False, evs, s') \<Longrightarrow>
   \<exists>pre u r. evs = pre @ [Call_P_AwaitTxDecided u txID (100 * Millisecond) r, P_confirm_failure txID u r]
     \<and> r \<noteq> Inr status_Committed
     \<and> (\<forall>p \<in> set (P_probes pre). snd p = Inr status_Committed)"
proof (induction us arbitrary: s evs s')
  case Nil
  then show ?case by simp
next
  case (Cons u us)
  obtain r s1 where r: "P_AwaitTxDecided env u txID (100 * Millisecond) s = (r, s1)"
    by (cases "P_AwaitTxDecided env u txID (100 * Millisecond) s")
  show ?case
  proof (cases "r = Inr status_Committed")
    case False
    with Cons.prems r
    have "evs = [] @ [Call_P_AwaitTxDecided u txID (100 * Millisecond) r, P_confirm_failure txID u r]"
      by (auto simp: P_confirm_failure_def split: sum.splits if_splits)
    with False show ?thesis by (metis P_probes.simps(1) empty_iff list.set(1))
  next
    case True
    obtain c2 evs2 s2 where rec: "confirmPChainTx_uris env txID us s1 = (c2, evs2, s2)"
      by (cases "confirmPChainTx_uris env txID us s1")
    with Cons.prems r True
    have c2: "c2 = False" and s2: "s2 = s'"
      and evs: "evs = [Call_P_AwaitTxDecided u txID (100 * Millisecond) r,
                Printf ''confirmed P-chain transaction %s on %s'' [A_ID txID, A_str u]] @ evs2"
      by auto
    from Cons.IH [OF rec [unfolded c2]]
    obtain pre u' r' where
      "evs2 = pre @ [Call_P_AwaitTxDecided u' txID (100 * Millisecond) r', P_confirm_failure txID u' r']"
      "r' \<noteq> Inr status_Committed" "\<forall>p \<in> set (P_probes pre). snd p = Inr status_Committed"
      by blast
    then have "evs = ([Call_P_AwaitTxDecided u txID (100 * Millisecond) r,
                Printf ''confirmed P-chain transaction %s on %s'' [A_ID txID, A_str u]] @ pre)
          @ [Call_P_AwaitTxDecided u' txID (100 * Millisecond) r', P_confirm_failure txID u' r']
       \<and> r' \<noteq> Inr status_Committed
       \<and> (\<forall>p \<in> set (P_probes ([Call_P_AwaitTxDecided u txID (100 * Millisecond) r,
                Printf ''confirmed P-chain transaction %s on %s'' [A_ID txID, A_str u]] @ pre)).
             snd p = Inr status_Committed)"
      using evs True by simp
    then show ?thesis by blast
  qed
qed


lemma X_uris_answers:
  "confirmXChainTx_uris env txID us s = (c, evs, s') \<Longrightarrow>
   X_probes evs = X_answers env txID us s \<and> (c \<longleftrightarrow> X_all_accepted env txID us s)"
proof (induction us arbitrary: s c evs s')
  case Nil
  then show ?case by auto
next
  case (Cons u us)
  obtain r s1 where r: "X_ConfirmTx env u txID (100 * Millisecond) s = (r, s1)"
    by (metis surj_pair)
  show ?case
  proof (cases "r = Inr choices_Accepted")
    case False
    with Cons.prems r show ?thesis
      by (auto split: sum.splits if_splits)
  next
    case True
    obtain c2 evs2 s2 where rec: "confirmXChainTx_uris env txID us s1 = (c2, evs2, s2)"
      by (metis surj_pair)
    with Cons.prems r True
    have "c = c2" and "X_probes evs = (u, r) # X_probes evs2"
      by auto
    with Cons.IH [OF rec] r True show ?thesis by simp
  qed
qed

lemma P_uris_answers:
  "confirmPChainTx_uris env txID us s = (c, evs, s') \<Longrightarrow>
   P_probes evs = P_answers env txID us s \<and> (c \<longleftrightarrow> P_all_committed env txID us s)"
proof (induction us arbitrary: s c evs s')
  case Nil
  then show ?case by auto
next
  case (Cons u us)
  obtain r s1 where r: "P_AwaitTxDecided env u txID (100 * Millisecond) s = (r, s1)"
    by (metis surj_pair)
  show ?case
  proof (cases "r = Inr status_Committed")
    case False
    with Cons.prems r show ?thesis
      by (auto split: sum.splits if_splits)
  next
    case True
    obtain c2 evs2 s2 where rec: "confirmPChainTx_uris env txID us s1 = (c2, evs2, s2)"
      by (metis surj_pair)
    with Cons.prems r True
    have "c = c2" and "P_probes evs = (u, r) # P_probes evs2"
      by auto
    with Cons.IH [OF rec] r True show ?thesis by simp
  qed
qed

lemma X_all_accepted_first_failure:
  "X_all_accepted env txID us s \<longleftrightarrow> X_first_failure env txID us s = None"
  by (induction us arbitrary: s) (auto split: prod.splits)

lemma P_all_committed_first_failure:
  "P_all_committed env txID us s \<longleftrightarrow> P_first_failure env txID us s = None"
  by (induction us arbitrary: s) (auto split: prod.splits)

lemma X_uris_first_failure:
  "confirmXChainTx_uris env txID us s = (c, evs, s') \<Longrightarrow>
   X_first_failure env txID us s = Some (u, r) \<Longrightarrow>
   \<exists>pre. evs = pre @ [Call_X_ConfirmTx u txID (100 * Millisecond) r, X_confirm_failure txID u r]"
proof (induction us arbitrary: s c evs s')
  case Nil
  then show ?case by simp
next
  case (Cons a us)
  obtain ra s1 where ra: "X_ConfirmTx env a txID (100 * Millisecond) s = (ra, s1)"
    by (cases "X_ConfirmTx env a txID (100 * Millisecond) s")
  show ?case
  proof (cases "ra = Inr choices_Accepted")
    case False
    with Cons.prems ra
    have "evs = [] @ [Call_X_ConfirmTx u txID (100 * Millisecond) r, X_confirm_failure txID u r]"
      by (auto simp: X_confirm_failure_def split: sum.splits if_splits)
    then show ?thesis by blast
  next
    case True
    obtain c2 evs2 s2 where rec: "confirmXChainTx_uris env txID us s1 = (c2, evs2, s2)"
      by (cases "confirmXChainTx_uris env txID us s1")
    with Cons.prems ra True
    have evs: "evs = [Call_X_ConfirmTx a txID (100 * Millisecond) ra,
                Printf ''confirmed X-chain transaction %s on %s'' [A_ID txID, A_str a]] @ evs2"
      and ff: "X_first_failure env txID us s1 = Some (u, r)"
      by auto
    from Cons.IH [OF rec ff]
    obtain pre where
      "evs2 = pre @ [Call_X_ConfirmTx u txID (100 * Millisecond) r, X_confirm_failure txID u r]"
      by blast
    with evs have "evs = ([Call_X_ConfirmTx a txID (100 * Millisecond) ra,
                Printf ''confirmed X-chain transaction %s on %s'' [A_ID txID, A_str a]] @ pre)
          @ [Call_X_ConfirmTx u txID (100 * Millisecond) r, X_confirm_failure txID u r]"
      by simp
    then show ?thesis by blast
  qed
qed

lemma P_uris_first_failure:
  "confirmPChainTx_uris env txID us s = (c, evs, s') \<Longrightarrow>
   P_first_failure env txID us s = Some (u, r) \<Longrightarrow>
   \<exists>pre. evs = pre @ [Call_P_AwaitTxDecided u txID (100 * Millisecond) r, P_confirm_failure txID u r]"
proof (induction us arbitrary: s c evs s')
  case Nil
  then show ?case by simp
next
  case (Cons a us)
  obtain ra s1 where ra: "P_AwaitTxDecided env a txID (100 * Millisecond) s = (ra, s1)"
    by (cases "P_AwaitTxDecided env a txID (100 * Millisecond) s")
  show ?case
  proof (cases "ra = Inr status_Committed")
    case False
    with Cons.prems ra
    have "evs = [] @ [Call_P_AwaitTxDecided u txID (100 * Millisecond) r, P_confirm_failure txID u r]"
      by (auto simp: P_confirm_failure_def split: sum.splits if_splits)
    then show ?thesis by blast
  next
    case True
    obtain c2 evs2 s2 where rec: "confirmPChainTx_uris env txID us s1 = (c2, evs2, s2)"
      by (cases "confirmPChainTx_uris env txID us s1")
    with Cons.prems ra True
    have evs: "evs = [Call_P_AwaitTxDecided a txID (100 * Millisecond) ra,
                Printf ''confirmed P-chain transaction %s on %s'' [A_ID txID, A_str a]] @ evs2"
      and ff: "P_first_failure env txID us s1 = Some (u, r)"
      by auto
    from Cons.IH [OF rec ff]
    obtain pre where
      "evs2 = pre @ [Call_P_AwaitTxDecided u txID (100 * Millisecond) r, P_confirm_failure txID u r]"
      by blast
    with evs have "evs = ([Call_P_AwaitTxDecided a txID (100 * Millisecond) ra,
                Printf ''confirmed P-chain transaction %s on %s'' [A_ID txID, A_str a]] @ pre)
          @ [Call_P_AwaitTxDecided u txID (100 * Millisecond) r, P_confirm_failure txID u r]"
      by simp
    then show ?thesis by blast
  qed
qed

text \<open>
  C2. For every transaction and endpoint list, the status calls \<open>confirmXChainTx\<close>
  (\<open>confirmPChainTx\<close>) makes are exactly the answers of the endpoints asked in list
  order, each at most once, up to and including the first that is not \<open>Accepted\<close>
  (\<open>Committed\<close>). It logs "confirmed ... on all nodes" if and only if every endpoint of
  the list answers \<open>Accepted\<close> (\<open>Committed\<close>). Otherwise the call to the first
  endpoint whose answer is an error or another status is the last call of the trace,
  followed by the failure line for that endpoint and answer only: the function returns
  there, asking no further endpoint and not asking this one again, and logs no "on all
  nodes" line.
\<close>

theorem confirm_reports_all_nodes_iff_every_endpoint_accepted:
  "(let trace = fst (confirmXChainTx env w tx s); probes = X_probes trace in
      probes = X_answers env (TxID tx) (uris w) s
      \<and> map fst probes = take (length probes) (uris w)
      \<and> (Printf ''confirmed X-chain transaction %s on all nodes'' [A_ID (TxID tx)] \<in> set trace
           \<longleftrightarrow> X_all_accepted env (TxID tx) (uris w) s)
      \<and> (Printf ''confirmed X-chain transaction %s on all nodes'' [A_ID (TxID tx)] \<in> set trace
           \<longleftrightarrow> map fst probes = uris w \<and> (\<forall>p \<in> set probes. snd p = Inr choices_Accepted))
      \<and> (\<not> X_all_accepted env (TxID tx) (uris w) s \<longrightarrow>
           (\<exists>pre u r.
              trace = pre @ [Call_X_ConfirmTx u (TxID tx) (100 * Millisecond) r,
                             X_confirm_failure (TxID tx) u r]
              \<and> r \<noteq> Inr choices_Accepted
              \<and> (\<forall>p \<in> set (X_probes pre). snd p = Inr choices_Accepted)))
      \<and> ((\<exists>p \<in> set probes. snd p \<noteq> Inr choices_Accepted) \<longrightarrow>
           (\<exists>pre u r.
              trace = pre @ [Call_X_ConfirmTx u (TxID tx) (100 * Millisecond) r,
                             X_confirm_failure (TxID tx) u r]
              \<and> r \<noteq> Inr choices_Accepted
              \<and> (\<forall>p \<in> set (X_probes pre). snd p = Inr choices_Accepted)))
      \<and> (X_all_accepted env (TxID tx) (uris w) s
           \<longleftrightarrow> X_first_failure env (TxID tx) (uris w) s = None)
      \<and> (\<forall>u r. X_first_failure env (TxID tx) (uris w) s = Some (u, r) \<longrightarrow>
           Printf ''confirmed X-chain transaction %s on all nodes'' [A_ID (TxID tx)] \<notin> set trace
           \<and> (\<exists>pre. trace = pre @ [Call_X_ConfirmTx u (TxID tx) (100 * Millisecond) r,
                                     X_confirm_failure (TxID tx) u r])))
   \<and> (let trace = fst (confirmPChainTx env w tx s); probes = P_probes trace in
      probes = P_answers env (TxID tx) (uris w) s
      \<and> map fst probes = take (length probes) (uris w)
      \<and> (Printf ''confirmed P-chain transaction %s on all nodes'' [A_ID (TxID tx)] \<in> set trace
           \<longleftrightarrow> P_all_committed env (TxID tx) (uris w) s)
      \<and> (Printf ''confirmed P-chain transaction %s on all nodes'' [A_ID (TxID tx)] \<in> set trace
           \<longleftrightarrow> map fst probes = uris w \<and> (\<forall>p \<in> set probes. snd p = Inr status_Committed))
      \<and> (\<not> P_all_committed env (TxID tx) (uris w) s \<longrightarrow>
           (\<exists>pre u r.
              trace = pre @ [Call_P_AwaitTxDecided u (TxID tx) (100 * Millisecond) r,
                             P_confirm_failure (TxID tx) u r]
              \<and> r \<noteq> Inr status_Committed
              \<and> (\<forall>p \<in> set (P_probes pre). snd p = Inr status_Committed)))
      \<and> ((\<exists>p \<in> set probes. snd p \<noteq> Inr status_Committed) \<longrightarrow>
           (\<exists>pre u r.
              trace = pre @ [Call_P_AwaitTxDecided u (TxID tx) (100 * Millisecond) r,
                             P_confirm_failure (TxID tx) u r]
              \<and> r \<noteq> Inr status_Committed
              \<and> (\<forall>p \<in> set (P_probes pre). snd p = Inr status_Committed)))
      \<and> (P_all_committed env (TxID tx) (uris w) s
           \<longleftrightarrow> P_first_failure env (TxID tx) (uris w) s = None)
      \<and> (\<forall>u r. P_first_failure env (TxID tx) (uris w) s = Some (u, r) \<longrightarrow>
           Printf ''confirmed P-chain transaction %s on all nodes'' [A_ID (TxID tx)] \<notin> set trace
           \<and> (\<exists>pre. trace = pre @ [Call_P_AwaitTxDecided u (TxID tx) (100 * Millisecond) r,
                                     P_confirm_failure (TxID tx) u r])))"
proof -
  obtain xc xevs xs' where xx: "confirmXChainTx_uris env (TxID tx) (uris w) s = (xc, xevs, xs')"
    by (metis surj_pair)
  let ?xall = "Printf ''confirmed X-chain transaction %s on all nodes'' [A_ID (TxID tx)]"
  let ?xtrace = "fst (confirmXChainTx env w tx s)"
  have xt: "?xtrace = (if xc then xevs @ [?xall] else xevs)"
    using xx by (simp add: confirmXChainTx_def Let_def)
  have xp: "X_probes ?xtrace = X_probes xevs"
    by (simp add: xt X_probes_append)
  note xans = X_uris_answers [OF xx]
  have x0: "X_probes xevs = X_answers env (TxID tx) (uris w) s"
    using xans by simp
  have x1: "map fst (X_probes xevs) = take (length (X_probes xevs)) (uris w)"
    by (rule X_uris_prefix [OF xx])
  have x2: "?xall \<in> set ?xtrace \<longleftrightarrow> X_all_accepted env (TxID tx) (uris w) s"
    using X_uris_no_all_nodes [OF xx] xans by (auto simp: xt)
  have x3: "?xall \<in> set ?xtrace \<longleftrightarrow>
      map fst (X_probes xevs) = uris w \<and> (\<forall>p \<in> set (X_probes xevs). snd p = Inr choices_Accepted)"
    using X_uris_no_all_nodes [OF xx] X_uris_completed [OF xx] by (auto simp: xt)
  have x4: "\<exists>pre u r.
      ?xtrace = pre @ [Call_X_ConfirmTx u (TxID tx) (100 * Millisecond) r, X_confirm_failure (TxID tx) u r]
      \<and> r \<noteq> Inr choices_Accepted
      \<and> (\<forall>p \<in> set (X_probes pre). snd p = Inr choices_Accepted)"
    if "\<not> xc"
    using that xx X_uris_failure [of env "TxID tx" "uris w" s xevs xs']
    by (simp add: xt)
  have x5: "\<not> xc" if "\<not> X_all_accepted env (TxID tx) (uris w) s"
    using that xans by simp
  have x6: "\<not> xc" if "\<exists>p \<in> set (X_probes xevs). snd p \<noteq> Inr choices_Accepted"
    using that X_uris_completed [OF xx] by auto
  have x7: "X_all_accepted env (TxID tx) (uris w) s
      \<longleftrightarrow> X_first_failure env (TxID tx) (uris w) s = None"
    by (rule X_all_accepted_first_failure)
  have x8: "\<forall>u r. X_first_failure env (TxID tx) (uris w) s = Some (u, r) \<longrightarrow>
      ?xall \<notin> set ?xtrace
      \<and> (\<exists>pre. ?xtrace = pre @ [Call_X_ConfirmTx u (TxID tx) (100 * Millisecond) r,
                                   X_confirm_failure (TxID tx) u r])"
  proof (intro allI impI)
    fix u r
    assume ff: "X_first_failure env (TxID tx) (uris w) s = Some (u, r)"
    then have "\<not> X_all_accepted env (TxID tx) (uris w) s"
      by (simp add: x7)
    then have nc: "\<not> xc"
      by (rule x5)
    with x2 xans have "?xall \<notin> set ?xtrace"
      by simp
    moreover from X_uris_first_failure [OF xx ff] nc
    have "\<exists>pre. ?xtrace = pre @ [Call_X_ConfirmTx u (TxID tx) (100 * Millisecond) r,
                                  X_confirm_failure (TxID tx) u r]"
      by (simp add: xt)
    ultimately show "?xall \<notin> set ?xtrace
      \<and> (\<exists>pre. ?xtrace = pre @ [Call_X_ConfirmTx u (TxID tx) (100 * Millisecond) r,
                                   X_confirm_failure (TxID tx) u r])"
      by (rule conjI)
  qed
  have xhalf: "(let trace = fst (confirmXChainTx env w tx s); probes = X_probes trace in
      probes = X_answers env (TxID tx) (uris w) s
      \<and> map fst probes = take (length probes) (uris w)
      \<and> (Printf ''confirmed X-chain transaction %s on all nodes'' [A_ID (TxID tx)] \<in> set trace
           \<longleftrightarrow> X_all_accepted env (TxID tx) (uris w) s)
      \<and> (Printf ''confirmed X-chain transaction %s on all nodes'' [A_ID (TxID tx)] \<in> set trace
           \<longleftrightarrow> map fst probes = uris w \<and> (\<forall>p \<in> set probes. snd p = Inr choices_Accepted))
      \<and> (\<not> X_all_accepted env (TxID tx) (uris w) s \<longrightarrow>
           (\<exists>pre u r.
              trace = pre @ [Call_X_ConfirmTx u (TxID tx) (100 * Millisecond) r,
                             X_confirm_failure (TxID tx) u r]
              \<and> r \<noteq> Inr choices_Accepted
              \<and> (\<forall>p \<in> set (X_probes pre). snd p = Inr choices_Accepted)))
      \<and> ((\<exists>p \<in> set probes. snd p \<noteq> Inr choices_Accepted) \<longrightarrow>
           (\<exists>pre u r.
              trace = pre @ [Call_X_ConfirmTx u (TxID tx) (100 * Millisecond) r,
                             X_confirm_failure (TxID tx) u r]
              \<and> r \<noteq> Inr choices_Accepted
              \<and> (\<forall>p \<in> set (X_probes pre). snd p = Inr choices_Accepted)))
      \<and> (X_all_accepted env (TxID tx) (uris w) s
           \<longleftrightarrow> X_first_failure env (TxID tx) (uris w) s = None)
      \<and> (\<forall>u r. X_first_failure env (TxID tx) (uris w) s = Some (u, r) \<longrightarrow>
           Printf ''confirmed X-chain transaction %s on all nodes'' [A_ID (TxID tx)] \<notin> set trace
           \<and> (\<exists>pre. trace = pre @ [Call_X_ConfirmTx u (TxID tx) (100 * Millisecond) r,
                                     X_confirm_failure (TxID tx) u r])))"
    unfolding Let_def xp using x0 x1 x2 x3 x4 x5 x6 x7 x8 by blast
  obtain pc pevs ps' where px: "confirmPChainTx_uris env (TxID tx) (uris w) s = (pc, pevs, ps')"
    by (metis surj_pair)
  let ?pall = "Printf ''confirmed P-chain transaction %s on all nodes'' [A_ID (TxID tx)]"
  let ?ptrace = "fst (confirmPChainTx env w tx s)"
  have pt: "?ptrace = (if pc then pevs @ [?pall] else pevs)"
    using px by (simp add: confirmPChainTx_def Let_def)
  have pp: "P_probes ?ptrace = P_probes pevs"
    by (simp add: pt P_probes_append)
  note pans = P_uris_answers [OF px]
  have p0: "P_probes pevs = P_answers env (TxID tx) (uris w) s"
    using pans by simp
  have p1: "map fst (P_probes pevs) = take (length (P_probes pevs)) (uris w)"
    by (rule P_uris_prefix [OF px])
  have p2: "?pall \<in> set ?ptrace \<longleftrightarrow> P_all_committed env (TxID tx) (uris w) s"
    using P_uris_no_all_nodes [OF px] pans by (auto simp: pt)
  have p3: "?pall \<in> set ?ptrace \<longleftrightarrow>
      map fst (P_probes pevs) = uris w \<and> (\<forall>p \<in> set (P_probes pevs). snd p = Inr status_Committed)"
    using P_uris_no_all_nodes [OF px] P_uris_completed [OF px] by (auto simp: pt)
  have p4: "\<exists>pre u r.
      ?ptrace = pre @ [Call_P_AwaitTxDecided u (TxID tx) (100 * Millisecond) r, P_confirm_failure (TxID tx) u r]
      \<and> r \<noteq> Inr status_Committed
      \<and> (\<forall>p \<in> set (P_probes pre). snd p = Inr status_Committed)"
    if "\<not> pc"
    using that px P_uris_failure [of env "TxID tx" "uris w" s pevs ps']
    by (simp add: pt)
  have p5: "\<not> pc" if "\<not> P_all_committed env (TxID tx) (uris w) s"
    using that pans by simp
  have p6: "\<not> pc" if "\<exists>p \<in> set (P_probes pevs). snd p \<noteq> Inr status_Committed"
    using that P_uris_completed [OF px] by auto
  have p7: "P_all_committed env (TxID tx) (uris w) s
      \<longleftrightarrow> P_first_failure env (TxID tx) (uris w) s = None"
    by (rule P_all_committed_first_failure)
  have p8: "\<forall>u r. P_first_failure env (TxID tx) (uris w) s = Some (u, r) \<longrightarrow>
      ?pall \<notin> set ?ptrace
      \<and> (\<exists>pre. ?ptrace = pre @ [Call_P_AwaitTxDecided u (TxID tx) (100 * Millisecond) r,
                                   P_confirm_failure (TxID tx) u r])"
  proof (intro allI impI)
    fix u r
    assume ff: "P_first_failure env (TxID tx) (uris w) s = Some (u, r)"
    then have "\<not> P_all_committed env (TxID tx) (uris w) s"
      by (simp add: p7)
    then have nc: "\<not> pc"
      by (rule p5)
    with p2 pans have "?pall \<notin> set ?ptrace"
      by simp
    moreover from P_uris_first_failure [OF px ff] nc
    have "\<exists>pre. ?ptrace = pre @ [Call_P_AwaitTxDecided u (TxID tx) (100 * Millisecond) r,
                                  P_confirm_failure (TxID tx) u r]"
      by (simp add: pt)
    ultimately show "?pall \<notin> set ?ptrace
      \<and> (\<exists>pre. ?ptrace = pre @ [Call_P_AwaitTxDecided u (TxID tx) (100 * Millisecond) r,
                                   P_confirm_failure (TxID tx) u r])"
      by (rule conjI)
  qed
  have phalf: "(let trace = fst (confirmPChainTx env w tx s); probes = P_probes trace in
      probes = P_answers env (TxID tx) (uris w) s
      \<and> map fst probes = take (length probes) (uris w)
      \<and> (Printf ''confirmed P-chain transaction %s on all nodes'' [A_ID (TxID tx)] \<in> set trace
           \<longleftrightarrow> P_all_committed env (TxID tx) (uris w) s)
      \<and> (Printf ''confirmed P-chain transaction %s on all nodes'' [A_ID (TxID tx)] \<in> set trace
           \<longleftrightarrow> map fst probes = uris w \<and> (\<forall>p \<in> set probes. snd p = Inr status_Committed))
      \<and> (\<not> P_all_committed env (TxID tx) (uris w) s \<longrightarrow>
           (\<exists>pre u r.
              trace = pre @ [Call_P_AwaitTxDecided u (TxID tx) (100 * Millisecond) r,
                             P_confirm_failure (TxID tx) u r]
              \<and> r \<noteq> Inr status_Committed
              \<and> (\<forall>p \<in> set (P_probes pre). snd p = Inr status_Committed)))
      \<and> ((\<exists>p \<in> set probes. snd p \<noteq> Inr status_Committed) \<longrightarrow>
           (\<exists>pre u r.
              trace = pre @ [Call_P_AwaitTxDecided u (TxID tx) (100 * Millisecond) r,
                             P_confirm_failure (TxID tx) u r]
              \<and> r \<noteq> Inr status_Committed
              \<and> (\<forall>p \<in> set (P_probes pre). snd p = Inr status_Committed)))
      \<and> (P_all_committed env (TxID tx) (uris w) s
           \<longleftrightarrow> P_first_failure env (TxID tx) (uris w) s = None)
      \<and> (\<forall>u r. P_first_failure env (TxID tx) (uris w) s = Some (u, r) \<longrightarrow>
           Printf ''confirmed P-chain transaction %s on all nodes'' [A_ID (TxID tx)] \<notin> set trace
           \<and> (\<exists>pre. trace = pre @ [Call_P_AwaitTxDecided u (TxID tx) (100 * Millisecond) r,
                                     P_confirm_failure (TxID tx) u r])))"
    unfolding Let_def pp using p0 p1 p2 p3 p4 p5 p6 p7 p8 by blast
  from xhalf phalf show ?thesis by (intro conjI)
qed

theorem confirm_reports_all_nodes_witness:
  "X_all_accepted env0 (TxID tx0) (uris w0) s0
   \<and> X_probes (fst (confirmXChainTx env0 w0 tx0 s0))
       = [(''http://n1:9650'', Inr choices_Accepted), (''http://n2:9650'', Inr choices_Accepted)]
   \<and> map fst (X_probes (fst (confirmXChainTx env0 w0 tx0 s0))) = uris w0
   \<and> map snd (X_probes (fst (confirmXChainTx env0 w0 tx0 s0)))
       = [Inr choices_Accepted, Inr choices_Accepted]
   \<and> Printf ''confirmed X-chain transaction %s on all nodes'' [A_ID (TxID tx0)]
       \<in> set (fst (confirmXChainTx env0 w0 tx0 s0))
   \<and> X_first_failure env0 (TxID tx0) (uris w0) s0 = None
   \<and> \<not> X_all_accepted env_second_node_fails (TxID tx0) (uris w3) s0
   \<and> X_first_failure env_second_node_fails (TxID tx0) (uris w3) s0
       = Some (''http://n2:9650'', Inr choices_Rejected)
   \<and> X_answers env_second_node_fails (TxID tx0) (uris w3) s0
       = [(''http://n1:9650'', Inr choices_Accepted), (''http://n2:9650'', Inr choices_Rejected)]
   \<and> fst (confirmXChainTx env_second_node_fails w3 tx0 s0)
       = [Call_X_ConfirmTx ''http://n1:9650'' 42 (100 * Millisecond) (Inr choices_Accepted),
          Printf ''confirmed X-chain transaction %s on %s'' [A_ID 42, A_str ''http://n1:9650''],
          Call_X_ConfirmTx ''http://n2:9650'' 42 (100 * Millisecond) (Inr choices_Rejected),
          X_confirm_failure 42 ''http://n2:9650'' (Inr choices_Rejected)]
   \<and> Printf ''confirmed X-chain transaction %s on all nodes'' [A_ID (TxID tx0)]
       \<notin> set (fst (confirmXChainTx env_second_node_fails w3 tx0 s0))
   \<and> P_all_committed env0 (TxID tx0) (uris w0) s0
   \<and> P_probes (fst (confirmPChainTx env0 w0 tx0 s0))
       = [(''http://n1:9650'', Inr status_Committed), (''http://n2:9650'', Inr status_Committed)]
   \<and> map fst (P_probes (fst (confirmPChainTx env0 w0 tx0 s0))) = uris w0
   \<and> map snd (P_probes (fst (confirmPChainTx env0 w0 tx0 s0)))
       = [Inr status_Committed, Inr status_Committed]
   \<and> Printf ''confirmed P-chain transaction %s on all nodes'' [A_ID (TxID tx0)]
       \<in> set (fst (confirmPChainTx env0 w0 tx0 s0))
   \<and> P_first_failure env0 (TxID tx0) (uris w0) s0 = None
   \<and> \<not> P_all_committed env_second_node_fails (TxID tx0) (uris w3) s0
   \<and> P_first_failure env_second_node_fails (TxID tx0) (uris w3) s0
       = Some (''http://n2:9650'', Inl (Err ''timeout''))
   \<and> P_answers env_second_node_fails (TxID tx0) (uris w3) s0
       = [(''http://n1:9650'', Inr status_Committed), (''http://n2:9650'', Inl (Err ''timeout''))]
   \<and> fst (confirmPChainTx env_second_node_fails w3 tx0 s0)
       = [Call_P_AwaitTxDecided ''http://n1:9650'' 42 (100 * Millisecond) (Inr status_Committed),
          Printf ''confirmed P-chain transaction %s on %s'' [A_ID 42, A_str ''http://n1:9650''],
          Call_P_AwaitTxDecided ''http://n2:9650'' 42 (100 * Millisecond) (Inl (Err ''timeout'')),
          P_confirm_failure 42 ''http://n2:9650'' (Inl (Err ''timeout''))]
   \<and> Printf ''confirmed P-chain transaction %s on all nodes'' [A_ID (TxID tx0)]
       \<notin> set (fst (confirmPChainTx env_second_node_fails w3 tx0 s0))"
  using confirm_reports_all_nodes_iff_every_endpoint_accepted [of env0 w0 tx0 s0]
    confirm_reports_all_nodes_iff_every_endpoint_accepted [of env_second_node_fails w3 tx0 s0]
  by (simp add: confirmXChainTx_def confirmPChainTx_def env0_def env_second_node_fails_def
      w0_def w3_def tx0_def s0_def tick_def X_confirm_failure_def P_confirm_failure_def)

subsection \<open>The consistency verifier\<close>

lemma lookups_append: "lookups (xs @ ys) = lookups xs @ lookups ys"
  by (induction xs rule: lookups.induct) simp_all

lemma X_fetches_append: "X_fetches (xs @ ys) = X_fetches xs @ X_fetches ys"
  by (induction xs rule: X_fetches.induct) simp_all

lemma verifyX_inputs_completed:
  "verifyXChainTxConsumedUTXOs_inputs env utxos c u txID ins = (b, evs) \<Longrightarrow>
   b \<longleftrightarrow> (\<forall>i \<in> set ins. GetUTXO env utxos c c i = Some ErrNotFound)"
proof (induction ins arbitrary: b evs)
  case Nil
  then show ?case by simp
next
  case (Cons i ins)
  obtain b2 evs2 where rec: "verifyXChainTxConsumedUTXOs_inputs env utxos c u txID ins = (b2, evs2)"
    by (cases "verifyXChainTxConsumedUTXOs_inputs env utxos c u txID ins")
  from Cons.prems rec Cons.IH [OF rec] show ?case
    by (auto simp: Let_def split: if_splits)
qed

lemma verifyX_inputs_events:
  "verifyXChainTxConsumedUTXOs_inputs env utxos c u txID ins = (b, evs) \<Longrightarrow>
   X_fetches evs = []
   \<and> (if b then \<forall>l \<in> set (lookups evs). snd l = Some ErrNotFound
       else \<exists>pre i r. evs = pre @ [Call_GetUTXO c c i r,
              Printf ''failed to verify that X-chain UTXO %s was deleted on %s after %s''
                [A_ID i, A_str u, A_ID txID]]
            \<and> r \<noteq> Some ErrNotFound
            \<and> X_fetches pre = []
            \<and> (\<forall>l \<in> set (lookups pre). snd l = Some ErrNotFound))
   \<and> (\<forall>line. Printf line [A_ID txID] \<notin> set evs)"
proof (induction ins arbitrary: b evs)
  case Nil
  then show ?case by auto
next
  case (Cons i ins)
  obtain b2 evs2 where rec: "verifyXChainTxConsumedUTXOs_inputs env utxos c u txID ins = (b2, evs2)"
    by (cases "verifyXChainTxConsumedUTXOs_inputs env utxos c u txID ins")
  show ?case
  proof (cases "GetUTXO env utxos c c i = Some ErrNotFound")
    case False
    with Cons.prems have "b = False"
      and "evs = [] @ [Call_GetUTXO c c i (GetUTXO env utxos c c i),
              Printf ''failed to verify that X-chain UTXO %s was deleted on %s after %s''
                [A_ID i, A_str u, A_ID txID]]"
      by (auto simp: Let_def)
    with False show ?thesis by fastforce
  next
    case True
    with Cons.prems rec have b: "b = b2" and evs: "evs = Call_GetUTXO c c i (Some ErrNotFound) # evs2"
      by (auto simp: Let_def)
    show ?thesis
    proof (cases b2)
      case True
      with Cons.IH [OF rec] b evs show ?thesis by auto
    next
      case False
      with Cons.IH [OF rec] obtain pre j r where
        "evs2 = pre @ [Call_GetUTXO c c j r,
              Printf ''failed to verify that X-chain UTXO %s was deleted on %s after %s''
                [A_ID j, A_str u, A_ID txID]]"
        "r \<noteq> Some ErrNotFound" "X_fetches pre = []"
        "\<forall>l \<in> set (lookups pre). snd l = Some ErrNotFound"
        by auto
      then have "evs = (Call_GetUTXO c c i (Some ErrNotFound) # pre) @ [Call_GetUTXO c c j r,
              Printf ''failed to verify that X-chain UTXO %s was deleted on %s after %s''
                [A_ID j, A_str u, A_ID txID]]
            \<and> r \<noteq> Some ErrNotFound
            \<and> X_fetches (Call_GetUTXO c c i (Some ErrNotFound) # pre) = []
            \<and> (\<forall>l \<in> set (lookups (Call_GetUTXO c c i (Some ErrNotFound) # pre)).
                  snd l = Some ErrNotFound)"
        using evs by simp
      then have "\<exists>pre i r. evs = pre @ [Call_GetUTXO c c i r,
              Printf ''failed to verify that X-chain UTXO %s was deleted on %s after %s''
                [A_ID i, A_str u, A_ID txID]]
            \<and> r \<noteq> Some ErrNotFound
            \<and> X_fetches pre = []
            \<and> (\<forall>l \<in> set (lookups pre). snd l = Some ErrNotFound)"
        by blast
      moreover have "X_fetches evs = []" "\<forall>line. Printf line [A_ID txID] \<notin> set evs"
        using Cons.IH [OF rec] evs by auto
      ultimately show ?thesis using b False by simp
    qed
  qed
qed


lemma verifyX_uris_completed:
  "verifyXChainTxConsumedUTXOs_uris env w (X_BlockchainID env) tx us s = (b, evs, s') \<Longrightarrow>
   b \<longleftrightarrow> X_consumed_absent env w tx us s"
proof (induction us arbitrary: s b evs s')
  case Nil
  then show ?case by simp
next
  case (Cons u us)
  let ?c = "X_BlockchainID env"
  obtain err utxos s1 where f: "X_AddAllUTXOs env u ?c ?c (addrs w) s = ((err, utxos), s1)"
    by (metis surj_pair)
  obtain b1 evs1 where ins:
    "verifyXChainTxConsumedUTXOs_inputs env utxos ?c u (TxID tx) (InputIDs tx) = (b1, evs1)"
    by (metis surj_pair)
  obtain b2 evs2 s2 where rec:
    "verifyXChainTxConsumedUTXOs_uris env w ?c tx us s1 = (b2, evs2, s2)"
    by (metis surj_pair)
  from Cons.prems f ins rec have "b \<longleftrightarrow> err = None \<and> b1 \<and> b2"
    by (auto split: option.splits bool.splits)
  with verifyX_inputs_completed [OF ins] Cons.IH [OF rec] f show ?case
    by simp
qed

lemma verifyX_uris_events:
  "verifyXChainTxConsumedUTXOs_uris env w c tx us s = (b, evs, s') \<Longrightarrow>
   map fst (X_fetches evs) = take (length (X_fetches evs)) us
   \<and> (if b then (\<forall>f \<in> set (X_fetches evs). snd f = None)
            \<and> (\<forall>l \<in> set (lookups evs). snd l = Some ErrNotFound)
       else \<exists>pre call line. evs = pre @ [call, line]
            \<and> X_verify_failure us (TxID tx) call line
            \<and> (\<forall>f \<in> set (X_fetches pre). snd f = None)
            \<and> (\<forall>l \<in> set (lookups pre). snd l = Some ErrNotFound))
   \<and> (\<forall>line. Printf line [A_ID (TxID tx)] \<notin> set evs)"
proof (induction us arbitrary: s b evs s')
  case Nil
  then show ?case by auto
next
  case (Cons u us)
  obtain err utxos s1 where f: "X_AddAllUTXOs env u c c (addrs w) s = ((err, utxos), s1)"
    by (metis surj_pair)
  show ?case
  proof (cases err)
    case (Some e)
    with Cons.prems f have "b = False"
      and evs: "evs = [] @ [Call_X_AddAllUTXOs u c c (addrs w) (Some e),
         Printf ''failed to fetch X-chain UTXOs on %s: %s'' [A_str u, A_err e]]"
      by auto
    moreover have "X_verify_failure (u # us) (TxID tx) (Call_X_AddAllUTXOs u c c (addrs w) (Some e))
         (Printf ''failed to fetch X-chain UTXOs on %s: %s'' [A_str u, A_err e])"
      by (simp add: X_verify_failure_def)
    ultimately show ?thesis by fastforce
  next
    case None
    obtain b1 evs1 where ins:
      "verifyXChainTxConsumedUTXOs_inputs env utxos c u (TxID tx) (InputIDs tx) = (b1, evs1)"
      by (metis surj_pair)
    note i1 = verifyX_inputs_events [OF ins]
    show ?thesis
    proof (cases b1)
      case False
      with Cons.prems f None ins have b: "b = False"
        and evs: "evs = Call_X_AddAllUTXOs u c c (addrs w) None # evs1"
        by auto
      from i1 False obtain pre i r where pre:
        "evs1 = pre @ [Call_GetUTXO c c i r,
              Printf ''failed to verify that X-chain UTXO %s was deleted on %s after %s''
                [A_ID i, A_str u, A_ID (TxID tx)]]"
        "r \<noteq> Some ErrNotFound" "X_fetches pre = []"
        "\<forall>l \<in> set (lookups pre). snd l = Some ErrNotFound"
        by auto
      have "X_verify_failure (u # us) (TxID tx) (Call_GetUTXO c c i r)
          (Printf ''failed to verify that X-chain UTXO %s was deleted on %s after %s''
                [A_ID i, A_str u, A_ID (TxID tx)])"
        using pre(2) by (simp add: X_verify_failure_def)
      with pre have "evs = (Call_X_AddAllUTXOs u c c (addrs w) None # pre) @ [Call_GetUTXO c c i r,
              Printf ''failed to verify that X-chain UTXO %s was deleted on %s after %s''
                [A_ID i, A_str u, A_ID (TxID tx)]]
          \<and> X_verify_failure (u # us) (TxID tx) (Call_GetUTXO c c i r)
              (Printf ''failed to verify that X-chain UTXO %s was deleted on %s after %s''
                [A_ID i, A_str u, A_ID (TxID tx)])
          \<and> (\<forall>f \<in> set (X_fetches (Call_X_AddAllUTXOs u c c (addrs w) None # pre)). snd f = None)
          \<and> (\<forall>l \<in> set (lookups (Call_X_AddAllUTXOs u c c (addrs w) None # pre)).
                snd l = Some ErrNotFound)"
        using evs by simp
      then have "\<exists>pre call line. evs = pre @ [call, line]
            \<and> X_verify_failure (u # us) (TxID tx) call line
            \<and> (\<forall>f \<in> set (X_fetches pre). snd f = None)
            \<and> (\<forall>l \<in> set (lookups pre). snd l = Some ErrNotFound)"
        by blast
      moreover have "map fst (X_fetches evs) = take (length (X_fetches evs)) (u # us)"
        "\<forall>line. Printf line [A_ID (TxID tx)] \<notin> set evs"
        using i1 evs by auto
      ultimately show ?thesis using b by simp
    next
      case True
      obtain b2 evs2 s2 where rec:
        "verifyXChainTxConsumedUTXOs_uris env w c tx us s1 = (b2, evs2, s2)"
        by (metis surj_pair)
      note i2 = Cons.IH [OF rec]
      let ?head = "Call_X_AddAllUTXOs u c c (addrs w) None # evs1
         @ [Printf ''confirmed all X-chain UTXOs consumed by %s are not present on %s''
              [A_ID (TxID tx), A_str u]]"
      from Cons.prems f None ins True rec have b: "b = b2" and evs: "evs = ?head @ evs2"
        by auto
      have hf: "X_fetches ?head = [(u, None)]"
        using i1 by (simp add: X_fetches_append)
      have hl: "\<forall>l \<in> set (lookups ?head). snd l = Some ErrNotFound"
        using i1 True by (simp add: lookups_append)
      have fe: "X_fetches evs = (u, None) # X_fetches evs2"
        unfolding evs X_fetches_append hf by simp
      have pref: "map fst (X_fetches evs) = take (length (X_fetches evs)) (u # us)"
        using i2 by (simp add: fe)
      have nol: "\<forall>line. Printf line [A_ID (TxID tx)] \<notin> set evs"
        using i1 i2 evs by auto
      show ?thesis
      proof (cases b2)
        case True
        with i2 hl have "(\<forall>f \<in> set (X_fetches evs). snd f = None)
            \<and> (\<forall>l \<in> set (lookups evs). snd l = Some ErrNotFound)"
          unfolding fe unfolding evs lookups_append by auto
        with pref nol b True show ?thesis by simp
      next
        case False
        with i2 obtain pre call line where pre: "evs2 = pre @ [call, line]"
          "X_verify_failure us (TxID tx) call line"
          "\<forall>f \<in> set (X_fetches pre). snd f = None"
          "\<forall>l \<in> set (lookups pre). snd l = Some ErrNotFound"
          by auto
        have "X_verify_failure (u # us) (TxID tx) call line"
          using pre(2) by (auto simp: X_verify_failure_def split: event.splits option.splits)
        with pre hf hl have "evs = (?head @ pre) @ [call, line]
            \<and> X_verify_failure (u # us) (TxID tx) call line
            \<and> (\<forall>f \<in> set (X_fetches (?head @ pre)). snd f = None)
            \<and> (\<forall>l \<in> set (lookups (?head @ pre)). snd l = Some ErrNotFound)"
          unfolding evs X_fetches_append [of ?head pre] lookups_append [of ?head pre] by auto
        then have "\<exists>pre call line. evs = pre @ [call, line]
            \<and> X_verify_failure (u # us) (TxID tx) call line
            \<and> (\<forall>f \<in> set (X_fetches pre). snd f = None)
            \<and> (\<forall>l \<in> set (lookups pre). snd l = Some ErrNotFound)"
          by blast
        with pref nol b False show ?thesis by simp
      qed
    qed
  qed
qed

lemma P_fetches_append: "P_fetches (xs @ ys) = P_fetches xs @ P_fetches ys"
  by (induction xs rule: P_fetches.induct) simp_all

lemma verifyP_inputs_completed:
  "verifyPChainTxConsumedUTXOs_inputs env utxos u txID ins = (b, evs) \<Longrightarrow>
   b \<longleftrightarrow> (\<forall>i \<in> set ins. GetUTXO env utxos (PlatformChainID env) (PlatformChainID env) i = Some ErrNotFound)"
proof (induction ins arbitrary: b evs)
  case Nil
  then show ?case by simp
next
  case (Cons i ins)
  obtain b2 evs2 where rec: "verifyPChainTxConsumedUTXOs_inputs env utxos u txID ins = (b2, evs2)"
    by (cases "verifyPChainTxConsumedUTXOs_inputs env utxos u txID ins")
  from Cons.prems rec Cons.IH [OF rec] show ?case
    by (auto simp: Let_def split: if_splits)
qed

lemma verifyP_inputs_events:
  "verifyPChainTxConsumedUTXOs_inputs env utxos u txID ins = (b, evs) \<Longrightarrow>
   P_fetches evs = []
   \<and> (if b then \<forall>l \<in> set (lookups evs). snd l = Some ErrNotFound
       else \<exists>pre i r. evs = pre @ [Call_GetUTXO (PlatformChainID env) (PlatformChainID env) i r,
              Printf ''failed to verify that P-chain UTXO %s was deleted on %s after %s''
                [A_ID i, A_str u, A_ID txID]]
            \<and> r \<noteq> Some ErrNotFound
            \<and> P_fetches pre = []
            \<and> (\<forall>l \<in> set (lookups pre). snd l = Some ErrNotFound))
   \<and> (\<forall>line. Printf line [A_ID txID] \<notin> set evs)"
proof (induction ins arbitrary: b evs)
  case Nil
  then show ?case by auto
next
  case (Cons i ins)
  obtain b2 evs2 where rec: "verifyPChainTxConsumedUTXOs_inputs env utxos u txID ins = (b2, evs2)"
    by (cases "verifyPChainTxConsumedUTXOs_inputs env utxos u txID ins")
  show ?case
  proof (cases "GetUTXO env utxos (PlatformChainID env) (PlatformChainID env) i = Some ErrNotFound")
    case False
    with Cons.prems have "b = False"
      and "evs = [] @ [Call_GetUTXO (PlatformChainID env) (PlatformChainID env) i (GetUTXO env utxos (PlatformChainID env) (PlatformChainID env) i),
              Printf ''failed to verify that P-chain UTXO %s was deleted on %s after %s''
                [A_ID i, A_str u, A_ID txID]]"
      by (auto simp: Let_def)
    with False show ?thesis by fastforce
  next
    case True
    with Cons.prems rec have b: "b = b2" and evs: "evs = Call_GetUTXO (PlatformChainID env) (PlatformChainID env) i (Some ErrNotFound) # evs2"
      by (auto simp: Let_def)
    show ?thesis
    proof (cases b2)
      case True
      with Cons.IH [OF rec] b evs show ?thesis by auto
    next
      case False
      with Cons.IH [OF rec] obtain pre j r where
        "evs2 = pre @ [Call_GetUTXO (PlatformChainID env) (PlatformChainID env) j r,
              Printf ''failed to verify that P-chain UTXO %s was deleted on %s after %s''
                [A_ID j, A_str u, A_ID txID]]"
        "r \<noteq> Some ErrNotFound" "P_fetches pre = []"
        "\<forall>l \<in> set (lookups pre). snd l = Some ErrNotFound"
        by auto
      then have "evs = (Call_GetUTXO (PlatformChainID env) (PlatformChainID env) i (Some ErrNotFound) # pre) @ [Call_GetUTXO (PlatformChainID env) (PlatformChainID env) j r,
              Printf ''failed to verify that P-chain UTXO %s was deleted on %s after %s''
                [A_ID j, A_str u, A_ID txID]]
            \<and> r \<noteq> Some ErrNotFound
            \<and> P_fetches (Call_GetUTXO (PlatformChainID env) (PlatformChainID env) i (Some ErrNotFound) # pre) = []
            \<and> (\<forall>l \<in> set (lookups (Call_GetUTXO (PlatformChainID env) (PlatformChainID env) i (Some ErrNotFound) # pre)).
                  snd l = Some ErrNotFound)"
        using evs by simp
      then have "\<exists>pre i r. evs = pre @ [Call_GetUTXO (PlatformChainID env) (PlatformChainID env) i r,
              Printf ''failed to verify that P-chain UTXO %s was deleted on %s after %s''
                [A_ID i, A_str u, A_ID txID]]
            \<and> r \<noteq> Some ErrNotFound
            \<and> P_fetches pre = []
            \<and> (\<forall>l \<in> set (lookups pre). snd l = Some ErrNotFound)"
        by blast
      moreover have "P_fetches evs = []" "\<forall>line. Printf line [A_ID txID] \<notin> set evs"
        using Cons.IH [OF rec] evs by auto
      ultimately show ?thesis using b False by simp
    qed
  qed
qed


lemma verifyP_uris_completed:
  "verifyPChainTxConsumedUTXOs_uris env w tx us s = (b, evs, s') \<Longrightarrow>
   b \<longleftrightarrow> P_consumed_absent env w tx us s"
proof (induction us arbitrary: s b evs s')
  case Nil
  then show ?case by simp
next
  case (Cons u us)
  let ?c = "PlatformChainID env"
  obtain err utxos s1 where f: "P_AddAllUTXOs env u ?c ?c (addrs w) s = ((err, utxos), s1)"
    by (metis surj_pair)
  obtain b1 evs1 where ins:
    "verifyPChainTxConsumedUTXOs_inputs env utxos u (TxID tx) (InputIDs tx) = (b1, evs1)"
    by (metis surj_pair)
  obtain b2 evs2 s2 where rec:
    "verifyPChainTxConsumedUTXOs_uris env w tx us s1 = (b2, evs2, s2)"
    by (metis surj_pair)
  from Cons.prems f ins rec have "b \<longleftrightarrow> err = None \<and> b1 \<and> b2"
    by (auto split: option.splits bool.splits)
  with verifyP_inputs_completed [OF ins] Cons.IH [OF rec] f show ?case
    by simp
qed

lemma verifyP_uris_events:
  "verifyPChainTxConsumedUTXOs_uris env w tx us s = (b, evs, s') \<Longrightarrow>
   map fst (P_fetches evs) = take (length (P_fetches evs)) us
   \<and> (if b then (\<forall>f \<in> set (P_fetches evs). snd f = None)
            \<and> (\<forall>l \<in> set (lookups evs). snd l = Some ErrNotFound)
       else \<exists>pre call line. evs = pre @ [call, line]
            \<and> P_verify_failure us (TxID tx) call line
            \<and> (\<forall>f \<in> set (P_fetches pre). snd f = None)
            \<and> (\<forall>l \<in> set (lookups pre). snd l = Some ErrNotFound))
   \<and> (\<forall>line. Printf line [A_ID (TxID tx)] \<notin> set evs)"
proof (induction us arbitrary: s b evs s')
  case Nil
  then show ?case by auto
next
  case (Cons u us)
  obtain err utxos s1 where f: "P_AddAllUTXOs env u (PlatformChainID env) (PlatformChainID env) (addrs w) s = ((err, utxos), s1)"
    by (metis surj_pair)
  show ?case
  proof (cases err)
    case (Some e)
    with Cons.prems f have "b = False"
      and evs: "evs = [] @ [Call_P_AddAllUTXOs u (PlatformChainID env) (PlatformChainID env) (addrs w) (Some e),
         Printf ''failed to fetch P-chain UTXOs on %s: %s'' [A_str u, A_err e]]"
      by auto
    moreover have "P_verify_failure (u # us) (TxID tx) (Call_P_AddAllUTXOs u (PlatformChainID env) (PlatformChainID env) (addrs w) (Some e))
         (Printf ''failed to fetch P-chain UTXOs on %s: %s'' [A_str u, A_err e])"
      by (simp add: P_verify_failure_def)
    ultimately show ?thesis by fastforce
  next
    case None
    obtain b1 evs1 where ins:
      "verifyPChainTxConsumedUTXOs_inputs env utxos u (TxID tx) (InputIDs tx) = (b1, evs1)"
      by (metis surj_pair)
    note i1 = verifyP_inputs_events [OF ins]
    show ?thesis
    proof (cases b1)
      case False
      with Cons.prems f None ins have b: "b = False"
        and evs: "evs = Call_P_AddAllUTXOs u (PlatformChainID env) (PlatformChainID env) (addrs w) None # evs1"
        by auto
      from i1 False obtain pre i r where pre:
        "evs1 = pre @ [Call_GetUTXO (PlatformChainID env) (PlatformChainID env) i r,
              Printf ''failed to verify that P-chain UTXO %s was deleted on %s after %s''
                [A_ID i, A_str u, A_ID (TxID tx)]]"
        "r \<noteq> Some ErrNotFound" "P_fetches pre = []"
        "\<forall>l \<in> set (lookups pre). snd l = Some ErrNotFound"
        by auto
      have "P_verify_failure (u # us) (TxID tx) (Call_GetUTXO (PlatformChainID env) (PlatformChainID env) i r)
          (Printf ''failed to verify that P-chain UTXO %s was deleted on %s after %s''
                [A_ID i, A_str u, A_ID (TxID tx)])"
        using pre(2) by (simp add: P_verify_failure_def)
      with pre have "evs = (Call_P_AddAllUTXOs u (PlatformChainID env) (PlatformChainID env) (addrs w) None # pre) @ [Call_GetUTXO (PlatformChainID env) (PlatformChainID env) i r,
              Printf ''failed to verify that P-chain UTXO %s was deleted on %s after %s''
                [A_ID i, A_str u, A_ID (TxID tx)]]
          \<and> P_verify_failure (u # us) (TxID tx) (Call_GetUTXO (PlatformChainID env) (PlatformChainID env) i r)
              (Printf ''failed to verify that P-chain UTXO %s was deleted on %s after %s''
                [A_ID i, A_str u, A_ID (TxID tx)])
          \<and> (\<forall>f \<in> set (P_fetches (Call_P_AddAllUTXOs u (PlatformChainID env) (PlatformChainID env) (addrs w) None # pre)). snd f = None)
          \<and> (\<forall>l \<in> set (lookups (Call_P_AddAllUTXOs u (PlatformChainID env) (PlatformChainID env) (addrs w) None # pre)).
                snd l = Some ErrNotFound)"
        using evs by simp
      then have "\<exists>pre call line. evs = pre @ [call, line]
            \<and> P_verify_failure (u # us) (TxID tx) call line
            \<and> (\<forall>f \<in> set (P_fetches pre). snd f = None)
            \<and> (\<forall>l \<in> set (lookups pre). snd l = Some ErrNotFound)"
        by blast
      moreover have "map fst (P_fetches evs) = take (length (P_fetches evs)) (u # us)"
        "\<forall>line. Printf line [A_ID (TxID tx)] \<notin> set evs"
        using i1 evs by auto
      ultimately show ?thesis using b by simp
    next
      case True
      obtain b2 evs2 s2 where rec:
        "verifyPChainTxConsumedUTXOs_uris env w tx us s1 = (b2, evs2, s2)"
        by (metis surj_pair)
      note i2 = Cons.IH [OF rec]
      let ?head = "Call_P_AddAllUTXOs u (PlatformChainID env) (PlatformChainID env) (addrs w) None # evs1
         @ [Printf ''confirmed all P-chain UTXOs consumed by %s are not present on %s''
              [A_ID (TxID tx), A_str u]]"
      from Cons.prems f None ins True rec have b: "b = b2" and evs: "evs = ?head @ evs2"
        by auto
      have hf: "P_fetches ?head = [(u, None)]"
        using i1 by (simp add: P_fetches_append)
      have hl: "\<forall>l \<in> set (lookups ?head). snd l = Some ErrNotFound"
        using i1 True by (simp add: lookups_append)
      have fe: "P_fetches evs = (u, None) # P_fetches evs2"
        unfolding evs P_fetches_append hf by simp
      have pref: "map fst (P_fetches evs) = take (length (P_fetches evs)) (u # us)"
        using i2 by (simp add: fe)
      have nol: "\<forall>line. Printf line [A_ID (TxID tx)] \<notin> set evs"
        using i1 i2 evs by auto
      show ?thesis
      proof (cases b2)
        case True
        with i2 hl have "(\<forall>f \<in> set (P_fetches evs). snd f = None)
            \<and> (\<forall>l \<in> set (lookups evs). snd l = Some ErrNotFound)"
          unfolding fe unfolding evs lookups_append by auto
        with pref nol b True show ?thesis by simp
      next
        case False
        with i2 obtain pre call line where pre: "evs2 = pre @ [call, line]"
          "P_verify_failure us (TxID tx) call line"
          "\<forall>f \<in> set (P_fetches pre). snd f = None"
          "\<forall>l \<in> set (lookups pre). snd l = Some ErrNotFound"
          by auto
        have "P_verify_failure (u # us) (TxID tx) call line"
          using pre(2) by (auto simp: P_verify_failure_def split: event.splits option.splits)
        with pre hf hl have "evs = (?head @ pre) @ [call, line]
            \<and> P_verify_failure (u # us) (TxID tx) call line
            \<and> (\<forall>f \<in> set (P_fetches (?head @ pre)). snd f = None)
            \<and> (\<forall>l \<in> set (lookups (?head @ pre)). snd l = Some ErrNotFound)"
          unfolding evs P_fetches_append [of ?head pre] lookups_append [of ?head pre] by auto
        then have "\<exists>pre call line. evs = pre @ [call, line]
            \<and> P_verify_failure (u # us) (TxID tx) call line
            \<and> (\<forall>f \<in> set (P_fetches pre). snd f = None)
            \<and> (\<forall>l \<in> set (lookups pre). snd l = Some ErrNotFound)"
          by blast
        with pref nol b False show ?thesis by simp
      qed
    qed
  qed
qed


text \<open>
  C1. For every transaction, \<open>verifyXChainTxConsumedUTXOs\<close>
  (\<open>verifyPChainTxConsumedUTXOs\<close>) logs "... are not present on all nodes" if and only
  if, at every endpoint, the fetch of the UTXOs of the workload's addresses succeeded and
  the lookup of every input the transaction consumed returned \<open>ErrNotFound\<close>. The
  endpoints are fetched in list order, each at most once. Otherwise the trace ends with
  the first fetch that failed or the first lookup with another result (no error, or
  another error), followed by its failure line only: the verifier returns there. The
  condition reads the consumed inputs as a set; the order in which they are looked up
  only decides which failure is met first.
\<close>

theorem verifier_reports_all_nodes_iff_consumed_absent_everywhere:
  "(let trace = fst (verifyXChainTxConsumedUTXOs env w tx s) in
      (Printf ''confirmed all X-chain UTXOs consumed by %s are not present on all nodes''
         [A_ID (TxID tx)] \<in> set trace
       \<longleftrightarrow> X_consumed_absent env w tx (uris w) s)
      \<and> map fst (X_fetches trace) = take (length (X_fetches trace)) (uris w)
      \<and> (\<not> X_consumed_absent env w tx (uris w) s \<longrightarrow>
           (\<exists>pre call line.
              trace = pre @ [call, line]
              \<and> X_verify_failure (uris w) (TxID tx) call line
              \<and> (\<forall>f \<in> set (X_fetches pre). snd f = None)
              \<and> (\<forall>l \<in> set (lookups pre). snd l = Some ErrNotFound))))
   \<and> (let trace = fst (verifyPChainTxConsumedUTXOs env w tx s) in
      (Printf ''confirmed all P-chain UTXOs consumed by %s are not present on all nodes''
         [A_ID (TxID tx)] \<in> set trace
       \<longleftrightarrow> P_consumed_absent env w tx (uris w) s)
      \<and> map fst (P_fetches trace) = take (length (P_fetches trace)) (uris w)
      \<and> (\<not> P_consumed_absent env w tx (uris w) s \<longrightarrow>
           (\<exists>pre call line.
              trace = pre @ [call, line]
              \<and> P_verify_failure (uris w) (TxID tx) call line
              \<and> (\<forall>f \<in> set (P_fetches pre). snd f = None)
              \<and> (\<forall>l \<in> set (lookups pre). snd l = Some ErrNotFound))))"
proof -
  obtain b evs s' where x:
    "verifyXChainTxConsumedUTXOs_uris env w (X_BlockchainID env) tx (uris w) s = (b, evs, s')"
    by (metis surj_pair)
  let ?all = "Printf ''confirmed all X-chain UTXOs consumed by %s are not present on all nodes''
         [A_ID (TxID tx)]"
  have xt: "fst (verifyXChainTxConsumedUTXOs env w tx s) = (if b then evs @ [?all] else evs)"
    using x by (simp add: verifyXChainTxConsumedUTXOs_def Let_def)
  note xc = verifyX_uris_completed [OF x] and xe = verifyX_uris_events [OF x]
  have x1: "?all \<in> set (fst (verifyXChainTxConsumedUTXOs env w tx s))
      \<longleftrightarrow> X_consumed_absent env w tx (uris w) s"
    using xc xe by (auto simp: xt)
  have x2: "map fst (X_fetches (fst (verifyXChainTxConsumedUTXOs env w tx s)))
      = take (length (X_fetches (fst (verifyXChainTxConsumedUTXOs env w tx s)))) (uris w)"
    using xe by (simp add: xt X_fetches_append)
  have x3: "\<exists>pre call line.
      fst (verifyXChainTxConsumedUTXOs env w tx s) = pre @ [call, line]
      \<and> X_verify_failure (uris w) (TxID tx) call line
      \<and> (\<forall>f \<in> set (X_fetches pre). snd f = None)
      \<and> (\<forall>l \<in> set (lookups pre). snd l = Some ErrNotFound)"
    if "\<not> X_consumed_absent env w tx (uris w) s"
    using that xc xe by (simp add: xt)
  obtain d pevs t' where p:
    "verifyPChainTxConsumedUTXOs_uris env w tx (uris w) s = (d, pevs, t')"
    by (metis surj_pair)
  let ?pall = "Printf ''confirmed all P-chain UTXOs consumed by %s are not present on all nodes''
         [A_ID (TxID tx)]"
  have pt: "fst (verifyPChainTxConsumedUTXOs env w tx s) = (if d then pevs @ [?pall] else pevs)"
    using p by (simp add: verifyPChainTxConsumedUTXOs_def Let_def)
  note pc = verifyP_uris_completed [OF p] and pe = verifyP_uris_events [OF p]
  have p1: "?pall \<in> set (fst (verifyPChainTxConsumedUTXOs env w tx s))
      \<longleftrightarrow> P_consumed_absent env w tx (uris w) s"
    using pc pe by (auto simp: pt)
  have p2: "map fst (P_fetches (fst (verifyPChainTxConsumedUTXOs env w tx s)))
      = take (length (P_fetches (fst (verifyPChainTxConsumedUTXOs env w tx s)))) (uris w)"
    using pe by (simp add: pt P_fetches_append)
  have p3: "\<exists>pre call line.
      fst (verifyPChainTxConsumedUTXOs env w tx s) = pre @ [call, line]
      \<and> P_verify_failure (uris w) (TxID tx) call line
      \<and> (\<forall>f \<in> set (P_fetches pre). snd f = None)
      \<and> (\<forall>l \<in> set (lookups pre). snd l = Some ErrNotFound)"
    if "\<not> P_consumed_absent env w tx (uris w) s"
    using that pc pe by (simp add: pt)
  show ?thesis
    unfolding Let_def using x1 x2 x3 p1 p2 p3 by blast
qed



theorem verifier_reports_all_nodes_witness:
  "X_consumed_absent env0 w0 tx0 (uris w0) s0
   \<and> Printf ''confirmed all X-chain UTXOs consumed by %s are not present on all nodes''
        [A_ID (TxID tx0)] \<in> set (fst (verifyXChainTxConsumedUTXOs env0 w0 tx0 s0))
   \<and> \<not> X_consumed_absent env_second_node_stale w3 tx0 (uris w3) s0
   \<and> fst (verifyXChainTxConsumedUTXOs env_second_node_stale w3 tx0 s0)
       = [Call_X_AddAllUTXOs ''http://n1:9650'' 2 2 [7] None,
          Call_GetUTXO 2 2 8 (Some ErrNotFound),
          Call_GetUTXO 2 2 9 (Some ErrNotFound),
          Printf ''confirmed all X-chain UTXOs consumed by %s are not present on %s''
            [A_ID 42, A_str ''http://n1:9650''],
          Call_X_AddAllUTXOs ''http://n2:9650'' 2 2 [7] None,
          Call_GetUTXO 2 2 8 (Some ErrNotFound),
          Call_GetUTXO 2 2 9 None,
          Printf ''failed to verify that X-chain UTXO %s was deleted on %s after %s''
            [A_ID 9, A_str ''http://n2:9650'', A_ID 42]]
   \<and> P_consumed_absent env0 w0 tx0 (uris w0) s0
   \<and> Printf ''confirmed all P-chain UTXOs consumed by %s are not present on all nodes''
        [A_ID (TxID tx0)] \<in> set (fst (verifyPChainTxConsumedUTXOs env0 w0 tx0 s0))
   \<and> \<not> P_consumed_absent env_second_node_stale w3 tx0 (uris w3) s0
   \<and> fst (verifyPChainTxConsumedUTXOs env_second_node_stale w3 tx0 s0)
       = [Call_P_AddAllUTXOs ''http://n1:9650'' 0 0 [7] None,
          Call_GetUTXO 0 0 8 (Some ErrNotFound),
          Call_GetUTXO 0 0 9 (Some ErrNotFound),
          Printf ''confirmed all P-chain UTXOs consumed by %s are not present on %s''
            [A_ID 42, A_str ''http://n1:9650''],
          Call_P_AddAllUTXOs ''http://n2:9650'' 0 0 [7] (Some (Err ''unreachable'')),
          Printf ''failed to fetch P-chain UTXOs on %s: %s''
            [A_str ''http://n2:9650'', A_err (Err ''unreachable'')]]"
  using verifier_reports_all_nodes_iff_consumed_absent_everywhere [of env0 w0 tx0 s0]
    verifier_reports_all_nodes_iff_consumed_absent_everywhere
      [of env_second_node_stale w3 tx0 s0]
  by (simp add: verifyXChainTxConsumedUTXOs_def verifyPChainTxConsumedUTXOs_def env0_def
      env_second_node_stale_def w0_def w3_def tx0_def s0_def tick_def Let_def)

subsection \<open>The transaction flows\<close>

lemma confirmXChainTx_uris_phases:
  "confirmXChainTx_uris env txID us s = (c, evs, s') \<Longrightarrow>
   \<forall>e \<in> set evs. phase_of e = Confirm \<or> phase_of e = Logging"
proof (induction us arbitrary: s c evs s')
  case Nil
  then show ?case by simp
next
  case (Cons u us)
  obtain r s1 where r: "X_ConfirmTx env u txID (100 * Millisecond) s = (r, s1)"
    by (metis surj_pair)
  obtain c2 evs2 s2 where rec: "confirmXChainTx_uris env txID us s1 = (c2, evs2, s2)"
    by (metis surj_pair)
  from Cons.prems r rec Cons.IH [OF rec] show ?case
    by (auto split: sum.splits if_splits)
qed

lemma confirmXChainTx_phases:
  "\<forall>e \<in> set (fst (confirmXChainTx env w tx s)). phase_of e = Confirm \<or> phase_of e = Logging"
proof -
  obtain c evs s' where x: "confirmXChainTx_uris env (TxID tx) (uris w) s = (c, evs, s')"
    by (metis surj_pair)
  from confirmXChainTx_uris_phases [OF x] x show ?thesis
    by (auto simp: confirmXChainTx_def Let_def)
qed

lemma confirmPChainTx_uris_phases:
  "confirmPChainTx_uris env txID us s = (c, evs, s') \<Longrightarrow>
   \<forall>e \<in> set evs. phase_of e = Confirm \<or> phase_of e = Logging"
proof (induction us arbitrary: s c evs s')
  case Nil
  then show ?case by simp
next
  case (Cons u us)
  obtain r s1 where r: "P_AwaitTxDecided env u txID (100 * Millisecond) s = (r, s1)"
    by (metis surj_pair)
  obtain c2 evs2 s2 where rec: "confirmPChainTx_uris env txID us s1 = (c2, evs2, s2)"
    by (metis surj_pair)
  from Cons.prems r rec Cons.IH [OF rec] show ?case
    by (auto split: sum.splits if_splits)
qed

lemma confirmPChainTx_phases:
  "\<forall>e \<in> set (fst (confirmPChainTx env w tx s)). phase_of e = Confirm \<or> phase_of e = Logging"
proof -
  obtain c evs s' where x: "confirmPChainTx_uris env (TxID tx) (uris w) s = (c, evs, s')"
    by (metis surj_pair)
  from confirmPChainTx_uris_phases [OF x] x show ?thesis
    by (auto simp: confirmPChainTx_def Let_def)
qed

lemma verifyX_inputs_phases:
  "verifyXChainTxConsumedUTXOs_inputs env utxos c u txID ins = (b, evs) \<Longrightarrow>
   \<forall>e \<in> set evs. phase_of e = Verify \<or> phase_of e = Logging"
proof (induction ins arbitrary: b evs)
  case Nil
  then show ?case by simp
next
  case (Cons i ins)
  obtain b2 evs2 where rec: "verifyXChainTxConsumedUTXOs_inputs env utxos c u txID ins = (b2, evs2)"
    by (metis surj_pair)
  from Cons.prems rec Cons.IH [OF rec] show ?case
    by (auto simp: Let_def split: if_splits)
qed

lemma verifyX_uris_phases:
  "verifyXChainTxConsumedUTXOs_uris env w c tx us s = (b, evs, s') \<Longrightarrow>
   \<forall>e \<in> set evs. phase_of e = Verify \<or> phase_of e = Logging"
proof (induction us arbitrary: s b evs s')
  case Nil
  then show ?case by simp
next
  case (Cons u us)
  obtain err utxos s1 where f: "X_AddAllUTXOs env u c c (addrs w) s = ((err, utxos), s1)"
    by (metis surj_pair)
  obtain b1 evs1 where ins:
    "verifyXChainTxConsumedUTXOs_inputs env utxos c u (TxID tx) (InputIDs tx) = (b1, evs1)"
    by (metis surj_pair)
  obtain b2 evs2 s2 where rec:
    "verifyXChainTxConsumedUTXOs_uris env w c tx us s1 = (b2, evs2, s2)"
    by (metis surj_pair)
  from Cons.prems f ins rec Cons.IH [OF rec] verifyX_inputs_phases [OF ins] show ?case
    by (auto split: option.splits bool.splits)
qed

lemma verifyXChainTxConsumedUTXOs_phases:
  "\<forall>e \<in> set (fst (verifyXChainTxConsumedUTXOs env w tx s)).
     phase_of e = Verify \<or> phase_of e = Logging"
proof -
  obtain c evs s' where x:
    "verifyXChainTxConsumedUTXOs_uris env w (X_BlockchainID env) tx (uris w) s = (c, evs, s')"
    by (metis surj_pair)
  from verifyX_uris_phases [OF x] x show ?thesis
    by (auto simp: verifyXChainTxConsumedUTXOs_def Let_def)
qed

lemma verifyP_inputs_phases:
  "verifyPChainTxConsumedUTXOs_inputs env utxos u txID ins = (b, evs) \<Longrightarrow>
   \<forall>e \<in> set evs. phase_of e = Verify \<or> phase_of e = Logging"
proof (induction ins arbitrary: b evs)
  case Nil
  then show ?case by simp
next
  case (Cons i ins)
  obtain b2 evs2 where rec: "verifyPChainTxConsumedUTXOs_inputs env utxos u txID ins = (b2, evs2)"
    by (metis surj_pair)
  from Cons.prems rec Cons.IH [OF rec] show ?case
    by (auto simp: Let_def split: if_splits)
qed

lemma verifyP_uris_phases:
  "verifyPChainTxConsumedUTXOs_uris env w tx us s = (b, evs, s') \<Longrightarrow>
   \<forall>e \<in> set evs. phase_of e = Verify \<or> phase_of e = Logging"
proof (induction us arbitrary: s b evs s')
  case Nil
  then show ?case by simp
next
  case (Cons u us)
  obtain err utxos s1 where f:
    "P_AddAllUTXOs env u (PlatformChainID env) (PlatformChainID env) (addrs w) s = ((err, utxos), s1)"
    by (metis surj_pair)
  obtain b1 evs1 where ins:
    "verifyPChainTxConsumedUTXOs_inputs env utxos u (TxID tx) (InputIDs tx) = (b1, evs1)"
    by (metis surj_pair)
  obtain b2 evs2 s2 where rec:
    "verifyPChainTxConsumedUTXOs_uris env w tx us s1 = (b2, evs2, s2)"
    by (metis surj_pair)
  from Cons.prems f ins rec Cons.IH [OF rec] verifyP_inputs_phases [OF ins] show ?case
    by (auto split: option.splits bool.splits)
qed

lemma verifyPChainTxConsumedUTXOs_phases:
  "\<forall>e \<in> set (fst (verifyPChainTxConsumedUTXOs env w tx s)).
     phase_of e = Verify \<or> phase_of e = Logging"
proof -
  obtain c evs s' where x:
    "verifyPChainTxConsumedUTXOs_uris env w tx (uris w) s = (c, evs, s')"
    by (metis surj_pair)
  from verifyP_uris_phases [OF x] x show ?thesis
    by (auto simp: verifyPChainTxConsumedUTXOs_def Let_def)
qed

lemma confirmX_tail:
  "confirmXChainTx env w tx s = (c, s') \<Longrightarrow> e \<in> set c \<Longrightarrow>
   phase_of e \<noteq> Precondition \<and> phase_of e \<noteq> Issue"
  using confirmXChainTx_phases [of env w tx s] by fastforce

lemma confirmP_tail:
  "confirmPChainTx env w tx s = (c, s') \<Longrightarrow> e \<in> set c \<Longrightarrow>
   phase_of e \<noteq> Precondition \<and> phase_of e \<noteq> Issue"
  using confirmPChainTx_phases [of env w tx s] by fastforce

lemma verifyX_tail:
  "verifyXChainTxConsumedUTXOs env w tx s = (v, s') \<Longrightarrow> e \<in> set v \<Longrightarrow>
   phase_of e \<noteq> Precondition \<and> phase_of e \<noteq> Issue"
  using verifyXChainTxConsumedUTXOs_phases [of env w tx s] by fastforce

lemma verifyP_tail:
  "verifyPChainTxConsumedUTXOs env w tx s = (v, s') \<Longrightarrow> e \<in> set v \<Longrightarrow>
   phase_of e \<noteq> Precondition \<and> phase_of e \<noteq> Issue"
  using verifyPChainTxConsumedUTXOs_phases [of env w tx s] by fastforce








text \<open>
  The amount a flow needs is a sum of \<open>uint64\<close> values. As long as the sum stays below
  \<open>2^64\<close>, as it does for the fees and amounts of any real network, the comparison of the
  source is the comparison of the numbers.
\<close>

lemma neededBalance_without_overflow:
  fixes avaxBalance fee amount :: u64
  assumes "unat fee + unat amount < 2 ^ 64"
  shows "avaxBalance < fee + amount \<longleftrightarrow> unat avaxBalance < unat fee + unat amount"
  using assms by (simp add: word_less_nat_alt unat_word_ariths)

text \<open>
  C5. In each of the five flows, when the balance just fetched is strictly below the
  amount the flow needs (its fee or fees plus the amount it transfers, added as the
  source adds them, in \<open>uint64\<close>), the flow makes no further call: its trace is the
  balance query and the line "skipping ... due to insufficient balance", no transaction
  is issued, and the world it leaves is the one it was given, so the wallet's balances
  are unchanged. The flow returns normally; nothing is logged as a failure.
\<close>

theorem insufficient_balance_skips_without_issuing:
  "(\<forall>b. X_GetFTBalance env s = Inr b
        \<and> b (X_AVAXAssetID env) < X_BaseTxFee env + units_Schmeckle env \<longrightarrow>
      issueXChainBaseTx env w s =
        ([Call_X_GetFTBalance (Inr b),
          Printf ''skipping X-chain tx issuance due to insufficient balance: %d < %d''
            [A_u64 (b (X_AVAXAssetID env)), A_u64 (X_BaseTxFee env + units_Schmeckle env)]],
         s))
   \<and> (\<forall>b. X_GetFTBalance env s = Inr b
        \<and> b (X_AVAXAssetID env) < X_CreateAssetTxFee env \<longrightarrow>
      issueXChainCreateAssetTx env w s =
        ([Call_X_GetFTBalance (Inr b),
          Printf ''skipping X-chain tx issuance due to insufficient balance: %d < %d''
            [A_u64 (b (X_AVAXAssetID env)), A_u64 (X_CreateAssetTxFee env)]],
         s))
   \<and> (\<forall>b. X_GetFTBalance env s = Inr b
        \<and> b (X_AVAXAssetID env) < X_CreateAssetTxFee env + X_BaseTxFee env \<longrightarrow>
      issueXChainOperationTx env w s =
        ([Call_X_GetFTBalance (Inr b),
          Printf ''skipping X-chain tx issuance due to insufficient balance: %d < %d''
            [A_u64 (b (X_AVAXAssetID env)), A_u64 (X_CreateAssetTxFee env + X_BaseTxFee env)]],
         s))
   \<and> (\<forall>b. X_GetFTBalance env s = Inr b
        \<and> b (X_AVAXAssetID env) < X_BaseTxFee env + P_BaseTxFee env + units_Avax env \<longrightarrow>
      issueXToPTransfer env w s =
        ([Call_X_GetFTBalance (Inr b),
          Printf ''skipping X-chain tx issuance due to insufficient balance: %d < %d''
            [A_u64 (b (X_AVAXAssetID env)),
             A_u64 (X_BaseTxFee env + P_BaseTxFee env + units_Avax env)]],
         s))
   \<and> (\<forall>b. P_GetBalance env s = Inr b
        \<and> b (P_AVAXAssetID env) < P_BaseTxFee env + X_BaseTxFee env + units_Schmeckle env \<longrightarrow>
      issuePToXTransfer env w s =
        ([Call_P_GetBalance (Inr b),
          Printf ''skipping P-chain tx issuance due to insufficient balance: %d < %d''
            [A_u64 (b (P_AVAXAssetID env)),
             A_u64 (P_BaseTxFee env + X_BaseTxFee env + units_Schmeckle env)]],
         s))"
  by (simp add: issueXChainBaseTx_def issueXChainCreateAssetTx_def issueXChainOperationTx_def
      issueXToPTransfer_def issuePToXTransfer_def Let_def)

theorem insufficient_balance_skips_witness:
  "issueXChainBaseTx env0 w0 s_poor =
     ([Call_X_GetFTBalance (X_GetFTBalance env0 s_poor),
       Printf ''skipping X-chain tx issuance due to insufficient balance: %d < %d''
         [A_u64 0, A_u64 1049463]],
      s_poor)
   \<and> issueXChainCreateAssetTx env0 w0 s_poor =
     ([Call_X_GetFTBalance (X_GetFTBalance env0 s_poor),
       Printf ''skipping X-chain tx issuance due to insufficient balance: %d < %d''
         [A_u64 0, A_u64 10000000]],
      s_poor)
   \<and> issueXChainOperationTx env0 w0 s_poor =
     ([Call_X_GetFTBalance (X_GetFTBalance env0 s_poor),
       Printf ''skipping X-chain tx issuance due to insufficient balance: %d < %d''
         [A_u64 0, A_u64 11000000]],
      s_poor)
   \<and> issueXToPTransfer env0 w0 s_poor =
     ([Call_X_GetFTBalance (X_GetFTBalance env0 s_poor),
       Printf ''skipping X-chain tx issuance due to insufficient balance: %d < %d''
         [A_u64 0, A_u64 1002000000]],
      s_poor)
   \<and> issuePToXTransfer env0 w0 s_poor =
     ([Call_P_GetBalance (P_GetBalance env0 s_poor),
       Printf ''skipping P-chain tx issuance due to insufficient balance: %d < %d''
         [A_u64 0, A_u64 2049463]],
      s_poor)"
  using insufficient_balance_skips_without_issuing [of env0 s_poor w0]
  by (simp add: env0_def s_poor_def avax_only_def)


text \<open>
  C6. In the asset-creation-plus-mint flow, when the wallet returns an error for the
  asset creation, the flow logs it and returns: its trace is the balance query, the
  failed creation call and the failure line, and holds no call that issues the mint
  operation.
\<close>

theorem failed_asset_creation_issues_no_mint:
  assumes "X_GetFTBalance env s = Inr b"
    and "\<not> b (X_AVAXAssetID env) < X_CreateAssetTxFee env + X_BaseTxFee env"
    and "X_IssueCreateAssetTx env ''HI'' ''HI'' 1 [(2, [MintOutput (makeOwner w)])] s = (Inl err, s1)"
  shows "issueXChainOperationTx env w s =
      ([Call_X_GetFTBalance (Inr b),
        Call_X_IssueCreateAssetTx ''HI'' ''HI'' 1 [(2, [MintOutput (makeOwner w)])] (Inl err),
        Printf ''failed to issue X-chain create asset transaction: %s'' [A_err err]],
       s1)
    \<and> (\<forall>assetID owner r.
          Call_X_IssueOperationTxMintProperty assetID owner r
            \<notin> set (fst (issueXChainOperationTx env w s)))"
  using assms by (simp add: issueXChainOperationTx_def Let_def)

theorem failed_asset_creation_witness:
  "X_IssueCreateAssetTx env_create_fails ''HI'' ''HI'' 1 [(2, [MintOutput (makeOwner w0)])] s0
     = (Inl (Err ''insufficient funds''), tick s0)
   \<and> issueXChainOperationTx env_create_fails w0 s0 =
      ([Call_X_GetFTBalance (X_GetFTBalance env_create_fails s0),
        Call_X_IssueCreateAssetTx ''HI'' ''HI'' 1 [(2, [MintOutput (makeOwner w0)])]
          (Inl (Err ''insufficient funds'')),
        Printf ''failed to issue X-chain create asset transaction: %s''
          [A_err (Err ''insufficient funds'')]],
       tick s0)"
  using failed_asset_creation_issues_no_mint
    [of env_create_fails s0 "avax_only (x_avax s0)" w0 "Err ''insufficient funds''"
      "tick s0"]
  by (simp add: env_create_fails_def env0_def s0_def avax_only_def)





text \<open>
  C4, as stated, fails: the two flows do not transfer the same amount. On the example
  network a wallet that holds the two fees and one Schmeckle on either chain, far less
  than the two fees and the forward flow's amount of one AVAX, passes the reverse flow's
  check (after the balance query the P-chain export is issued and logged) and fails the
  forward flow's.
\<close>

theorem reverse_transfer_issues_below_forward_amount:
  "x_avax s_mid = p_avax s_mid
   \<and> p_avax s_mid < P_BaseTxFee env0 + X_BaseTxFee env0 + units_Avax env0
   \<and> map phase_of (take 3 (fst (issuePToXTransfer env0 w0 s_mid)))
       = [Precondition, Issue, Logging]
   \<and> fst (issueXToPTransfer env0 w0 s_mid) =
     [Call_X_GetFTBalance (X_GetFTBalance env0 s_mid),
      Printf ''skipping X-chain tx issuance due to insufficient balance: %d < %d''
        [A_u64 2049463, A_u64 1002000000]]"
  by (simp add: issuePToXTransfer_def issueXToPTransfer_def env0_def w0_def s_mid_def
      tick_def new_tx_def avax_only_def Let_def split: prod.splits)

text \<open>
  C4, amended. The forward flow issues if and only if the X-chain AVAX balance is at
  least the X-chain base fee plus the P-chain base fee plus \<open>units.Avax\<close>, the amount its
  export transfers; the reverse flow issues if and only if the P-chain AVAX balance is at
  least the same two fees plus \<open>units.Schmeckle\<close>, the amount its export transfers.
\<close>

theorem transfer_preconditions_use_each_flows_own_amount:
  "(\<forall>b. X_GetFTBalance env s = Inr b \<longrightarrow>
      ((\<exists>e \<in> set (fst (issueXToPTransfer env w s)). phase_of e = Issue)
         \<longleftrightarrow> (X_BaseTxFee env + P_BaseTxFee env) + units_Avax env \<le> b (X_AVAXAssetID env))
      \<and> (\<forall>c outs r. Call_X_IssueExportTx c outs r \<in> set (fst (issueXToPTransfer env w s)) \<longrightarrow>
            (\<exists>owners. outs = [\<lparr>Asset = X_AVAXAssetID env,
                                Out = TransferOutput (units_Avax env) owners\<rparr>])))
   \<and> (\<forall>b. P_GetBalance env s = Inr b \<longrightarrow>
      ((\<exists>e \<in> set (fst (issuePToXTransfer env w s)). phase_of e = Issue)
         \<longleftrightarrow> (X_BaseTxFee env + P_BaseTxFee env) + units_Schmeckle env \<le> b (P_AVAXAssetID env))
      \<and> (\<forall>c outs r. Call_P_IssueExportTx c outs r \<in> set (fst (issuePToXTransfer env w s)) \<longrightarrow>
            (\<exists>owners. outs = [\<lparr>Asset = P_AVAXAssetID env,
                                Out = TransferOutput (units_Schmeckle env) owners\<rparr>])))"
proof -
  have px_fees: "P_BaseTxFee env + X_BaseTxFee env = X_BaseTxFee env + P_BaseTxFee env"
    by (rule add.commute)
  have x1: "(\<exists>e \<in> set (fst (issueXToPTransfer env w s)). phase_of e = Issue)
         \<longleftrightarrow> (X_BaseTxFee env + P_BaseTxFee env) + units_Avax env \<le> b (X_AVAXAssetID env)"
    if "X_GetFTBalance env s = Inr b" for b
    using that
    by (auto simp: issueXToPTransfer_def Let_def not_less [symmetric]
        split: sum.splits prod.splits)
  have x2: "\<exists>owners. outs = [\<lparr>Asset = X_AVAXAssetID env,
                     Out = TransferOutput (units_Avax env) owners\<rparr>]"
    if "Call_X_IssueExportTx c outs r \<in> set (fst (issueXToPTransfer env w s))" for c outs r
    using that
    by (auto simp: issueXToPTransfer_def Let_def split: sum.splits prod.splits if_splits
        dest: confirmX_tail verifyX_tail confirmP_tail verifyP_tail)
  have p1: "(\<exists>e \<in> set (fst (issuePToXTransfer env w s)). phase_of e = Issue)
         \<longleftrightarrow> (X_BaseTxFee env + P_BaseTxFee env) + units_Schmeckle env \<le> b (P_AVAXAssetID env)"
    if "P_GetBalance env s = Inr b" for b
    using that
    by (auto simp: issuePToXTransfer_def Let_def px_fees not_less [symmetric]
        split: sum.splits prod.splits)
  have p2: "\<exists>owners. outs = [\<lparr>Asset = P_AVAXAssetID env,
                     Out = TransferOutput (units_Schmeckle env) owners\<rparr>]"
    if "Call_P_IssueExportTx c outs r \<in> set (fst (issuePToXTransfer env w s))" for c outs r
    using that
    by (auto simp: issuePToXTransfer_def Let_def split: sum.splits prod.splits if_splits
        dest: confirmX_tail verifyX_tail confirmP_tail verifyP_tail)
  show ?thesis using x1 x2 p1 p2 by blast
qed

theorem transfer_preconditions_witness:
  "X_BaseTxFee env0 + P_BaseTxFee env0 + units_Avax env0 \<le> x_avax s0
   \<and> (\<exists>e \<in> set (fst (issueXToPTransfer env0 w0 s0)). phase_of e = Issue)
   \<and> \<not> X_BaseTxFee env0 + P_BaseTxFee env0 + units_Avax env0 \<le> x_avax s_mid
   \<and> \<not> (\<exists>e \<in> set (fst (issueXToPTransfer env0 w0 s_mid)). phase_of e = Issue)
   \<and> X_BaseTxFee env0 + P_BaseTxFee env0 + units_Schmeckle env0 \<le> p_avax s_mid
   \<and> (\<exists>e \<in> set (fst (issuePToXTransfer env0 w0 s_mid)). phase_of e = Issue)"
  using transfer_preconditions_use_each_flows_own_amount [of env0 s0 w0]
    transfer_preconditions_use_each_flows_own_amount [of env0 s_mid w0]
  by (simp add: env0_def s0_def s_mid_def avax_only_def)

subsection \<open>The scheduler\<close>

lemma confirmX_not_runtime:
  "confirmXChainTx env w tx s = (c, s') \<Longrightarrow> e \<in> set c \<Longrightarrow> phase_of e \<noteq> Runtime"
  using confirmXChainTx_phases [of env w tx s] by fastforce

lemma confirmP_not_runtime:
  "confirmPChainTx env w tx s = (c, s') \<Longrightarrow> e \<in> set c \<Longrightarrow> phase_of e \<noteq> Runtime"
  using confirmPChainTx_phases [of env w tx s] by fastforce

lemma verifyX_not_runtime:
  "verifyXChainTxConsumedUTXOs env w tx s = (v, s') \<Longrightarrow> e \<in> set v \<Longrightarrow>
   phase_of e \<noteq> Runtime"
  using verifyXChainTxConsumedUTXOs_phases [of env w tx s] by fastforce

lemma verifyP_not_runtime:
  "verifyPChainTxConsumedUTXOs env w tx s = (v, s') \<Longrightarrow> e \<in> set v \<Longrightarrow>
   phase_of e \<noteq> Runtime"
  using verifyPChainTxConsumedUTXOs_phases [of env w tx s] by fastforce

lemma BaseTx_not_runtime:
  "e \<in> set (fst (issueXChainBaseTx env w s)) \<Longrightarrow> phase_of e \<noteq> Runtime"
  unfolding issueXChainBaseTx_def Let_def
  by (auto split: sum.splits prod.splits if_splits
      dest: confirmX_not_runtime verifyX_not_runtime)

lemma CreateAssetTx_not_runtime:
  "e \<in> set (fst (issueXChainCreateAssetTx env w s)) \<Longrightarrow> phase_of e \<noteq> Runtime"
  unfolding issueXChainCreateAssetTx_def Let_def
  by (auto split: sum.splits prod.splits if_splits
      dest: confirmX_not_runtime verifyX_not_runtime)

lemma OperationTx_not_runtime:
  "e \<in> set (fst (issueXChainOperationTx env w s)) \<Longrightarrow> phase_of e \<noteq> Runtime"
  unfolding issueXChainOperationTx_def Let_def
  by (auto split: sum.splits prod.splits if_splits
      dest: confirmX_not_runtime verifyX_not_runtime)

lemma XToP_not_runtime:
  "e \<in> set (fst (issueXToPTransfer env w s)) \<Longrightarrow> phase_of e \<noteq> Runtime"
  unfolding issueXToPTransfer_def Let_def
  by (auto split: sum.splits prod.splits if_splits
      dest: confirmX_not_runtime verifyX_not_runtime confirmP_not_runtime verifyP_not_runtime)

lemma PToX_not_runtime:
  "e \<in> set (fst (issuePToXTransfer env w s)) \<Longrightarrow> phase_of e \<noteq> Runtime"
  unfolding issuePToXTransfer_def Let_def
  by (auto split: sum.splits prod.splits if_splits
      dest: confirmX_not_runtime verifyX_not_runtime confirmP_not_runtime verifyP_not_runtime)

lemma run_switch_not_runtime:
  "e \<in> set (fst (run_switch env w flowID s)) \<Longrightarrow> phase_of e \<noteq> Runtime"
  unfolding run_switch_def
  by (auto split: if_splits dest: BaseTx_not_runtime CreateAssetTx_not_runtime
      OperationTx_not_runtime XToP_not_runtime PToX_not_runtime)

lemma run_loop_returns_from_wait:
  "run_loop fuel env w s = Some (Returned, trace, s') \<Longrightarrow>
   \<exists>pre val. trace = pre @ [Call_select_timer val ctx_Done]"
proof (induction fuel arbitrary: s trace s')
  case 0
  then show ?case by simp
next
  case (Suc fuel)
  obtain r1 s1 where r1: "rand_Int env 5 s = (r1, s1)" by (metis surj_pair)
  show ?case
  proof (cases r1)
    case (Inl err)
    with Suc.prems r1 show ?thesis by simp
  next
    case (Inr flowID)
    obtain flow s2 where f: "run_switch env w flowID s1 = (flow, s2)" by (metis surj_pair)
    obtain r2 s3 where r2: "rand_Int env Second s2 = (r2, s3)" by (metis surj_pair)
    show ?thesis
    proof (cases r2)
      case (Inl err)
      with Suc.prems r1 Inr f r2 show ?thesis by simp
    next
      case val: (Inr val)
      obtain sel s4 where sel: "select_timer env val s3 = (sel, s4)" by (metis surj_pair)
      show ?thesis
      proof (cases sel)
        case ctx_Done
        with Suc.prems r1 Inr f r2 val sel
        have "trace = ([Call_rand_Int 5 (Inr flowID),
                 Printf ''wallet %d executing flow %d'' [A_int (workload_id w), A_int flowID]]
                @ flow @ [Call_rand_Int Second (Inr val)]) @ [Call_select_timer val ctx_Done]"
          by simp
        then show ?thesis by blast
      next
        case chan_C
        with Suc.prems r1 Inr f r2 val sel
        obtain evs where rec: "run_loop fuel env w s4 = Some (Returned, evs, s')"
          and tr: "trace = [Call_rand_Int 5 (Inr flowID),
                 Printf ''wallet %d executing flow %d'' [A_int (workload_id w), A_int flowID]]
                @ flow @ [Call_rand_Int Second (Inr val), Call_select_timer val chan_C] @ evs"
          by (auto split: option.splits)
        from Suc.IH [OF rec] obtain pre v where "evs = pre @ [Call_select_timer v ctx_Done]"
          by blast
        with tr have "trace = ([Call_rand_Int 5 (Inr flowID),
                 Printf ''wallet %d executing flow %d'' [A_int (workload_id w), A_int flowID]]
                @ flow @ [Call_rand_Int Second (Inr val), Call_select_timer val chan_C] @ pre)
                @ [Call_select_timer v ctx_Done]"
          by simp
        then show ?thesis by blast
      qed
    qed
  qed
qed

text \<open>
  C8. When the \<open>select\<close> of the inter-iteration wait takes the Done case (the
  cancellation fired during the wait), \<open>run\<close>'s loop returns at once: the trace of the
  iteration ends with that \<open>select\<close> and no further flow is started. The wait's duration
  is the value drawn from \<open>rand.Int\<close> with bound \<open>time.Second\<close>. The loop returns
  nowhere else: a trace that ends in a return ends with a \<open>select\<close> that took the Done
  case. Every iteration that has drawn its flow holds the whole trace of that flow
  before anything else, and no flow looks at the Done channel or a timer: a flow that has
  started runs to its own end.
\<close>

theorem cancellation_during_wait_returns_before_next_flow:
  "(\<forall>flowID s1 flow s2 val s3 s4.
      rand_Int env 5 s = (Inr flowID, s1)
      \<and> run_switch env w flowID s1 = (flow, s2)
      \<and> rand_Int env Second s2 = (Inr val, s3)
      \<and> select_timer env val s3 = (ctx_Done, s4) \<longrightarrow>
      run_loop (Suc fuel) env w s =
        Some (Returned,
          [Call_rand_Int 5 (Inr flowID),
           Printf ''wallet %d executing flow %d'' [A_int (workload_id w), A_int flowID]]
          @ flow
          @ [Call_rand_Int Second (Inr val), Call_select_timer val ctx_Done],
          s4))
   \<and> (\<forall>trace s'. run_loop fuel env w s = Some (Returned, trace, s') \<longrightarrow>
        (\<exists>pre val. trace = pre @ [Call_select_timer val ctx_Done]))
   \<and> (\<forall>flowID s1 out trace s'.
        rand_Int env 5 s = (Inr flowID, s1)
        \<and> run_loop (Suc fuel) env w s = Some (out, trace, s') \<longrightarrow>
        (\<exists>rest. trace =
           [Call_rand_Int 5 (Inr flowID),
            Printf ''wallet %d executing flow %d'' [A_int (workload_id w), A_int flowID]]
           @ fst (run_switch env w flowID s1) @ rest))
   \<and> (\<forall>flowID. \<forall>e \<in> set (fst (run_switch env w flowID s)). phase_of e \<noteq> Runtime)"
proof -
  have a: "run_loop (Suc fuel) env w s =
        Some (Returned,
          [Call_rand_Int 5 (Inr flowID),
           Printf ''wallet %d executing flow %d'' [A_int (workload_id w), A_int flowID]]
          @ flow
          @ [Call_rand_Int Second (Inr val), Call_select_timer val ctx_Done],
          s4)"
    if "rand_Int env 5 s = (Inr flowID, s1)" "run_switch env w flowID s1 = (flow, s2)"
      "rand_Int env Second s2 = (Inr val, s3)" "select_timer env val s3 = (ctx_Done, s4)"
    for flowID s1 flow s2 val s3 s4
    using that by simp
  have c: "\<exists>rest. trace =
           [Call_rand_Int 5 (Inr flowID),
            Printf ''wallet %d executing flow %d'' [A_int (workload_id w), A_int flowID]]
           @ fst (run_switch env w flowID s1) @ rest"
    if "rand_Int env 5 s = (Inr flowID, s1)" "run_loop (Suc fuel) env w s = Some (out, trace, s')"
    for flowID s1 out trace s'
    using that
    by (auto split: prod.splits sum.splits selected.splits option.splits)
  show ?thesis
    using a c run_loop_returns_from_wait [of fuel env w s] run_switch_not_runtime [of _ env w _ s]
    by blast
qed

theorem cancellation_during_wait_witness:
  "rand_Int env0 5 s0 = (Inr 0, tick s0)
   \<and> (case run_loop 1 env0 w0 s0 of
        None \<Rightarrow> False
      | Some (out, trace, s') \<Rightarrow>
          out = Returned
          \<and> map phase_of trace =
              [Runtime, Logging, Precondition, Issue, Logging, Confirm, Logging,
               Confirm, Logging, Logging, Verify, Verify, Verify, Logging, Verify,
               Verify, Verify, Logging, Logging, Runtime, Runtime]
          \<and> drop 19 trace = [Call_rand_Int Second (Inr 6), Call_select_timer 6 ctx_Done])"
  using cancellation_during_wait_returns_before_next_flow [of env0 s0 w0 0]
  by (simp add: run_switch_def issueXChainBaseTx_def confirmXChainTx_def
      verifyXChainTxConsumedUTXOs_def env0_def w0_def s0_def tick_def new_tx_def avax_only_def
      Let_def Second_def Millisecond_def makeOwner_def Peek_def)

text \<open>
  C9. When the X-chain or the P-chain balance query at the start of \<open>run\<close> fails, the
  actor logs with \<open>log.Fatalf\<close> and the process exits, whatever the number of
  iterations allowed. When the balance query of a flow fails, the flow logs the failure
  with \<open>log.Printf\<close> and returns, leaving the world as it was, and the scheduler goes on
  to its wait and, when the timer fires, to the next iteration.
\<close>

theorem starting_balance_failure_is_fatal_flow_failure_is_not:
  "(\<forall>err. X_GetFTBalance env s = Inl err \<longrightarrow>
      run fuel env w s =
        Some (Exited,
          [Call_X_GetFTBalance (Inl err),
           Fatalf ''failed to fetch X-chain balances: %s'' [A_err err]],
          s))
   \<and> (\<forall>b err. X_GetFTBalance env s = Inr b \<and> P_GetBalance env s = Inl err \<longrightarrow>
      run fuel env w s =
        Some (Exited,
          [Call_X_GetFTBalance (Inr b),
           Call_P_GetBalance (Inl err),
           Fatalf ''failed to fetch P-chain balances: %s'' [A_err err]],
          s))
   \<and> (\<forall>err flowID. X_GetFTBalance env s = Inl err \<and> flowID \<in> {0, 1, 2, 3} \<longrightarrow>
      run_switch env w flowID s =
        ([Call_X_GetFTBalance (Inl err),
          Printf ''failed to fetch X-chain balances: %s'' [A_err err]],
         s))
   \<and> (\<forall>err. P_GetBalance env s = Inl err \<longrightarrow>
      run_switch env w 4 s =
        ([Call_P_GetBalance (Inl err),
          Printf ''failed to fetch P-chain balances: %s'' [A_err err]],
         s))
   \<and> (\<forall>flowID s1 err val s2 s3.
        rand_Int env 5 s = (Inr flowID, s1)
        \<and> (flowID \<in> {0, 1, 2, 3} \<and> X_GetFTBalance env s1 = Inl err
            \<or> flowID = 4 \<and> P_GetBalance env s1 = Inl err)
        \<and> rand_Int env Second s1 = (Inr val, s2)
        \<and> select_timer env val s2 = (chan_C, s3) \<longrightarrow>
        run_loop (Suc fuel) env w s =
          (case run_loop fuel env w s3 of
            None \<Rightarrow> None
          | Some (out, evs, s4) \<Rightarrow>
              Some (out,
                [Call_rand_Int 5 (Inr flowID),
                 Printf ''wallet %d executing flow %d'' [A_int (workload_id w), A_int flowID]]
                @ fst (run_switch env w flowID s1)
                @ [Call_rand_Int Second (Inr val), Call_select_timer val chan_C]
                @ evs,
                s4)))"
proof -
  have x: "run_switch env w flowID t =
        ([Call_X_GetFTBalance (Inl err),
          Printf ''failed to fetch X-chain balances: %s'' [A_err err]],
         t)"
    if "X_GetFTBalance env t = Inl err" "flowID \<in> {0, 1, 2, 3}" for err flowID t
    using that
    by (auto simp: run_switch_def issueXChainBaseTx_def issueXChainCreateAssetTx_def
        issueXChainOperationTx_def issueXToPTransfer_def)
  have p: "run_switch env w 4 t =
        ([Call_P_GetBalance (Inl err),
          Printf ''failed to fetch P-chain balances: %s'' [A_err err]],
         t)"
    if "P_GetBalance env t = Inl err" for err t
    using that by (simp add: run_switch_def issuePToXTransfer_def)
  have r1: "run fuel env w s =
        Some (Exited,
          [Call_X_GetFTBalance (Inl err),
           Fatalf ''failed to fetch X-chain balances: %s'' [A_err err]],
          s)"
    if "X_GetFTBalance env s = Inl err" for err
    using that by (simp add: run_def)
  have r2: "run fuel env w s =
        Some (Exited,
          [Call_X_GetFTBalance (Inr b),
           Call_P_GetBalance (Inl err),
           Fatalf ''failed to fetch P-chain balances: %s'' [A_err err]],
          s)"
    if "X_GetFTBalance env s = Inr b" "P_GetBalance env s = Inl err" for b err
    using that by (simp add: run_def)
  have l: "run_loop (Suc fuel) env w s =
          (case run_loop fuel env w s3 of
            None \<Rightarrow> None
          | Some (out, evs, s4) \<Rightarrow>
              Some (out,
                [Call_rand_Int 5 (Inr flowID),
                 Printf ''wallet %d executing flow %d'' [A_int (workload_id w), A_int flowID]]
                @ fst (run_switch env w flowID s1)
                @ [Call_rand_Int Second (Inr val), Call_select_timer val chan_C]
                @ evs,
                s4))"
    if "rand_Int env 5 s = (Inr flowID, s1)"
      "flowID \<in> {0, 1, 2, 3} \<and> X_GetFTBalance env s1 = Inl err
         \<or> flowID = 4 \<and> P_GetBalance env s1 = Inl err"
      "rand_Int env Second s1 = (Inr val, s2)" "select_timer env val s2 = (chan_C, s3)"
    for flowID s1 err val s2 s3
  proof -
    from that(2) have "snd (run_switch env w flowID s1) = s1"
      using x [of s1 err flowID] p [of s1 err] by auto
    then obtain flow where "run_switch env w flowID s1 = (flow, s1)"
      by (metis prod.collapse)
    with that(1,3,4) show ?thesis
      by (simp split: option.splits)
  qed
  have c1: "\<forall>err. X_GetFTBalance env s = Inl err \<longrightarrow>
      run fuel env w s =
        Some (Exited,
          [Call_X_GetFTBalance (Inl err),
           Fatalf ''failed to fetch X-chain balances: %s'' [A_err err]],
          s)"
    using r1 by blast
  have c2: "\<forall>b err. X_GetFTBalance env s = Inr b \<and> P_GetBalance env s = Inl err \<longrightarrow>
      run fuel env w s =
        Some (Exited,
          [Call_X_GetFTBalance (Inr b),
           Call_P_GetBalance (Inl err),
           Fatalf ''failed to fetch P-chain balances: %s'' [A_err err]],
          s)"
    using r2 by blast
  have c3: "\<forall>err flowID. X_GetFTBalance env s = Inl err \<and> flowID \<in> {0, 1, 2, 3} \<longrightarrow>
      run_switch env w flowID s =
        ([Call_X_GetFTBalance (Inl err),
          Printf ''failed to fetch X-chain balances: %s'' [A_err err]],
         s)"
    using x [of s] by blast
  have c4: "\<forall>err. P_GetBalance env s = Inl err \<longrightarrow>
      run_switch env w 4 s =
        ([Call_P_GetBalance (Inl err),
          Printf ''failed to fetch P-chain balances: %s'' [A_err err]],
         s)"
    using p [of s] by blast
  have c5: "\<forall>flowID s1 err val s2 s3.
        rand_Int env 5 s = (Inr flowID, s1)
        \<and> (flowID \<in> {0, 1, 2, 3} \<and> X_GetFTBalance env s1 = Inl err
            \<or> flowID = 4 \<and> P_GetBalance env s1 = Inl err)
        \<and> rand_Int env Second s1 = (Inr val, s2)
        \<and> select_timer env val s2 = (chan_C, s3) \<longrightarrow>
        run_loop (Suc fuel) env w s =
          (case run_loop fuel env w s3 of
            None \<Rightarrow> None
          | Some (out, evs, s4) \<Rightarrow>
              Some (out,
                [Call_rand_Int 5 (Inr flowID),
                 Printf ''wallet %d executing flow %d'' [A_int (workload_id w), A_int flowID]]
                @ fst (run_switch env w flowID s1)
                @ [Call_rand_Int Second (Inr val), Call_select_timer val chan_C]
                @ evs,
                s4))"
  proof (intro allI impI, elim conjE)
    fix flowID s1 err val s2 s3
    assume "rand_Int env 5 s = (Inr flowID, s1)"
      "flowID \<in> {0, 1, 2, 3} \<and> X_GetFTBalance env s1 = Inl err
         \<or> flowID = 4 \<and> P_GetBalance env s1 = Inl err"
      "rand_Int env Second s1 = (Inr val, s2)" "select_timer env val s2 = (chan_C, s3)"
    then show "run_loop (Suc fuel) env w s =
          (case run_loop fuel env w s3 of
            None \<Rightarrow> None
          | Some (out, evs, s4) \<Rightarrow>
              Some (out,
                [Call_rand_Int 5 (Inr flowID),
                 Printf ''wallet %d executing flow %d'' [A_int (workload_id w), A_int flowID]]
                @ fst (run_switch env w flowID s1)
                @ [Call_rand_Int Second (Inr val), Call_select_timer val chan_C]
                @ evs,
                s4))"
      by (rule l)
  qed
  from c1 c2 c3 c4 c5 show ?thesis by (intro conjI)
qed

theorem starting_balance_failure_witness:
  "run 0 env_wallet_down w0 s0 =
     Some (Exited,
       [Call_X_GetFTBalance (Inl (Err ''wallet unavailable'')),
        Fatalf ''failed to fetch X-chain balances: %s'' [A_err (Err ''wallet unavailable'')]],
       s0)
   \<and> run 2 env_flaky_wallet w0 s0 =
     Some (Returned,
       [Call_X_GetFTBalance (Inr (avax_only 5000000000)),
        Call_P_GetBalance (Inr (avax_only 5000000000)),
        Printf ''wallet starting with %d X-chain nAVAX and %d P-chain nAVAX''
          [A_u64 5000000000, A_u64 5000000000],
        Call_rand_Int 5 (Inr 0),
        Printf ''wallet %d executing flow %d'' [A_int 0, A_int 0],
        Call_X_GetFTBalance (Inl (Err ''wallet unavailable'')),
        Printf ''failed to fetch X-chain balances: %s'' [A_err (Err ''wallet unavailable'')],
        Call_rand_Int Second (Inr 1),
        Call_select_timer 1 chan_C,
        Call_rand_Int 5 (Inr 3),
        Printf ''wallet %d executing flow %d'' [A_int 0, A_int 3],
        Call_X_GetFTBalance (Inl (Err ''wallet unavailable'')),
        Printf ''failed to fetch X-chain balances: %s'' [A_err (Err ''wallet unavailable'')],
        Call_rand_Int Second (Inr 4),
        Call_select_timer 4 ctx_Done],
       s0\<lparr>clock := 6\<rparr>)"
  using starting_balance_failure_is_fatal_flow_failure_is_not [of env_wallet_down s0 0 w0]
    starting_balance_failure_is_fatal_flow_failure_is_not [of env_flaky_wallet s0 1 w0]
  by (simp add: run_def run_switch_def issueXChainBaseTx_def issueXToPTransfer_def
      env_wallet_down_def env_flaky_wallet_def env0_def w0_def s0_def tick_def avax_only_def
      Let_def Second_def Millisecond_def numeral_2_eq_2)

subsection \<open>Output owners\<close>

text \<open>
  For a workload that owns an address, \<open>makeOwner\<close> yields threshold 1 and one address,
  which is one of the workload's own.
\<close>

lemma makeOwner_names_one_own_address:
  "addrs w \<noteq> [] \<Longrightarrow>
   Threshold (makeOwner w) = 1 \<and> (\<exists>a \<in> set (addrs w). Addrs (makeOwner w) = [a])"
  by (cases "addrs w") (simp_all add: makeOwner_def Peek_def)

text \<open>
  C10 fails on the two cross-chain flows: the output each of them exports is built
  without owners (the zero \<open>OutputOwners\<close>: threshold 0, no address), while the base
  transfer, the asset creation, the mint and the two imports name \<open>makeOwner\<close>'s owner.
  The first two events of the forward and of the reverse flow on the example network,
  whose workload owns address 7:
\<close>

theorem export_outputs_carry_no_owner:
  "makeOwner w0 = \<lparr>Locktime = 0, Threshold = 1, Addrs = [7]\<rparr>
   \<and> take 2 (fst (issueXToPTransfer env0 w0 s0)) =
     [Call_X_GetFTBalance (X_GetFTBalance env0 s0),
      Call_X_IssueExportTx 0
        [\<lparr>Asset = 1,
          Out = TransferOutput 1000000000 \<lparr>Locktime = 0, Threshold = 0, Addrs = []\<rparr>\<rparr>]
        (Inr \<lparr>TxID = 100, InputIDs = [200, 300]\<rparr>)]
   \<and> take 2 (fst (issuePToXTransfer env0 w0 s0)) =
     [Call_P_GetBalance (P_GetBalance env0 s0),
      Call_P_IssueExportTx 2
        [\<lparr>Asset = 1,
          Out = TransferOutput 49463 \<lparr>Locktime = 0, Threshold = 0, Addrs = []\<rparr>\<rparr>]
        (Inr \<lparr>TxID = 100, InputIDs = [200, 300]\<rparr>)]"
  by (simp add: issueXToPTransfer_def issuePToXTransfer_def makeOwner_def Peek_def
      zero_OutputOwners_def env0_def w0_def s0_def tick_def new_tx_def avax_only_def Let_def
      split: prod.splits)

subsection \<open>The readiness gate\<close>

lemma health_calls_append: "health_calls (xs @ ys) = health_calls xs @ health_calls ys"
  by (induction xs rule: health_calls.induct) simp_all

lemma ticker_waits_append: "ticker_waits (xs @ ys) = ticker_waits xs @ ticker_waits ys"
  by (induction xs rule: ticker_waits.induct) simp_all

lemma awaitHealthyNode_loop_step:
  assumes "Health env uri s = (res, s1)" and "res \<noteq> Inr True"
    and "select_ticker env (100 * Millisecond) s1 = (sel, s2)"
  shows "awaitHealthyNode_loop (Suc fuel) env uri s =
    (case awaitHealthyNode_loop fuel env uri s2 of
      None \<Rightarrow> None
    | Some (evs, s3) \<Rightarrow>
        Some ([Call_Health uri res, health_line uri res,
               Call_select_ticker (100 * Millisecond) sel]
              @ cancelled_line uri sel @ evs,
              s3))"
  using assms
  by (auto simp: health_line_def cancelled_line_def split: sum.splits option.splits selected.splits)

lemma awaitHealthyNode_loop_healthy:
  assumes "Health env uri s = (Inr True, s1)"
  shows "awaitHealthyNode_loop (Suc fuel) env uri s =
    Some ([Call_Health uri (Inr True), health_line uri (Inr True)], s1)"
  using assms by (simp add: health_line_def)

lemma awaitHealthyNode_loop_returned:
  "awaitHealthyNode_loop fuel env uri s = Some (trace, s') \<Longrightarrow>
   filter (\<lambda>p. snd p = Inr True) (health_calls trace) = [(uri, Inr True)]
   \<and> (\<forall>d \<in> set (ticker_waits trace). d = 100 * Millisecond)"
proof (induction fuel arbitrary: s trace s')
  case 0
  then show ?case by simp
next
  case (Suc fuel)
  obtain res s1 where h: "Health env uri s = (res, s1)" by (metis surj_pair)
  show ?case
  proof (cases "res = Inr True")
    case True
    with Suc.prems h awaitHealthyNode_loop_healthy [of env uri s s1 fuel]
    show ?thesis by (auto simp: health_line_def)
  next
    case False
    obtain sel s2 where sel: "select_ticker env (100 * Millisecond) s1 = (sel, s2)"
      by (metis surj_pair)
    from Suc.prems awaitHealthyNode_loop_step [OF h False sel, of fuel]
    obtain evs where rec: "awaitHealthyNode_loop fuel env uri s2 = Some (evs, s')"
      and tr: "trace = [Call_Health uri res, health_line uri res,
               Call_select_ticker (100 * Millisecond) sel] @ cancelled_line uri sel @ evs"
      by (auto split: option.splits)
    have hl: "health_calls [health_line uri res] = []" "ticker_waits [health_line uri res] = []"
      by (simp_all add: health_line_def split: sum.splits)
    have cl: "health_calls (cancelled_line uri sel) = []"
      "ticker_waits (cancelled_line uri sel) = []"
      by (simp_all add: cancelled_line_def split: selected.splits)
    have "health_calls trace = (uri, res) # health_calls evs"
      "ticker_waits trace = 100 * Millisecond # ticker_waits evs"
      using hl cl unfolding tr
      by (simp_all add: health_calls_append ticker_waits_append health_line_def
          split: sum.splits)
    with Suc.IH [OF rec] False show ?thesis by simp
  qed
qed

lemma awaitHealthyNode_loop_no_limit:
  "\<forall>i < n. fst (Health env uri (after_polls env uri i s)) \<noteq> Inr True \<Longrightarrow>
   awaitHealthyNode_loop n env uri s = None
   \<and> (fst (Health env uri (after_polls env uri n s)) = Inr True \<longrightarrow>
       (\<exists>trace. awaitHealthyNode_loop (Suc n) env uri s
           = Some (trace, snd (Health env uri (after_polls env uri n s)))
         \<and> length (health_calls trace) = Suc n
         \<and> ticker_waits trace = replicate n (100 * Millisecond)))"
proof (induction n arbitrary: s)
  case 0
  obtain res s1 where h: "Health env uri s = (res, s1)" by (metis surj_pair)
  have "awaitHealthyNode_loop 0 env uri s = None" by simp
  moreover have "\<exists>trace. awaitHealthyNode_loop (Suc 0) env uri s
           = Some (trace, snd (Health env uri (after_polls env uri 0 s)))
         \<and> length (health_calls trace) = Suc 0
         \<and> ticker_waits trace = replicate 0 (100 * Millisecond)"
    if "fst (Health env uri (after_polls env uri 0 s)) = Inr True"
    using that h awaitHealthyNode_loop_healthy [of env uri s s1 0]
    by (simp add: health_line_def)
  ultimately show ?case by blast
next
  case (Suc n)
  obtain res s1 where h: "Health env uri s = (res, s1)" by (metis surj_pair)
  obtain sel s2 where sel: "select_ticker env (100 * Millisecond) s1 = (sel, s2)"
    by (metis surj_pair)
  from Suc.prems have "fst (Health env uri (after_polls env uri 0 s)) \<noteq> Inr True"
    by blast
  with h have nh: "res \<noteq> Inr True" by simp
  have ap: "after_polls env uri (Suc i) s = after_polls env uri i s2" for i
    using h sel by simp
  have "\<forall>i < n. fst (Health env uri (after_polls env uri i s2)) \<noteq> Inr True"
  proof (intro allI impI)
    fix i assume "i < n"
    then have "Suc i < Suc n" by simp
    with Suc.prems have "fst (Health env uri (after_polls env uri (Suc i) s)) \<noteq> Inr True"
      by blast
    then show "fst (Health env uri (after_polls env uri i s2)) \<noteq> Inr True"
      unfolding ap .
  qed
  note ih = Suc.IH [OF this]
  note step = awaitHealthyNode_loop_step [OF h nh sel]
  have none: "awaitHealthyNode_loop (Suc n) env uri s = None"
    using ih step [of n] by simp
  have some: "\<exists>trace. awaitHealthyNode_loop (Suc (Suc n)) env uri s
           = Some (trace, snd (Health env uri (after_polls env uri (Suc n) s)))
         \<and> length (health_calls trace) = Suc (Suc n)
         \<and> ticker_waits trace = replicate (Suc n) (100 * Millisecond)"
    if "fst (Health env uri (after_polls env uri (Suc n) s)) = Inr True"
  proof -
    from that have "fst (Health env uri (after_polls env uri n s2)) = Inr True"
      unfolding ap .
    with ih obtain evs where rec: "awaitHealthyNode_loop (Suc n) env uri s2
           = Some (evs, snd (Health env uri (after_polls env uri n s2)))"
      and len: "length (health_calls evs) = Suc n"
      and tw: "ticker_waits evs = replicate n (100 * Millisecond)"
      by blast
    let ?trace = "[Call_Health uri res, health_line uri res,
               Call_select_ticker (100 * Millisecond) sel] @ cancelled_line uri sel @ evs"
    have hl: "health_calls [health_line uri res] = []" "ticker_waits [health_line uri res] = []"
      by (simp_all add: health_line_def split: sum.splits)
    have cl: "health_calls (cancelled_line uri sel) = []"
      "ticker_waits (cancelled_line uri sel) = []"
      by (simp_all add: cancelled_line_def split: selected.splits)
    have "awaitHealthyNode_loop (Suc (Suc n)) env uri s
        = Some (?trace, snd (Health env uri (after_polls env uri (Suc n) s)))"
      unfolding ap step [of "Suc n"] rec by simp
    moreover have "health_calls ?trace = (uri, res) # health_calls evs"
      "ticker_waits ?trace = 100 * Millisecond # ticker_waits evs"
      using hl cl
      by (simp_all add: health_calls_append ticker_waits_append health_line_def
          split: sum.splits)
    ultimately show ?thesis using len tw by simp
  qed
  from none some show ?case by blast
qed


lemma awaitHealthyNode_loop_mono:
  "awaitHealthyNode_loop fuel env uri s = Some r \<Longrightarrow>
   awaitHealthyNode_loop (fuel + k) env uri s = Some r"
proof (induction fuel arbitrary: s r)
  case 0
  then show ?case by simp
next
  case (Suc fuel)
  obtain res s1 where h: "Health env uri s = (res, s1)" by (metis surj_pair)
  show ?case
  proof (cases "res = Inr True")
    case True
    with Suc.prems h awaitHealthyNode_loop_healthy [of env uri s s1]
    show ?thesis by (simp del: awaitHealthyNode_loop.simps)
  next
    case False
    obtain sel s2 where sel: "select_ticker env (100 * Millisecond) s1 = (sel, s2)"
      by (metis surj_pair)
    note step = awaitHealthyNode_loop_step [OF h False sel]
    from Suc.prems step [of fuel]
    obtain r' where rec: "awaitHealthyNode_loop fuel env uri s2 = Some r'"
      by (auto split: option.splits)
    from Suc.IH [OF rec] have "awaitHealthyNode_loop (fuel + k) env uri s2 = Some r'" .
    with Suc.prems rec step [of fuel] step [of "fuel + k"] show ?thesis
      by (simp del: awaitHealthyNode_loop.simps)
  qed
qed

lemma awaitHealthyNode_mono:
  "awaitHealthyNode fuel env uri s = Some r \<Longrightarrow>
   awaitHealthyNode (fuel + k) env uri s = Some r"
  by (auto simp: awaitHealthyNode_def split: option.splits
      dest: awaitHealthyNode_loop_mono [where k = k])

lemma awaitHealthyNodes_uris_mono:
  "awaitHealthyNodes_uris fuel env us s = Some r \<Longrightarrow>
   awaitHealthyNodes_uris (fuel + k) env us s = Some r"
proof (induction us arbitrary: s r)
  case Nil
  then show ?case by simp
next
  case (Cons u us)
  from Cons.prems obtain e1 s1 r2 where
    n: "awaitHealthyNode fuel env u s = Some (e1, s1)"
    and rec: "awaitHealthyNodes_uris fuel env us s1 = Some r2"
    by (auto split: option.splits)
  from awaitHealthyNode_mono [OF n, of k] Cons.IH [OF rec] Cons.prems n rec
  show ?case by simp
qed

lemma awaitHealthyNodes_uris_append:
  "awaitHealthyNodes_uris fuel env (xs @ ys) s =
    (case awaitHealthyNodes_uris fuel env xs s of
      None \<Rightarrow> None
    | Some (e1, s1) \<Rightarrow>
        (case awaitHealthyNodes_uris fuel env ys s1 of
          None \<Rightarrow> None
        | Some (e2, s2) \<Rightarrow> Some (e1 @ e2, s2)))"
  by (induction xs arbitrary: s) (auto split: option.splits)

lemma awaitHealthyNode_loop_cancelled:
  assumes "\<forall>t u. cancelled t \<longrightarrow>
      (\<exists>e. fst (Health env u t) = Inl e) \<and> cancelled (snd (Health env u t))"
    and "\<forall>t d. cancelled t \<longrightarrow> cancelled (snd (select_ticker env d t))"
  shows "cancelled s \<Longrightarrow> awaitHealthyNode_loop fuel env uri s = None"
proof (induction fuel arbitrary: s)
  case 0
  then show ?case by simp
next
  case (Suc fuel)
  obtain res s1 where h: "Health env uri s = (res, s1)" by (metis surj_pair)
  obtain sel s2 where sel: "select_ticker env (100 * Millisecond) s1 = (sel, s2)"
    by (metis surj_pair)
  from assms(1) Suc.prems h have "\<exists>e. res = Inl e" and c1: "cancelled s1"
    by (metis fst_conv, metis snd_conv)
  then have nh: "res \<noteq> Inr True" by auto
  from assms(2) c1 sel have "cancelled s2" by (metis snd_conv)
  from Suc.IH [OF this] awaitHealthyNode_loop_step [OF h nh sel, of fuel]
  show ?case by simp
qed

lemma awaitHealthyNode_loop_after_polls:
  "\<forall>i < k. fst (Health env uri (after_polls env uri i s)) \<noteq> Inr True \<Longrightarrow>
   awaitHealthyNode_loop fuel env uri (after_polls env uri k s) = None \<Longrightarrow>
   awaitHealthyNode_loop (k + fuel) env uri s = None"
proof (induction k arbitrary: s)
  case 0
  then show ?case by simp
next
  case (Suc k)
  obtain res s1 where h: "Health env uri s = (res, s1)" by (metis surj_pair)
  obtain sel s2 where sel: "select_ticker env (100 * Millisecond) s1 = (sel, s2)"
    by (metis surj_pair)
  from Suc.prems(1) have "fst (Health env uri (after_polls env uri 0 s)) \<noteq> Inr True"
    by blast
  with h have nh: "res \<noteq> Inr True" by simp
  have ap: "after_polls env uri (Suc i) s = after_polls env uri i s2" for i
    using h sel by simp
  have "\<forall>i < k. fst (Health env uri (after_polls env uri i s2)) \<noteq> Inr True"
  proof (intro allI impI)
    fix i assume "i < k"
    then have "Suc i < Suc k" by simp
    with Suc.prems(1) have "fst (Health env uri (after_polls env uri (Suc i) s)) \<noteq> Inr True"
      by blast
    then show "fst (Health env uri (after_polls env uri i s2)) \<noteq> Inr True"
      unfolding ap .
  qed
  moreover from Suc.prems(2)
  have "awaitHealthyNode_loop fuel env uri (after_polls env uri k s2) = None"
    unfolding ap .
  ultimately have "awaitHealthyNode_loop (k + fuel) env uri s2 = None"
    by (rule Suc.IH)
  with awaitHealthyNode_loop_step [OF h nh sel, of "k + fuel"] show ?case
    by simp
qed

lemma awaitHealthyNode_never_returns:
  assumes "\<forall>t u. cancelled t \<longrightarrow>
      (\<exists>e. fst (Health env u t) = Inl e) \<and> cancelled (snd (Health env u t))"
    and "\<forall>t d. cancelled t \<longrightarrow> cancelled (snd (select_ticker env d t))"
    and "\<forall>i < k. fst (Health env uri (after_polls env uri i s)) \<noteq> Inr True"
    and "cancelled (after_polls env uri k s)"
  shows "awaitHealthyNode fuel env uri s = None"
proof -
  have "awaitHealthyNode_loop fuel env uri s = None"
  proof (cases "fuel \<le> k")
    case True
    with assms(3) have "\<forall>i < fuel. fst (Health env uri (after_polls env uri i s)) \<noteq> Inr True"
      by simp
    from awaitHealthyNode_loop_no_limit [OF this] show ?thesis by simp
  next
    case False
    then obtain m where fuel: "fuel = k + m" by (metis le_add_diff_inverse nat_le_linear)
    have "awaitHealthyNode_loop m env uri (after_polls env uri k s) = None"
      by (rule awaitHealthyNode_loop_cancelled [OF assms(1,2,4)])
    from awaitHealthyNode_loop_after_polls [OF assms(3) this] fuel show ?thesis by simp
  qed
  then show ?thesis by (simp add: awaitHealthyNode_def)
qed

lemma awaitHealthyNodes_uris_returned:
  "awaitHealthyNodes_uris fuel env us s = Some (trace, s') \<Longrightarrow>
   filter (\<lambda>p. snd p = Inr True) (health_calls trace) = map (\<lambda>u. (u, Inr True)) us
   \<and> (\<forall>d \<in> set (ticker_waits trace). d = 100 * Millisecond)"
proof (induction us arbitrary: s trace s')
  case Nil
  then show ?case by auto
next
  case (Cons u us)
  from Cons.prems obtain e1 s1 e2 where
    n: "awaitHealthyNode_loop fuel env u s = Some (e1, s1)"
    and rec: "awaitHealthyNodes_uris fuel env us s1 = Some (e2, s')"
    and tr: "trace = (Printf ''awaiting node health at %s'' [A_str u] # e1) @ e2"
    by (auto simp: awaitHealthyNode_def split: option.splits)
  from awaitHealthyNode_loop_returned [OF n] Cons.IH [OF rec] show ?case
    unfolding tr by (auto simp: health_calls_append ticker_waits_append)
qed


text \<open>
  C7. When \<open>awaitHealthyNodes\<close> returns, the healthy answers in its trace are one per
  endpoint, in list order, every wait of the trace was on the ticker of period 100ms, and
  its last line is "all nodes reported healthy". An answer that is an error or unhealthy
  is logged and followed by one wait on that ticker and the next poll, whatever the wait
  reports; there is no bound on the polls: a node that answers healthy only at its
  \<open>n+1\<close>-th poll is polled \<open>n+1\<close> times with \<open>n\<close> waits of 100ms, and the gate has no
  result before. If the context is cancelled while an endpoint has not yet answered
  healthy (after any endpoints before it did, and after any number of polls of it), the
  gate never returns, for a context whose cancellation is permanent and a health client
  that fails on a cancelled context.
\<close>

theorem readiness_gate_returns_only_when_all_healthy:
  "(\<forall>trace s'. awaitHealthyNodes fuel env us s = Some (trace, s') \<longrightarrow>
      filter (\<lambda>p. snd p = Inr True) (health_calls trace) = map (\<lambda>u. (u, Inr True)) us
      \<and> (\<forall>d \<in> set (ticker_waits trace). d = 100 * Millisecond)
      \<and> last trace = Println ''all nodes reported healthy'')
   \<and> (\<forall>res s1 sel s2.
        Health env uri s = (res, s1) \<and> res \<noteq> Inr True
        \<and> select_ticker env (100 * Millisecond) s1 = (sel, s2) \<longrightarrow>
        awaitHealthyNode_loop (Suc fuel) env uri s =
          (case awaitHealthyNode_loop fuel env uri s2 of
            None \<Rightarrow> None
          | Some (evs, s3) \<Rightarrow>
              Some ([Call_Health uri res, health_line uri res,
                     Call_select_ticker (100 * Millisecond) sel]
                    @ cancelled_line uri sel @ evs,
                    s3)))
   \<and> (\<forall>n. (\<forall>i < n. fst (Health env uri (after_polls env uri i s)) \<noteq> Inr True) \<longrightarrow>
        awaitHealthyNode_loop n env uri s = None
        \<and> (fst (Health env uri (after_polls env uri n s)) = Inr True \<longrightarrow>
            (\<exists>trace. awaitHealthyNode_loop (Suc n) env uri s
                = Some (trace, snd (Health env uri (after_polls env uri n s)))
              \<and> length (health_calls trace) = Suc n
              \<and> ticker_waits trace = replicate n (100 * Millisecond))))
   \<and> (\<forall>cancelled us1 us2 fuel0 trace1 t k.
        (\<forall>t u. cancelled t \<longrightarrow>
           (\<exists>e. fst (Health env u t) = Inl e) \<and> cancelled (snd (Health env u t)))
        \<and> (\<forall>t d. cancelled t \<longrightarrow> cancelled (snd (select_ticker env d t)))
        \<and> awaitHealthyNodes_uris fuel0 env us1 s = Some (trace1, t)
        \<and> (\<forall>i < k. fst (Health env uri (after_polls env uri i t)) \<noteq> Inr True)
        \<and> cancelled (after_polls env uri k t) \<longrightarrow>
        (\<forall>fuel'. awaitHealthyNodes fuel' env (us1 @ uri # us2) s = None))"
proof -
  have a: "(\<forall>trace s'. awaitHealthyNodes fuel env us s = Some (trace, s') \<longrightarrow>
      filter (\<lambda>p. snd p = Inr True) (health_calls trace) = map (\<lambda>u. (u, Inr True)) us
      \<and> (\<forall>d \<in> set (ticker_waits trace). d = 100 * Millisecond)
      \<and> last trace = Println ''all nodes reported healthy'')"
  proof (intro allI impI)
    fix trace s'
    assume r: "awaitHealthyNodes fuel env us s = Some (trace, s')"
    then obtain evs where u: "awaitHealthyNodes_uris fuel env us s = Some (evs, s')"
      and tr: "trace = evs @ [Println ''all nodes reported healthy'']"
      by (auto simp: awaitHealthyNodes_def split: option.splits)
    from awaitHealthyNodes_uris_returned [OF u]
    show "filter (\<lambda>p. snd p = Inr True) (health_calls trace) = map (\<lambda>u. (u, Inr True)) us
      \<and> (\<forall>d \<in> set (ticker_waits trace). d = 100 * Millisecond)
      \<and> last trace = Println ''all nodes reported healthy''"
      unfolding tr by (simp add: health_calls_append ticker_waits_append)
  qed
  have b: "(\<forall>res s1 sel s2.
        Health env uri s = (res, s1) \<and> res \<noteq> Inr True
        \<and> select_ticker env (100 * Millisecond) s1 = (sel, s2) \<longrightarrow>
        awaitHealthyNode_loop (Suc fuel) env uri s =
          (case awaitHealthyNode_loop fuel env uri s2 of
            None \<Rightarrow> None
          | Some (evs, s3) \<Rightarrow>
              Some ([Call_Health uri res, health_line uri res,
                     Call_select_ticker (100 * Millisecond) sel]
                    @ cancelled_line uri sel @ evs,
                    s3)))"
    using awaitHealthyNode_loop_step [of env uri s _ _ _ _ fuel] by blast
  have c: "(\<forall>n. (\<forall>i < n. fst (Health env uri (after_polls env uri i s)) \<noteq> Inr True) \<longrightarrow>
        awaitHealthyNode_loop n env uri s = None
        \<and> (fst (Health env uri (after_polls env uri n s)) = Inr True \<longrightarrow>
            (\<exists>trace. awaitHealthyNode_loop (Suc n) env uri s
                = Some (trace, snd (Health env uri (after_polls env uri n s)))
              \<and> length (health_calls trace) = Suc n
              \<and> ticker_waits trace = replicate n (100 * Millisecond))))"
    using awaitHealthyNode_loop_no_limit [of _ env uri s] by blast
  have d: "(\<forall>cancelled us1 us2 fuel0 trace1 t k.
        (\<forall>t u. cancelled t \<longrightarrow>
           (\<exists>e. fst (Health env u t) = Inl e) \<and> cancelled (snd (Health env u t)))
        \<and> (\<forall>t d. cancelled t \<longrightarrow> cancelled (snd (select_ticker env d t)))
        \<and> awaitHealthyNodes_uris fuel0 env us1 s = Some (trace1, t)
        \<and> (\<forall>i < k. fst (Health env uri (after_polls env uri i t)) \<noteq> Inr True)
        \<and> cancelled (after_polls env uri k t) \<longrightarrow>
        (\<forall>fuel'. awaitHealthyNodes fuel' env (us1 @ uri # us2) s = None))"
  proof (intro allI impI, elim conjE)
    fix cancelled :: "'a \<Rightarrow> bool" and us1 us2 :: "uri list" and fuel0 trace1 t k fuel'
    assume h1: "\<forall>t u. cancelled t \<longrightarrow>
           (\<exists>e. fst (Health env u t) = Inl e) \<and> cancelled (snd (Health env u t))"
      and h2: "\<forall>t d. cancelled t \<longrightarrow> cancelled (snd (select_ticker env d t))"
      and first: "awaitHealthyNodes_uris fuel0 env us1 s = Some (trace1, t)"
      and nh: "\<forall>i < k. fst (Health env uri (after_polls env uri i t)) \<noteq> Inr True"
      and c: "cancelled (after_polls env uri k t)"
    have never: "awaitHealthyNode f env uri t = None" for f
      by (rule awaitHealthyNode_never_returns [OF h1 h2 nh c])
    have "awaitHealthyNodes_uris fuel' env (us1 @ uri # us2) s = None"
    proof (cases "awaitHealthyNodes_uris fuel' env us1 s")
      case None
      then show ?thesis by (simp add: awaitHealthyNodes_uris_append)
    next
      case (Some r)
      from awaitHealthyNodes_uris_mono [OF Some, of fuel0]
        awaitHealthyNodes_uris_mono [OF first, of fuel']
      have "r = (trace1, t)" by (simp add: add.commute)
      with Some never [of fuel'] show ?thesis
        by (simp add: awaitHealthyNodes_uris_append)
    qed
    then show "awaitHealthyNodes fuel' env (us1 @ uri # us2) s = None"
      by (simp add: awaitHealthyNodes_def)
  qed
  from a b c d show ?thesis by (intro conjI)
qed


theorem readiness_gate_witness:
  "awaitHealthyNodes 3 env0 (uris w0) s0 =
     Some ([Printf ''awaiting node health at %s'' [A_str ''http://n1:9650''],
            Call_Health ''http://n1:9650'' (Inr False),
            Printf ''node reported unhealthy at %s'' [A_str ''http://n1:9650''],
            Call_select_ticker (100 * Millisecond) chan_C,
            Call_Health ''http://n1:9650'' (Inr False),
            Printf ''node reported unhealthy at %s'' [A_str ''http://n1:9650''],
            Call_select_ticker (100 * Millisecond) chan_C,
            Call_Health ''http://n1:9650'' (Inr True),
            Printf ''node reported healthy at %s'' [A_str ''http://n1:9650''],
            Printf ''awaiting node health at %s'' [A_str ''http://n2:9650''],
            Call_Health ''http://n2:9650'' (Inr True),
            Printf ''node reported healthy at %s'' [A_str ''http://n2:9650''],
            Println ''all nodes reported healthy''],
           s0\<lparr>clock := 6\<rparr>)
   \<and> awaitHealthyNode_loop 2 env0 ''http://n1:9650'' s0 = None
   \<and> cancelled_at_3 (after_polls env_cancelled ''http://n1:9650'' 2 s0)
   \<and> (\<forall>fuel. awaitHealthyNodes fuel env_cancelled (uris w0) s0 = None)"
proof -
  note gate = readiness_gate_returns_only_when_all_healthy
  have run: "awaitHealthyNodes 3 env0 (uris w0) s0 =
     Some ([Printf ''awaiting node health at %s'' [A_str ''http://n1:9650''],
            Call_Health ''http://n1:9650'' (Inr False),
            Printf ''node reported unhealthy at %s'' [A_str ''http://n1:9650''],
            Call_select_ticker (100 * Millisecond) chan_C,
            Call_Health ''http://n1:9650'' (Inr False),
            Printf ''node reported unhealthy at %s'' [A_str ''http://n1:9650''],
            Call_select_ticker (100 * Millisecond) chan_C,
            Call_Health ''http://n1:9650'' (Inr True),
            Printf ''node reported healthy at %s'' [A_str ''http://n1:9650''],
            Printf ''awaiting node health at %s'' [A_str ''http://n2:9650''],
            Call_Health ''http://n2:9650'' (Inr True),
            Printf ''node reported healthy at %s'' [A_str ''http://n2:9650''],
            Println ''all nodes reported healthy''],
           s0\<lparr>clock := 6\<rparr>)"
    by (simp add: awaitHealthyNodes_def awaitHealthyNode_def env0_def w0_def s0_def tick_def
        numeral_3_eq_3)
  have polls: "\<forall>i < 2. fst (Health env0 ''http://n1:9650''
      (after_polls env0 ''http://n1:9650'' i s0)) \<noteq> Inr True"
    by (simp add: env0_def s0_def tick_def numeral_2_eq_2 All_less_Suc)
  from gate [of 0 env0 "[]" s0 "''http://n1:9650''", THEN conjunct2, THEN conjunct2,
      THEN conjunct1, rule_format, OF polls [rule_format]]
  have none: "awaitHealthyNode_loop 2 env0 ''http://n1:9650'' s0 = None"
    by simp
  have c: "cancelled_at_3 (after_polls env_cancelled ''http://n1:9650'' 2 s0)"
    by (simp add: cancelled_at_3_def env_cancelled_def env0_def s0_def tick_def numeral_2_eq_2)
  have prem: "(\<forall>t u. cancelled_at_3 t \<longrightarrow>
           (\<exists>e. fst (Health env_cancelled u t) = Inl e)
           \<and> cancelled_at_3 (snd (Health env_cancelled u t)))
        \<and> (\<forall>t d. cancelled_at_3 t \<longrightarrow> cancelled_at_3 (snd (select_ticker env_cancelled d t)))
        \<and> awaitHealthyNodes_uris 0 env_cancelled [] s0 = Some ([], s0)
        \<and> (\<forall>i < 2. fst (Health env_cancelled ''http://n1:9650''
              (after_polls env_cancelled ''http://n1:9650'' i s0)) \<noteq> Inr True)
        \<and> cancelled_at_3 (after_polls env_cancelled ''http://n1:9650'' 2 s0)"
    using c
    by (simp add: cancelled_at_3_def env_cancelled_def env0_def s0_def tick_def
        numeral_2_eq_2 All_less_Suc)
  from gate [of 0 env_cancelled "[]" s0 "''http://n1:9650''", THEN conjunct2, THEN conjunct2,
      THEN conjunct2, rule_format, OF prem, of _ "[''http://n2:9650'']"]
  have never: "\<forall>fuel. awaitHealthyNodes fuel env_cancelled (uris w0) s0 = None"
    by (simp add: w0_def)
  from run none c never show ?thesis by (intro conjI)
qed


end
